(* ===== verification/Prelude.thy ===== *)
theory Prelude
  imports Main
begin

text \<open>
  Shared vocabulary of the MovieHub development: the JavaScript array and string
  primitives the server (\<open>src/server/index.js\<close>) and the client
  (\<open>src/client/app.js\<close>) call, written as executable HOL functions, with the
  lemmas the component theories use about them.
  \<^item> \<open>find_index\<close> is \<open>Array.prototype.findIndex\<close> (\<open>-1\<close> when nothing matches);
    \<open>Array.prototype.find\<close> is the library's \<^const>\<open>List.find\<close>;
  \<^item> \<open>nth_opt\<close> is JavaScript indexing \<open>xs[i]\<close>, \<open>undefined\<close> out of range;
  \<^item> \<open>split_on\<close> is \<open>String.prototype.split\<close> with a one-character separator;
  \<^item> \<open>dec_str\<close> is \<open>Number.prototype.toString()\<close> on a non-negative integer and
    \<open>parse_dec\<close> reads it back.
  The collection \<open>model_defs\<close> gathers the definitions of the handlers, so that a
  component proof unfolds them with \<open>simp add: model_defs\<close>.
\<close>

named_theorems model_defs "definitions of the modelled handlers and operations"

type_synonym millis = nat \<comment> \<open>\<open>Date.now()\<close>: milliseconds since the epoch\<close>

section \<open>Arrays\<close>

fun find_index :: "('a \<Rightarrow> bool) \<Rightarrow> 'a list \<Rightarrow> int" where
  "find_index P [] = -1"
| "find_index P (x # xs) =
     (if P x then 0 else (let i = find_index P xs in if i = -1 then -1 else i + 1))"

fun nth_opt :: "'a list \<Rightarrow> nat \<Rightarrow> 'a option" where
  "nth_opt [] i = None"
| "nth_opt (x # xs) 0 = Some x"
| "nth_opt (x # xs) (Suc i) = nth_opt xs i"

section \<open>Strings\<close>

fun split_on :: "char \<Rightarrow> string \<Rightarrow> string list" where
  "split_on c [] = [[]]"
| "split_on c (x # xs) =
     (if x = c then [] # split_on c xs
      else (case split_on c xs of w # ws \<Rightarrow> (x # w) # ws | [] \<Rightarrow> [[x]]))"

fun join_on :: "char \<Rightarrow> string list \<Rightarrow> string" where
  "join_on c [] = []"
| "join_on c [w] = w"
| "join_on c (w # ws) = w @ c # join_on c ws"

definition digit_chr :: "nat \<Rightarrow> char" where
  "digit_chr d = char_of (48 + d)"

definition digit_val :: "char \<Rightarrow> nat option" where
  "digit_val c = (let n = of_char c in if 48 \<le> n \<and> n < 58 then Some (n - 48) else None)"

fun dec_str :: "nat \<Rightarrow> string" where
  "dec_str n = (if n < 10 then [digit_chr n] else dec_str (n div 10) @ [digit_chr (n mod 10)])"

fun parse_dec_acc :: "nat \<Rightarrow> string \<Rightarrow> nat option" where
  "parse_dec_acc acc [] = Some acc"
| "parse_dec_acc acc (c # cs) =
     (case digit_val c of None \<Rightarrow> None | Some d \<Rightarrow> parse_dec_acc (10 * acc + d) cs)"

definition parse_dec :: "string \<Rightarrow> nat option" where
  "parse_dec s = (if s = [] then None else parse_dec_acc 0 s)"

declare dec_str.simps [simp del]

section \<open>Lemmas on arrays\<close>

lemma find_index_ge: "-1 \<le> find_index P xs"
  by (induction xs) (auto simp: Let_def)

lemma find_index_none_iff [simp]:
  "find_index P xs = -1 \<longleftrightarrow> (\<forall>x\<in>set xs. \<not> P x)"
proof (induction xs)
  case (Cons x xs)
  have "-1 \<le> find_index P xs" by (rule find_index_ge)
  with Cons show ?case by (auto simp: Let_def)
qed simp

lemma find_index_nonneg: "find_index P xs \<noteq> -1 \<Longrightarrow> 0 \<le> find_index P xs"
  using find_index_ge [of P xs] by arith

lemma find_index_Cons_found:
  "\<not> P x \<Longrightarrow> find_index P xs \<noteq> -1 \<Longrightarrow>
   nat (find_index P (x # xs)) = Suc (nat (find_index P xs))"
  using find_index_nonneg [of P xs] by (simp add: Let_def nat_add_distrib)

lemma find_index_eq_find:
  "List.find P xs = (if find_index P xs = -1 then None else Some (xs ! nat (find_index P xs)))"
proof (induction xs)
  case (Cons x xs)
  show ?case
  proof (cases "P x")
    case False
    show ?thesis
    proof (cases "find_index P xs = -1")
      case True
      with False show ?thesis by (simp add: Let_def find_None_iff)
    next
      case nf: False
      have "find_index P (x # xs) = find_index P xs + 1" using False nf by (simp add: Let_def del: find_index_none_iff)
      moreover have "find_index P xs + 1 \<noteq> -1" using find_index_ge [of P xs] by arith
      ultimately show ?thesis
        using Cons.IH False nf find_index_Cons_found [of P x xs, OF False] by auto
    qed
  qed simp
qed simp

lemma find_index_found:
  assumes "find_index P xs \<noteq> -1"
  shows "0 \<le> find_index P xs \<and> nat (find_index P xs) < length xs \<and>
         P (xs ! nat (find_index P xs)) \<and>
         (\<forall>j < nat (find_index P xs). \<not> P (xs ! j))"
  using assms
proof (induction xs)
  case (Cons x xs)
  show ?case
  proof (cases "P x")
    case False
    have nf: "find_index P xs \<noteq> -1"
      using Cons.prems False by (auto simp: Let_def split: if_splits)
    note ih = Cons.IH [OF nf]
    note eq = find_index_Cons_found [of P x xs, OF False nf]
    have "\<not> P ((x # xs) ! j)" if "j < nat (find_index P (x # xs))" for j
      using that ih False eq by (cases j) auto
    then show ?thesis using ih eq False nf find_index_nonneg [OF Cons.prems] by simp
  qed simp
qed simp

lemma find_SomeD: "List.find P xs = Some x \<Longrightarrow> x \<in> set xs \<and> P x"
  by (induction xs) (auto split: if_splits)

lemma nth_opt_nth: "nth_opt xs i = (if i < length xs then Some (xs ! i) else None)"
  by (induction xs i rule: nth_opt.induct) auto

section \<open>Lemmas on strings\<close>

lemma split_on_no_sep: "c \<notin> set w \<Longrightarrow> split_on c w = [w]"
  by (induction w) auto

lemma split_on_append_sep:
  "c \<notin> set w \<Longrightarrow> split_on c (w @ c # rest) = w # split_on c rest"
proof (induction w)
  case Nil
  then show ?case by simp
next
  case (Cons x w)
  then have "x \<noteq> c" by auto
  with Cons show ?case by simp
qed

lemma split_on_ne: "split_on c s \<noteq> []"
  by (induction s) (auto split: list.splits)

lemma split_on_join_on:
  "ws \<noteq> [] \<Longrightarrow> \<forall>w\<in>set ws. c \<notin> set w \<Longrightarrow> split_on c (join_on c ws) = ws"
proof (induction c ws rule: join_on.induct)
  case (3 c w v vs)
  then show ?case by (simp add: split_on_append_sep)
qed (simp_all add: split_on_no_sep)

lemma of_char_digit_chr: "d < 10 \<Longrightarrow> of_char (digit_chr d) = 48 + d"
  by (simp add: digit_chr_def)

lemma digit_val_digit_chr [simp]: "d < 10 \<Longrightarrow> digit_val (digit_chr d) = Some d"
  by (simp add: digit_val_def of_char_digit_chr)

lemma parse_dec_acc_append:
  "parse_dec_acc acc (xs @ ys) =
     (case parse_dec_acc acc xs of None \<Rightarrow> None | Some a \<Rightarrow> parse_dec_acc a ys)"
  by (induction acc xs rule: parse_dec_acc.induct) (auto split: option.splits)

lemma parse_dec_acc_dec_str: "parse_dec_acc 0 (dec_str n) = Some n"
proof (induction n rule: dec_str.induct)
  case (1 n)
  show ?case
  proof (cases "n < 10")
    case True
    then show ?thesis by (simp add: dec_str.simps [of n])
  next
    case False
    with "1.IH" have "parse_dec_acc 0 (dec_str (n div 10)) = Some (n div 10)" by simp
    with False show ?thesis by (simp add: dec_str.simps [of n] parse_dec_acc_append)
  qed
qed

lemma dec_str_ne [simp]: "dec_str n \<noteq> []"
  by (subst dec_str.simps) simp

text \<open>Reading back what \<open>toString\<close> printed gives the number: the round trip of
  the decimal codec.\<close>

lemma parse_dec_dec_str [simp]: "parse_dec (dec_str n) = Some n"
  by (simp add: parse_dec_def parse_dec_acc_dec_str)

lemma set_dec_str_digits: "set (dec_str n) \<subseteq> digit_chr ` {..<10}"
proof (induction n rule: dec_str.induct)
  case (1 n)
  then show ?case by (cases "n < 10") (auto simp: dec_str.simps [of n] intro!: imageI)
qed

lemma digit_chr_inj: "d < 10 \<Longrightarrow> e < 10 \<Longrightarrow> digit_chr d = digit_chr e \<longleftrightarrow> d = e"
  using of_char_digit_chr [of d] of_char_digit_chr [of e] by (metis add_left_cancel)

lemma dec_str_inj: "dec_str m = dec_str n \<longleftrightarrow> m = n"
proof
  assume "dec_str m = dec_str n"
  then have "parse_dec (dec_str m) = parse_dec (dec_str n)" by simp
  then show "m = n" by simp
qed simp

lemma find_index_update:
  "i < length xs \<Longrightarrow> P x = P (xs ! i) \<Longrightarrow> find_index P (xs[i := x]) = find_index P xs"
proof (induction xs arbitrary: i)
  case (Cons y ys)
  then show ?case by (cases i) (auto simp: Let_def)
qed simp

lemma find_append:
  "List.find P (xs @ ys) = (case List.find P xs of None \<Rightarrow> List.find P ys | Some x \<Rightarrow> Some x)"
  by (induction xs) auto

lemma find_append_new:
  assumes "\<forall>x\<in>set xs. \<not> P x" and "P y"
  shows "List.find P (xs @ [y]) = Some y"
  using assms by (induction xs) auto

end
