(* ===== verification/Json.thy ===== *)
theory Json
  imports Prelude
begin

text \<open>
  JavaScript values as the server sees them. Every value the handlers of
  \<open>src/server/index.js\<close> touch comes from \<open>JSON.parse\<close> (the request body read by
  \<open>express.json()\<close>, the users file read by \<open>readUsers\<close>) or is built by the code
  itself, so a value is a JSON value, and \<open>undefined\<close> (a missing property) is
  \<^const>\<open>None\<close> of \<open>json option\<close>. JSON numbers are kept as integers: the ids
  the code compares are TMDb's integer ids and strings.

  The operations are the JavaScript semantics the code relies on:
  \<^item> \<open>truthy\<close>: the tests \<open>!x\<close>, \<open>x || d\<close>, \<open>if (x)\<close>;
  \<^item> \<open>strict_eq\<close>: \<open>===\<close>; two objects or arrays are equal only when they are
    the same reference, and no object read from a request is ever the same
    reference as one read from the users file, so \<open>===\<close> on them is false;
  \<^item> \<open>get_prop\<close>: property access \<open>o.k\<close>; \<open>JSON.parse\<close> keeps the last of
    duplicated keys; a non-object has none of the properties the code reads
    (\<open>id\<close>, \<open>name\<close>, \<open>email\<close>, \<open>password\<close>, \<open>movie\<close>, none of which is
    inherited from \<open>Object.prototype\<close>);
  \<^item> \<open>obj_set\<close> and \<open>obj_spread\<close>: property assignment and the object spread
    \<open>{...a, ...b}\<close> (a key keeps its first position, the last value wins);
  \<^item> \<open>json_print\<close>: \<open>JSON.stringify\<close> without indentation.
\<close>

datatype json =
    JNull
  | JBool bool
  | JNum int
  | JStr string
  | JArr "json list"
  | JObj "(string \<times> json) list"

section \<open>Truthiness and strict equality\<close>

fun truthy :: "json option \<Rightarrow> bool" where
  "truthy None = False"
| "truthy (Some JNull) = False"
| "truthy (Some (JBool b)) = b"
| "truthy (Some (JNum n)) = (n \<noteq> 0)"
| "truthy (Some (JStr s)) = (s \<noteq> [])"
| "truthy (Some (JArr vs)) = True"
| "truthy (Some (JObj kvs)) = True"

fun is_compound :: "json \<Rightarrow> bool" where
  "is_compound (JArr vs) = True"
| "is_compound (JObj kvs) = True"
| "is_compound _ = False"

fun is_obj :: "json \<Rightarrow> bool" where
  "is_obj (JObj kvs) = True"
| "is_obj _ = False"

fun strict_eq :: "json option \<Rightarrow> json option \<Rightarrow> bool" where
  "strict_eq None None = True"
| "strict_eq (Some JNull) (Some JNull) = True"
| "strict_eq (Some (JBool a)) (Some (JBool b)) = (a = b)"
| "strict_eq (Some (JNum m)) (Some (JNum n)) = (m = n)"
| "strict_eq (Some (JStr s)) (Some (JStr t)) = (s = t)"
| "strict_eq _ _ = False"

definition js_or :: "json option \<Rightarrow> json \<Rightarrow> json" where
  "js_or x d = (if truthy x then the x else d)" \<comment> \<open>\<open>x || d\<close>\<close>

section \<open>Objects\<close>

fun get_prop :: "json \<Rightarrow> string \<Rightarrow> json option" where
  "get_prop (JObj kvs) k = map_of (rev kvs) k"
| "get_prop _ k = None"

definition get_opt :: "json option \<Rightarrow> string \<Rightarrow> json option" where
  "get_opt x k = (case x of None \<Rightarrow> None | Some v \<Rightarrow> get_prop v k)"

fun obj_set :: "(string \<times> 'v) list \<Rightarrow> string \<Rightarrow> 'v \<Rightarrow> (string \<times> 'v) list" where
  "obj_set [] k v = [(k, v)]"
| "obj_set ((k', v') # kvs) k v =
     (if k' = k then (k, v) # kvs else (k', v') # obj_set kvs k v)"

definition obj_spread :: "(string \<times> 'v) list \<Rightarrow> (string \<times> 'v) list \<Rightarrow> (string \<times> 'v) list" where
  "obj_spread a b = fold (\<lambda>(k, v) acc. obj_set acc k v) b a"

definition err_body :: "string \<Rightarrow> json" where
  "err_body msg = JObj [(''error'', JStr msg)]"

section \<open>Printing\<close>

definition hex_digit :: "nat \<Rightarrow> char" where
  "hex_digit d = (if d < 10 then char_of (48 + d) else char_of (87 + d))"

definition chr_quote :: char where "chr_quote = char_of (34::nat)"

definition chr_backslash :: char where "chr_backslash = char_of (92::nat)"

definition short_escape :: "nat \<Rightarrow> char option" where
  "short_escape n =
     (if n = 8 then Some (CHR ''b'') else if n = 9 then Some (CHR ''t'')
      else if n = 10 then Some (CHR ''n'') else if n = 12 then Some (CHR ''f'')
      else if n = 13 then Some (CHR ''r'') else None)"

definition escape_char :: "char \<Rightarrow> string" where
  "escape_char c =
     (let n = (of_char c :: nat) in
      if c = chr_quote \<or> c = chr_backslash then [chr_backslash, c]
      else if n < 32 then
        (case short_escape n of
           Some e \<Rightarrow> [chr_backslash, e]
         | None \<Rightarrow> chr_backslash # ''u00'' @ [hex_digit (n div 16), hex_digit (n mod 16)])
      else [c])"

definition quote_str :: "string \<Rightarrow> string" where
  "quote_str s = chr_quote # concat (map escape_char s) @ [chr_quote]"

definition int_str :: "int \<Rightarrow> string" where
  "int_str i = (if i < 0 then CHR ''-'' # dec_str (nat (- i)) else dec_str (nat i))"

fun json_print :: "json \<Rightarrow> string" where
  "json_print JNull = ''null''"
| "json_print (JBool b) = (if b then ''true'' else ''false'')"
| "json_print (JNum n) = int_str n"
| "json_print (JStr s) = quote_str s"
| "json_print (JArr vs) = CHR ''['' # join_on CHR '','' (map json_print vs) @ '']''"
| "json_print (JObj kvs) =
     CHR ''{'' # join_on CHR '','' (map (\<lambda>(k, v). quote_str k @ CHR '':'' # json_print v) kvs) @ ''}''"

section \<open>Lemmas\<close>

lemma strict_eq_sym: "strict_eq a b = strict_eq b a"
  by (cases "(a, b)" rule: strict_eq.cases) auto

lemma strict_eq_refl_iff: "strict_eq (Some v) (Some v) \<longleftrightarrow> \<not> is_compound v"
  by (cases v) auto

lemma strict_eq_trans: "strict_eq a b \<Longrightarrow> strict_eq b c \<Longrightarrow> strict_eq a c"
  by (cases "(a, b)" rule: strict_eq.cases; cases c) auto

lemma truthy_not_None: "truthy x \<Longrightarrow> x \<noteq> None"
  by (cases x) auto

lemma truthy_obj: "is_obj v \<Longrightarrow> truthy (Some v)"
  by (cases v) auto

lemma truthy_Some_the: "truthy x \<Longrightarrow> Some (the x) = x"
  by (cases x) auto

lemma map_of_obj_set: "map_of (obj_set kvs k v) k' = (if k' = k then Some v else map_of kvs k')"
  by (induction kvs k v rule: obj_set.induct) auto

lemma map_of_obj_spread:
  "map_of (obj_spread a b) k = (case map_of (rev b) k of Some v \<Rightarrow> Some v | None \<Rightarrow> map_of a k)"
proof (induction b arbitrary: a rule: rev_induct)
  case Nil
  then show ?case by (simp add: obj_spread_def)
next
  case (snoc x b)
  then show ?case
    by (cases x) (simp add: obj_spread_def map_of_obj_set split: option.splits)
qed

end
