(* ===== verification/Crypto.thy ===== *)
theory Crypto
  imports Json
begin

text \<open>
  The two libraries the auth code calls, \<open>bcrypt\<close> and \<open>jsonwebtoken\<close>, as far as
  the handlers of \<open>src/server/index.js\<close> depend on them. They are not code of
  the repository: the model follows their documented contract (and the spec,
  section 4.2 and 3) under the usual perfect-cryptography idealisation.

  \<^bold>\<open>bcrypt.\<close> A hash is the symbolic term \<open>Bcrypt cost salt key\<close>: it records
  what the real hash is a one-way function of. bcrypt reads at most the first 72
  bytes of the password, so \<open>key\<close> is \<open>take 72\<close> of it. \<open>bcrypt.hash\<close> and
  \<open>bcrypt.compare\<close> reject (their promise fails) when the password is not a
  string, which the model returns as \<^const>\<open>None\<close>. The salt is the random input
  of \<open>bcrypt.hash\<close> and is a parameter.

  \<^bold>\<open>jsonwebtoken.\<close> A token is the string \<open>header.payload.signature\<close>. The
  payload carries the claims \<open>id\<close>, \<open>email\<close>, \<open>iat\<close> and \<open>exp\<close>; here it is the
  hexadecimal encoding of the id and of the email's JSON text and the decimal
  \<open>iat\<close> and \<open>exp\<close>, separated by \<open>_\<close> (the library uses base64url of the JSON
  text: both alphabets avoid \<open>.\<close> and space, which is all the code relies on).
  The signature is \<open>hs256 secret (header.payload)\<close>, an injective function of key
  and message standing for HMAC-SHA256. \<open>jwt.sign(.., {expiresIn: '7d'})\<close> sets
  \<open>iat\<close> to the clock in seconds and \<open>exp = iat + 604800\<close>; \<open>jwt.verify\<close> fails on
  a missing or empty token, a token that is not three parts, a foreign header, a
  wrong signature, an undecodable payload, and when the clock in seconds has
  reached \<open>exp\<close>.
\<close>

section \<open>bcrypt\<close>

datatype pwhash = Bcrypt nat string string \<comment> \<open>cost, salt, first 72 bytes of the password\<close>

definition bcrypt_key :: "string \<Rightarrow> string" where
  "bcrypt_key p = take 72 p"

definition bcrypt_hash :: "json option \<Rightarrow> nat \<Rightarrow> string \<Rightarrow> pwhash option" where
  "bcrypt_hash pw cost salt =
     (case pw of Some (JStr p) \<Rightarrow> Some (Bcrypt cost salt (bcrypt_key p)) | _ \<Rightarrow> None)"

definition bcrypt_compare :: "json option \<Rightarrow> pwhash \<Rightarrow> bool option" where
  "bcrypt_compare pw h =
     (case pw of
        Some (JStr p) \<Rightarrow> (case h of Bcrypt cost salt key \<Rightarrow> Some (bcrypt_key p = key))
      | _ \<Rightarrow> None)"

section \<open>Hexadecimal codec\<close>

definition hex_pair :: "char \<Rightarrow> string" where
  "hex_pair c = [hex_digit (of_char c div 16), hex_digit (of_char c mod 16)]"

definition hex_enc :: "string \<Rightarrow> string" where
  "hex_enc s = concat (map hex_pair s)"

definition hex_val :: "char \<Rightarrow> nat option" where
  "hex_val c =
     (let n = (of_char c :: nat) in
      if 48 \<le> n \<and> n < 58 then Some (n - 48)
      else if 97 \<le> n \<and> n < 103 then Some (n - 87) else None)"

fun hex_dec :: "string \<Rightarrow> string option" where
  "hex_dec [] = Some []"
| "hex_dec [c] = None"
| "hex_dec (a # b # rest) =
     (case (hex_val a, hex_val b, hex_dec rest) of
        (Some x, Some y, Some r) \<Rightarrow> Some (char_of (16 * x + y) # r)
      | _ \<Rightarrow> None)"

section \<open>JSON web tokens\<close>

record claims =
  claim_id :: string
  claim_email :: string \<comment> \<open>the JSON text of the \<open>email\<close> claim\<close>
  claim_iat :: nat
  claim_exp :: nat

definition token_ttl :: nat where
  "token_ttl = 7 * 24 * 60 * 60" \<comment> \<open>\<open>expiresIn: '7d'\<close>, in seconds\<close>

definition jwt_header :: string where
  "jwt_header = hex_enc (json_print (JObj [(''alg'', JStr ''HS256''), (''typ'', JStr ''JWT'')]))"

definition hs256 :: "string \<Rightarrow> string \<Rightarrow> string" where
  "hs256 key msg = hex_enc (msg @ char_of (0::nat) # key)"

definition payload_enc :: "claims \<Rightarrow> string" where
  "payload_enc c =
     join_on (CHR ''_'')
       [hex_enc (claim_id c), hex_enc (claim_email c), dec_str (claim_iat c), dec_str (claim_exp c)]"

definition payload_dec :: "string \<Rightarrow> claims option" where
  "payload_dec p =
     (case split_on (CHR ''_'') p of
        [a, b, c, d] \<Rightarrow>
          (case (hex_dec a, hex_dec b, parse_dec c, parse_dec d) of
             (Some i, Some e, Some t, Some x) \<Rightarrow>
               Some \<lparr>claim_id = i, claim_email = e, claim_iat = t, claim_exp = x\<rparr>
           | _ \<Rightarrow> None)
      | _ \<Rightarrow> None)"

definition jwt_sign :: "string \<Rightarrow> string \<Rightarrow> json \<Rightarrow> millis \<Rightarrow> string" where
  "jwt_sign secret uid email now =
     (let c = \<lparr>claim_id = uid, claim_email = json_print email,
               claim_iat = now div 1000, claim_exp = now div 1000 + token_ttl\<rparr>;
          body = jwt_header @ CHR ''.'' # payload_enc c
      in body @ CHR ''.'' # hs256 secret body)"

definition jwt_verify :: "string \<Rightarrow> millis \<Rightarrow> string option \<Rightarrow> claims option" where
  "jwt_verify secret now tok =
     (case tok of
        None \<Rightarrow> None
      | Some t \<Rightarrow>
          (case split_on (CHR ''.'') t of
             [h, p, s] \<Rightarrow>
               (if h \<noteq> jwt_header \<or> s \<noteq> hs256 secret (h @ CHR ''.'' # p) then None
                else (case payload_dec p of
                        None \<Rightarrow> None
                      | Some c \<Rightarrow> if claim_exp c \<le> now div 1000 then None else Some c))
           | _ \<Rightarrow> None))"

section \<open>Codec and token lemmas\<close>

lemma hex_digit_lt: "d < 16 \<Longrightarrow> hex_val (hex_digit d) = Some d"
  by (auto simp: hex_val_def hex_digit_def)

lemma of_char_div_16: "(of_char c :: nat) div 16 < 16"
  using nat_of_char_less_256 [of c] by (intro less_mult_imp_div_less) simp

lemma hex_dec_hex_enc [simp]: "hex_dec (hex_enc s) = Some s"
proof (induction s)
  case (Cons c s)
  have "16 * ((of_char c :: nat) div 16) + of_char c mod 16 = of_char c" by simp
  then have "char_of (16 * ((of_char c :: nat) div 16) + of_char c mod 16) = c" by simp
  with Cons show ?case by (simp add: hex_enc_def hex_pair_def hex_digit_lt of_char_div_16)
qed (simp add: hex_enc_def)

lemma hex_enc_chars: "set (hex_enc s) \<subseteq> hex_digit ` {..<16}"
  by (auto simp: hex_enc_def hex_pair_def of_char_div_16 intro!: imageI)

lemma of_char_hex_digit:
  "d < 16 \<Longrightarrow> (of_char (hex_digit d) :: nat) = (if d < 10 then 48 + d else 87 + d)"
  by (simp add: hex_digit_def)

lemma hex_digit_not: "d < 16 \<Longrightarrow> hex_digit d \<notin> {CHR ''.'', CHR ''_'', CHR '' ''}"
proof
  assume d: "d < 16" and "hex_digit d \<in> {CHR ''.'', CHR ''_'', CHR '' ''}"
  then have "(of_char (hex_digit d) :: nat) \<in> {46, 95, 32}" by auto
  with d show False by (simp add: of_char_hex_digit split: if_splits)
qed

lemma digit_chr_not: "d < 10 \<Longrightarrow> digit_chr d \<notin> {CHR ''.'', CHR ''_'', CHR '' ''}"
proof
  assume d: "d < 10" and "digit_chr d \<in> {CHR ''.'', CHR ''_'', CHR '' ''}"
  then have "(of_char (digit_chr d) :: nat) \<in> {46, 95, 32}" by auto
  with d show False by (simp add: of_char_digit_chr)
qed

lemma hex_enc_no_sep:
  assumes sep: "c \<in> {CHR ''.'', CHR ''_'', CHR '' ''}"
  shows "c \<notin> set (hex_enc s)"
proof
  assume "c \<in> set (hex_enc s)"
  then have "c \<in> hex_digit ` {..<16}" by (rule subsetD [OF hex_enc_chars])
  then obtain d where d: "d < 16" and c: "c = hex_digit d" by auto
  from hex_digit_not [OF d] sep c show False by simp
qed

lemma dec_str_no_sep:
  assumes sep: "c \<in> {CHR ''.'', CHR ''_'', CHR '' ''}"
  shows "c \<notin> set (dec_str n)"
proof
  assume "c \<in> set (dec_str n)"
  then have "c \<in> digit_chr ` {..<10}" by (rule subsetD [OF set_dec_str_digits])
  then obtain d where d: "d < 10" and c: "c = digit_chr d" by auto
  from digit_chr_not [OF d] sep c show False by simp
qed

lemma payload_dec_enc [simp]: "payload_dec (payload_enc c) = Some c"
proof -
  have "split_on (CHR ''_'') (payload_enc c) =
        [hex_enc (claim_id c), hex_enc (claim_email c), dec_str (claim_iat c), dec_str (claim_exp c)]"
    unfolding payload_enc_def
    by (rule split_on_join_on) (simp_all add: hex_enc_no_sep dec_str_no_sep)
  then show ?thesis by (simp add: payload_dec_def)
qed

lemma payload_enc_no_dot: "CHR ''.'' \<notin> set (payload_enc c)"
proof -
  have "CHR ''.'' \<notin> set (join_on (CHR ''_'') ws)" if "\<forall>w\<in>set ws. CHR ''.'' \<notin> set w" for ws
    using that by (induction "CHR ''_''" ws rule: join_on.induct) auto
  then show ?thesis
    unfolding payload_enc_def by (simp add: hex_enc_no_sep dec_str_no_sep)
qed

lemma hex_enc_inj: "hex_enc s = hex_enc t \<longleftrightarrow> s = t"
  by (metis hex_dec_hex_enc option.inject)

lemma hs256_key_inj: "hs256 k msg = hs256 k' msg \<longleftrightarrow> k = k'"
  by (simp add: hs256_def hex_enc_inj)

lemma jwt_parts_no_dot:
  "CHR ''.'' \<notin> set jwt_header" "CHR ''.'' \<notin> set (hs256 k m)"
  by (simp_all add: jwt_header_def hs256_def hex_enc_no_sep)

lemma split_jwt_sign:
  "split_on (CHR ''.'') (jwt_sign secret uid email now) =
     [jwt_header, payload_enc \<lparr>claim_id = uid, claim_email = json_print email,
        claim_iat = now div 1000, claim_exp = now div 1000 + token_ttl\<rparr>,
      hs256 secret (jwt_header @ CHR ''.'' # payload_enc \<lparr>claim_id = uid,
        claim_email = json_print email, claim_iat = now div 1000,
        claim_exp = now div 1000 + token_ttl\<rparr>)]"
  by (simp add: jwt_sign_def Let_def split_on_append_sep split_on_no_sep
        jwt_parts_no_dot payload_enc_no_dot)

lemma jwt_verify_sign:
  "jwt_verify secret' now (Some (jwt_sign secret uid email t0)) =
     (if secret' \<noteq> secret \<or> t0 div 1000 + token_ttl \<le> now div 1000 then None
      else Some \<lparr>claim_id = uid, claim_email = json_print email,
                 claim_iat = t0 div 1000, claim_exp = t0 div 1000 + token_ttl\<rparr>)"
  by (simp add: jwt_verify_def split_jwt_sign hs256_key_inj)

lemma jwt_sign_no_space: "CHR '' '' \<notin> set (jwt_sign secret uid email now)"
proof -
  have "CHR '' '' \<notin> set (join_on (CHR ''_'') ws)" if "\<forall>w\<in>set ws. CHR '' '' \<notin> set w" for ws
    using that by (induction "CHR ''_''" ws rule: join_on.induct) auto
  then have "CHR '' '' \<notin> set (payload_enc c)" for c
    unfolding payload_enc_def by (simp add: hex_enc_no_sep dec_str_no_sep)
  then show ?thesis
    by (simp add: jwt_sign_def Let_def jwt_header_def hs256_def hex_enc_no_sep)
qed

end
