(* ===== verification/Store.thy ===== *)
theory Store
  imports Crypto
begin

text \<open>
  The user store of \<open>src/server/index.js\<close>: the file \<open>users.json\<close> holding one
  JSON array of user records, read whole by \<open>readUsers\<close> (lines 38--40) and
  rewritten whole by \<open>writeUsers\<close> (lines 41--43); the start-up code creates it
  holding \<open>[]\<close> when it is absent (line 28). A user record is the object built
  by the signup handler (line 113): \<open>id\<close> a string, \<open>name\<close> and \<open>email\<close> whatever
  JSON values the request carried, \<open>passwordHash\<close> a bcrypt hash and
  \<open>watchlist\<close> an array of the movie objects the watchlist handler stored.

  The file is modelled by its contents: \<open>Missing\<close> (\<open>readFileSync\<close> throws),
  \<open>Blank\<close> (the empty text, which the code reads as \<open>'[]'\<close>) and
  \<open>Stored us\<close>. Theory \<open>StoreText\<close> refines this model by the text on
  disk: every value the code stores is a JSON value and comes back equal.

  \<open>wf_store\<close> is the store's type invariant: every email is truthy, no two
  users' emails are \<open>===\<close>, and every watchlist is well formed (\<open>wf_watchlist\<close>:
  every item is an object with a truthy \<open>id\<close>, and no two items' ids are
  \<open>===\<close>). User ids are not in it: the code does not keep them unique.
\<close>

record user =
  user_id :: string
  user_name :: json
  user_email :: json
  user_passwordHash :: pwhash
  user_watchlist :: "json list"

datatype users_file = Missing | Blank | Stored "user list"

definition readUsers :: "users_file \<Rightarrow> user list option" where
  "readUsers f = (case f of Missing \<Rightarrow> None | Blank \<Rightarrow> Some [] | Stored us \<Rightarrow> Some us)"

definition writeUsers :: "user list \<Rightarrow> users_file" where
  "writeUsers us = Stored us"

definition ensure_users_file :: "users_file \<Rightarrow> users_file" where
  "ensure_users_file f = (if f = Missing then writeUsers [] else f)"

definition public_user :: "user \<Rightarrow> json" where
  "public_user u = JObj [(''id'', JStr (user_id u)), (''name'', user_name u), (''email'', user_email u)]"

section \<open>Invariant\<close>

definition pairwise_distinct_by :: "('a \<Rightarrow> json option) \<Rightarrow> 'a list \<Rightarrow> bool" where
  "pairwise_distinct_by key xs \<longleftrightarrow> sorted_wrt (\<lambda>a b. \<not> strict_eq (key a) (key b)) xs"

definition item_id :: "json \<Rightarrow> json option" where
  "item_id m = get_prop m ''id''"

definition wf_item :: "json \<Rightarrow> bool" where
  "wf_item m \<longleftrightarrow> is_obj m \<and> truthy (item_id m)"

definition wf_watchlist :: "json list \<Rightarrow> bool" where
  "wf_watchlist wl \<longleftrightarrow> list_all wf_item wl \<and> pairwise_distinct_by item_id wl"

definition wf_user :: "user \<Rightarrow> bool" where
  "wf_user u \<longleftrightarrow> truthy (Some (user_email u)) \<and> wf_watchlist (user_watchlist u)"

definition wf_users :: "user list \<Rightarrow> bool" where
  "wf_users us \<longleftrightarrow> list_all wf_user us \<and> pairwise_distinct_by (\<lambda>u. Some (user_email u)) us"

definition wf_store :: "users_file \<Rightarrow> bool" where
  "wf_store f \<longleftrightarrow> (case f of Stored us \<Rightarrow> wf_users us | _ \<Rightarrow> True)"

section \<open>Store lemmas\<close>

lemma pairwise_distinct_by_map:
  "pairwise_distinct_by key xs = sorted_wrt (\<lambda>a b. \<not> strict_eq a b) (map key xs)"
  by (simp add: pairwise_distinct_by_def sorted_wrt_map)

lemma readUsers_Some_file:
  "readUsers f = Some users \<Longrightarrow> users \<noteq> [] \<Longrightarrow> f = Stored users"
  by (cases f) (auto simp: readUsers_def)

lemma readUsers_wf: "wf_store f \<Longrightarrow> readUsers f = Some us \<Longrightarrow> wf_users us"
  by (cases f) (auto simp: readUsers_def wf_store_def wf_users_def pairwise_distinct_by_def)

lemma wf_users_update_watchlist:
  assumes "wf_users us" "i < length us" "wf_watchlist wl"
  shows "wf_users (us[i := (us ! i)\<lparr>user_watchlist := wl\<rparr>])"
proof -
  have "map (\<lambda>u. Some (user_email u)) (us[i := (us ! i)\<lparr>user_watchlist := wl\<rparr>]) =
        map (\<lambda>u. Some (user_email u)) us"
    using assms(2) by (simp add: map_update) (metis list_update_id nth_map)
  then have "pairwise_distinct_by (\<lambda>u. Some (user_email u)) (us[i := (us ! i)\<lparr>user_watchlist := wl\<rparr>]) =
             pairwise_distinct_by (\<lambda>u. Some (user_email u)) us"
    by (simp only: pairwise_distinct_by_map)
  moreover have "wf_user ((us ! i)\<lparr>user_watchlist := wl\<rparr>)"
    using assms nth_mem [OF assms(2)] by (auto simp: wf_users_def wf_user_def list_all_iff)
  then have "list_all wf_user (us[i := (us ! i)\<lparr>user_watchlist := wl\<rparr>])"
    using assms(1) by (auto simp: wf_users_def list_all_iff dest: set_update_subset_insert [THEN subsetD])
  ultimately show ?thesis using assms(1) by (simp add: wf_users_def)
qed

end
