(* ===== verification/Auth.thy ===== *)
theory Auth
  imports Store
begin

text \<open>
  The auth service of \<open>src/server/index.js\<close>: the configuration it reads
  (line 16), the response type every handler produces, the middleware
  \<open>authMiddleware\<close> (lines 46--57) and the handlers \<open>POST /auth/signup\<close>
  (lines 107--118), \<open>POST /auth/login\<close> (lines 121--130) and \<open>GET /auth/me\<close>
  (lines 133--138).

  A handler takes the users file and the parsed request and returns the
  response with the file afterwards. Three ends besides a JSON reply are
  distinguished, because Express 4 treats them differently: a synchronous
  throw in a handler is caught and answered with status 500
  (\<open>Server_Error\<close>); a throw or a rejected \<open>await\<close> in an \<open>async\<close> handler is an
  unhandled rejection and the request is never answered (\<open>No_Reply\<close>); the
  static middleware and the catch-all route send files (\<open>Static_File\<close>,
  \<open>Index_Html\<close>), a request nothing matches gets Express's 404
  (\<open>Not_Found\<close>), and a JSON body the body parser refuses gets Express's
  default error page with status 400 (\<open>Bad_Request\<close>).

  Signup awaits \<open>bcrypt.hash\<close> between reading and writing the store, and
  other requests may run during the await. It is therefore two steps:
  \<open>signup_begin\<close> (everything before the \<open>await\<close>, ending in a reply or in the
  pending state \<open>signup_pending\<close> holding the array it read) and
  \<open>signup_finish\<close> (everything after, which pushes onto that array and writes
  it); \<open>signup\<close> runs the two back to back. \<open>Date.now()\<close> is the clock of the
  step that calls it; the user id and the token's \<open>iat\<close> are read at the same
  instant.
\<close>

datatype response =
    Reply nat json \<comment> \<open>\<open>res.status(n).json(body)\<close>; \<open>res.json(body)\<close> is status 200\<close>
  | Server_Error \<comment> \<open>Express's answer 500 to a synchronous throw\<close>
  | No_Reply \<comment> \<open>an async handler's rejected promise: no answer at all\<close>
  | Index_Html \<comment> \<open>\<open>res.sendFile(index.html)\<close>\<close>
  | Static_File string \<comment> \<open>a file of the client folder served by \<open>express.static\<close>\<close>
  | Not_Found \<comment> \<open>Express's final 404 for a request no route matches\<close>
  | Bad_Request \<comment> \<open>Express's error page, status 400, for a body \<open>express.json()\<close> refuses\<close>

definition jwt_secret_of :: "string option \<Rightarrow> string" where
  "jwt_secret_of env = (case env of Some s \<Rightarrow> if s = [] then ''replace-this-secret'' else s
                                  | None \<Rightarrow> ''replace-this-secret'')"

definition bcrypt_rounds :: nat where
  "bcrypt_rounds = 10"

section \<open>Middleware\<close>

definition bearer_token :: "string \<Rightarrow> string option" where
  "bearer_token auth = nth_opt (split_on (CHR '' '') auth) 1" \<comment> \<open>\<open>auth.split(' ')[1]\<close>\<close>

definition authMiddleware :: "string \<Rightarrow> millis \<Rightarrow> string option \<Rightarrow> response + claims" where
  "authMiddleware secret now hdr =
     (if hdr = None \<or> hdr = Some [] then Inl (Reply 401 (err_body ''Missing auth token''))
      else (case jwt_verify secret now (bearer_token (the hdr)) of
              None \<Rightarrow> Inl (Reply 401 (err_body ''Invalid token''))
            | Some c \<Rightarrow> Inr c))"

section \<open>Signup\<close>

record signup_pending =
  pend_users :: "user list" \<comment> \<open>the array \<open>readUsers()\<close> returned before the await\<close>
  pend_name :: "json option"
  pend_email :: json
  pend_password :: "json option"

definition email_taken :: "user list \<Rightarrow> json option \<Rightarrow> bool" where
  "email_taken users email = (List.find (\<lambda>u. strict_eq (Some (user_email u)) email) users \<noteq> None)"

definition signup_begin :: "users_file \<Rightarrow> json \<Rightarrow> response + signup_pending" where
  "signup_begin f body =
     (let name = get_prop body ''name''; email = get_prop body ''email'';
          password = get_prop body ''password'' in
      if \<not> truthy email \<or> \<not> truthy password then Inl (Reply 400 (err_body ''Missing fields''))
      else (case readUsers f of
              None \<Rightarrow> Inl No_Reply
            | Some users \<Rightarrow>
                if email_taken users email then Inl (Reply 400 (err_body ''Email exists''))
                else Inr \<lparr>pend_users = users, pend_name = name, pend_email = the email,
                          pend_password = password\<rparr>))"

definition new_user :: "millis \<Rightarrow> signup_pending \<Rightarrow> pwhash \<Rightarrow> user" where
  "new_user now p h =
     \<lparr>user_id = dec_str now, user_name = js_or (pend_name p) (JStr []),
      user_email = pend_email p, user_passwordHash = h, user_watchlist = []\<rparr>"

definition auth_reply :: "string \<Rightarrow> millis \<Rightarrow> user \<Rightarrow> response" where
  "auth_reply secret now u =
     Reply 200 (JObj [(''token'', JStr (jwt_sign secret (user_id u) (user_email u) now)),
                      (''user'', public_user u)])"

definition signup_finish ::
  "string \<Rightarrow> millis \<Rightarrow> string \<Rightarrow> signup_pending \<Rightarrow> users_file \<Rightarrow> response \<times> users_file" where
  "signup_finish secret now salt p f =
     (case bcrypt_hash (pend_password p) bcrypt_rounds salt of
        None \<Rightarrow> (No_Reply, f)
      | Some h \<Rightarrow>
          (let u = new_user now p h
           in (auth_reply secret now u, writeUsers (pend_users p @ [u]))))"

definition signup ::
  "string \<Rightarrow> millis \<Rightarrow> string \<Rightarrow> users_file \<Rightarrow> json \<Rightarrow> response \<times> users_file" where
  "signup secret now salt f body =
     (case signup_begin f body of
        Inl r \<Rightarrow> (r, f)
      | Inr p \<Rightarrow> signup_finish secret now salt p f)"

text \<open>What a signup waiting at its \<open>await\<close> holds: the snapshot it read is well formed and its email is truthy and not taken in that snapshot.\<close>

definition pending_ok :: "signup_pending \<Rightarrow> bool" where
  "pending_ok p \<longleftrightarrow> wf_users (pend_users p) \<and> truthy (Some (pend_email p)) \<and>
                   \<not> email_taken (pend_users p) (Some (pend_email p))"

section \<open>Login and current user\<close>

definition login :: "string \<Rightarrow> millis \<Rightarrow> users_file \<Rightarrow> json \<Rightarrow> response" where
  "login secret now f body =
     (let email = get_prop body ''email''; password = get_prop body ''password'' in
      case readUsers f of
        None \<Rightarrow> No_Reply
      | Some users \<Rightarrow>
          (case List.find (\<lambda>u. strict_eq (Some (user_email u)) email) users of
             None \<Rightarrow> Reply 400 (err_body ''Invalid credentials'')
           | Some u \<Rightarrow>
               (case bcrypt_compare password (user_passwordHash u) of
                  None \<Rightarrow> No_Reply
                | Some ok \<Rightarrow>
                    if ok then auth_reply secret now u
                    else Reply 400 (err_body ''Invalid credentials''))))"

definition find_user :: "user list \<Rightarrow> string \<Rightarrow> user option" where
  "find_user users uid = List.find (\<lambda>x. user_id x = uid) users"

definition me :: "users_file \<Rightarrow> claims \<Rightarrow> response" where
  "me f c =
     (case readUsers f of
        None \<Rightarrow> Server_Error
      | Some users \<Rightarrow>
          (case find_user users (claim_id c) of
             None \<Rightarrow> Reply 404 (err_body ''User not found'')
           | Some u \<Rightarrow>
               Reply 200 (JObj [(''id'', JStr (user_id u)), (''name'', user_name u),
                                (''email'', user_email u), (''watchlist'', JArr (user_watchlist u))])))"

section \<open>Lookup lemmas\<close>

lemma find_user_index:
  assumes "find_user users uid = Some u"
  shows "find_index (\<lambda>x. user_id x = uid) users \<noteq> -1 \<and>
         users ! nat (find_index (\<lambda>x. user_id x = uid) users) = u"
  using assms find_index_eq_find [of "\<lambda>x. user_id x = uid" users]
  by (auto simp: find_user_def split: if_splits)

lemma find_user_None_index:
  "find_user users uid = None \<longleftrightarrow> find_index (\<lambda>x. user_id x = uid) users = -1"
  by (auto simp: find_user_def find_None_iff)

section \<open>Handler lemmas\<close>

lemma bearer_token_of: "CHR '' '' \<notin> set t \<Longrightarrow> bearer_token (''Bearer '' @ t) = Some t"
  by (simp add: bearer_token_def split_on_no_sep)

lemma authMiddleware_issued:
  "authMiddleware secret' now' (Some (''Bearer '' @ jwt_sign secret uid email now)) =
     (if secret' \<noteq> secret \<or> now div 1000 + token_ttl \<le> now' div 1000
      then Inl (Reply 401 (err_body ''Invalid token''))
      else Inr \<lparr>claim_id = uid, claim_email = json_print email,
                claim_iat = now div 1000, claim_exp = now div 1000 + token_ttl\<rparr>)"
  by (simp add: authMiddleware_def bearer_token_def split_on_no_sep jwt_sign_no_space jwt_verify_sign)

lemma authMiddleware_missing: "authMiddleware secret now None = Inl (Reply 401 (err_body ''Missing auth token''))"
  by (simp add: authMiddleware_def)

lemma email_taken_find: "email_taken users e \<longleftrightarrow> List.find (\<lambda>u. strict_eq (Some (user_email u)) e) users \<noteq> None"
  by (simp add: email_taken_def)

lemma signup_begin_ok:
  assumes "truthy (get_prop body ''email'')" "truthy (get_prop body ''password'')"
    "readUsers f = Some users" "\<not> email_taken users (get_prop body ''email'')"
  shows "signup_begin f body = Inr \<lparr>pend_users = users, pend_name = get_prop body ''name'',
            pend_email = the (get_prop body ''email''), pend_password = get_prop body ''password''\<rparr>"
  using assms by (simp add: signup_begin_def Let_def)

lemma signup_ok:
  fixes now :: millis and salt :: string
  assumes "truthy (get_prop body ''email'')" "get_prop body ''password'' = Some (JStr p)" "p \<noteq> []"
    "readUsers f = Some users" "\<not> email_taken users (get_prop body ''email'')"
  defines "u \<equiv> \<lparr>user_id = dec_str now, user_name = js_or (get_prop body ''name'') (JStr []),
               user_email = the (get_prop body ''email''),
               user_passwordHash = Bcrypt bcrypt_rounds salt (bcrypt_key p), user_watchlist = []\<rparr>"
  shows "signup secret now salt f body = (auth_reply secret now u, Stored (users @ [u]))"
  using assms(1-5) signup_begin_ok [OF assms(1) _ assms(4,5)]
  by (simp add: signup_def signup_finish_def bcrypt_hash_def new_user_def u_def writeUsers_def Let_def)

text \<open>C5: signing up with an email that is \<open>===\<close> to a stored one fails with 400 \<open>Email exists\<close>, whatever the (present) password, and the users file is not written.\<close>

theorem signup_email_exists:
  assumes "truthy (get_prop body ''email'')" "truthy (get_prop body ''password'')"
    "readUsers f = Some users" "email_taken users (get_prop body ''email'')"
  shows "signup secret now salt f body = (Reply 400 (err_body ''Email exists''), f)"
  using assms by (simp add: signup_def signup_begin_def Let_def)

lemma signup_begin_pending_ok:
  "wf_store f \<Longrightarrow> signup_begin f body = Inr p \<Longrightarrow> pending_ok p"
  by (auto simp: signup_begin_def pending_ok_def Let_def truthy_Some_the readUsers_wf
      split: if_splits option.splits)

lemma pending_ok_wf_users: "pending_ok p \<Longrightarrow> wf_users (pend_users p @ [new_user now p h])"
  by (auto simp: pending_ok_def wf_users_def wf_user_def new_user_def wf_watchlist_def
      pairwise_distinct_by_def sorted_wrt_append email_taken_def find_None_iff)

lemma signup_finish_wf:
  "pending_ok p \<Longrightarrow> wf_store f \<Longrightarrow> wf_store (snd (signup_finish secret now salt p f))"
  by (auto simp: signup_finish_def wf_store_def writeUsers_def Let_def pending_ok_wf_users
      split: option.splits)

lemma signup_wf: "wf_store f \<Longrightarrow> wf_store (snd (signup secret now salt f body))"
  by (auto simp: signup_def signup_finish_wf signup_begin_pending_ok split: sum.splits)

lemma login_unknown_email:
  "readUsers f = Some users \<Longrightarrow> \<not> email_taken users (get_prop body ''email'') \<Longrightarrow>
   login secret now f body = Reply 400 (err_body ''Invalid credentials'')"
  by (simp add: login_def email_taken_def)

lemma login_found:
  assumes "readUsers f = Some users"
    and "List.find (\<lambda>u. strict_eq (Some (user_email u)) (get_prop body ''email'')) users = Some u"
  shows "login secret now f body =
     (case bcrypt_compare (get_prop body ''password'') (user_passwordHash u) of
        None \<Rightarrow> No_Reply
      | Some ok \<Rightarrow> if ok then auth_reply secret now u else Reply 400 (err_body ''Invalid credentials''))"
  using assms by (simp add: login_def)

text \<open>C6: a login with an unknown email and a login with a known email and a wrong password get the same answer, 400 \<open>Invalid credentials\<close>: the reply does not tell the two apart.\<close>

theorem login_failures_indistinguishable:
  assumes rd: "readUsers f = Some users"
    and unknown: "\<not> email_taken users (get_prop unknown_body ''email'')"
    and known: "List.find (\<lambda>u. strict_eq (Some (user_email u)) (get_prop wrong_body ''email'')) users = Some u"
    and wrong: "bcrypt_compare (get_prop wrong_body ''password'') (user_passwordHash u) = Some False"
  shows "login secret now f unknown_body = Reply 400 (err_body ''Invalid credentials'') \<and>
         login secret now f wrong_body = Reply 400 (err_body ''Invalid credentials'')"
  using login_unknown_email [OF rd unknown] login_found [OF rd known] wrong by simp

text \<open>C11: a login for a registered email whose password is missing or not a string is never answered: \<open>bcrypt.compare\<close> rejects and the async handler's rejection is unhandled.\<close>

theorem login_no_password:
  assumes "readUsers f = Some users"
    and "List.find (\<lambda>u. strict_eq (Some (user_email u)) (get_prop body ''email'')) users = Some u"
    and "\<forall>p. get_prop body ''password'' \<noteq> Some (JStr p)"
  shows "login secret now f body = No_Reply"
  using login_found [OF assms(1,2)] assms(3)
  by (cases "get_prop body ''password''" rule: option.exhaust; simp add: bcrypt_compare_def split: json.splits)

text \<open>C9: after a successful signup with a string password, a login with the same (primitive) email succeeds exactly when the password agrees with the registered one on its first 72 bytes, and otherwise is answered 400 \<open>Invalid credentials\<close>.\<close>

theorem signup_then_login:
  fixes t_signup t_login :: millis and salt :: string
  assumes em: "truthy (get_prop body ''email'')" and prim: "\<not> is_compound (the (get_prop body ''email''))"
    and pw: "get_prop body ''password'' = Some (JStr p)" "p \<noteq> []"
    and rd: "readUsers f = Some users" and nt: "\<not> email_taken users (get_prop body ''email'')"
    and same: "get_prop b ''email'' = get_prop body ''email''" and pw': "get_prop b ''password'' = Some (JStr p')"
  defines "u \<equiv> \<lparr>user_id = dec_str t_signup, user_name = js_or (get_prop body ''name'') (JStr []),
               user_email = the (get_prop body ''email''),
               user_passwordHash = Bcrypt bcrypt_rounds salt (bcrypt_key p), user_watchlist = []\<rparr>"
  shows "login secret t_login (snd (signup secret t_signup salt f body)) b =
           (if bcrypt_key p' = bcrypt_key p then auth_reply secret t_login u
            else Reply 400 (err_body ''Invalid credentials''))"
proof -
  have su: "snd (signup secret t_signup salt f body) = Stored (users @ [u])"
    using signup_ok [OF em pw rd nt] by (simp add: u_def)
  have self: "strict_eq (Some (user_email u)) (get_prop b ''email'')"
    using em prim same by (auto simp: u_def truthy_Some_the strict_eq_refl_iff dest: truthy_not_None)
  have "List.find (\<lambda>x. strict_eq (Some (user_email x)) (get_prop b ''email'')) (users @ [u]) = Some u"
    using nt self same by (intro find_append_new) (auto simp: email_taken_def find_None_iff)
  then show ?thesis
    using login_found [of "Stored (users @ [u])" "users @ [u]" b u secret t_login] su pw'
    by (simp add: readUsers_def bcrypt_compare_def u_def)
qed

text \<open>C7: the token in a signup or login reply passes \<open>authMiddleware\<close> as \<open>Bearer\<close> token until seven days after it was issued, yielding the user's id as claim, and is refused with 401 \<open>Invalid token\<close> from then on.\<close>

theorem auth_reply_token_verify:
  assumes "auth_reply secret t_issue u = Reply 200 (JObj [(''token'', JStr tok), (''user'', uj)])"
  shows "authMiddleware secret t_check (Some (''Bearer '' @ tok)) =
     (if t_issue div 1000 + token_ttl \<le> t_check div 1000 then Inl (Reply 401 (err_body ''Invalid token''))
      else Inr \<lparr>claim_id = user_id u, claim_email = json_print (user_email u),
                claim_iat = t_issue div 1000, claim_exp = t_issue div 1000 + token_ttl\<rparr>)"
  using assms authMiddleware_issued [of secret t_check secret "user_id u" "user_email u" t_issue]
  by (simp add: auth_reply_def)

lemma me_found:
  "find_user users (claim_id c) = Some x \<Longrightarrow>
   me (Stored users) c = Reply 200 (JObj [(''id'', JStr (user_id x)), (''name'', user_name x),
                            (''email'', user_email x), (''watchlist'', JArr (user_watchlist x))])"
  by (simp add: me_def readUsers_def)

text \<open>C10: the token returned by a successful signup identifies, through \<open>authMiddleware\<close> and \<open>GET /auth/me\<close>, the first stored user whose id is the signup instant: the new user, unless an earlier user was created in the same millisecond.\<close>

theorem signup_then_me:
  fixes t_signup t_check :: millis and salt :: string
  assumes em: "truthy (get_prop body ''email'')"
    and pw: "get_prop body ''password'' = Some (JStr p)" "p \<noteq> []"
    and rd: "readUsers f = Some users" and nt: "\<not> email_taken users (get_prop body ''email'')"
    and live: "t_check div 1000 < t_signup div 1000 + token_ttl"
  defines "u \<equiv> \<lparr>user_id = dec_str t_signup, user_name = js_or (get_prop body ''name'') (JStr []),
               user_email = the (get_prop body ''email''),
               user_passwordHash = Bcrypt bcrypt_rounds salt (bcrypt_key p), user_watchlist = []\<rparr>"
  shows "\<exists>tok c. fst (signup secret t_signup salt f body) =
            Reply 200 (JObj [(''token'', JStr tok), (''user'', public_user u)]) \<and>
          authMiddleware secret t_check (Some (''Bearer '' @ tok)) = Inr c \<and>
          me (snd (signup secret t_signup salt f body)) c =
            (case find_user users (dec_str t_signup) of
               None \<Rightarrow> Reply 200 (JObj [(''id'', JStr (dec_str t_signup)), (''name'', user_name u),
                                     (''email'', user_email u), (''watchlist'', JArr [])])
             | Some x \<Rightarrow> Reply 200 (JObj [(''id'', JStr (user_id x)), (''name'', user_name x),
                            (''email'', user_email x), (''watchlist'', JArr (user_watchlist x))]))"
proof -
  define tok where "tok = jwt_sign secret (user_id u) (user_email u) t_signup"
  have su: "signup secret t_signup salt f body = (auth_reply secret t_signup u, Stored (users @ [u]))"
    using signup_ok [OF em pw rd nt] by (simp add: u_def)
  have r: "auth_reply secret t_signup u = Reply 200 (JObj [(''token'', JStr tok), (''user'', public_user u)])"
    by (simp add: auth_reply_def tok_def)
  define c where "c = \<lparr>claim_id = user_id u, claim_email = json_print (user_email u),
                claim_iat = t_signup div 1000, claim_exp = t_signup div 1000 + token_ttl\<rparr>"
  have mw: "authMiddleware secret t_check (Some (''Bearer '' @ tok)) = Inr c"
    using authMiddleware_issued [of secret t_check secret "user_id u" "user_email u" t_signup] live
    by (simp add: c_def tok_def)
  have fu: "find_user (users @ [u]) (claim_id c) =
            (case find_user users (dec_str t_signup) of None \<Rightarrow> Some u | Some x \<Rightarrow> Some x)"
    by (simp add: find_user_def c_def u_def find_append split: option.splits)
  have me: "me (Stored (users @ [u])) c =
            (case find_user users (dec_str t_signup) of
               None \<Rightarrow> Reply 200 (JObj [(''id'', JStr (dec_str t_signup)), (''name'', user_name u),
                                     (''email'', user_email u), (''watchlist'', JArr [])])
             | Some x \<Rightarrow> Reply 200 (JObj [(''id'', JStr (user_id x)), (''name'', user_name x),
                            (''email'', user_email x), (''watchlist'', JArr (user_watchlist x))]))"
  proof (cases "find_user users (dec_str t_signup)")
    case None
    with fu have "find_user (users @ [u]) (claim_id c) = Some u" by simp
    from me_found [OF this] None show ?thesis by (simp add: u_def)
  next
    case (Some x)
    with fu have "find_user (users @ [u]) (claim_id c) = Some x" by simp
    from me_found [OF this] Some show ?thesis by simp
  qed
  show ?thesis
  proof (intro exI conjI)
    show "fst (signup secret t_signup salt f body) =
            Reply 200 (JObj [(''token'', JStr tok), (''user'', public_user u)])"
      using su r by simp
    show "authMiddleware secret t_check (Some (''Bearer '' @ tok)) = Inr c" by (rule mw)
  qed (use su me in simp)
qed

section \<open>Witnesses\<close>

abbreviation demo_alice :: user where
  "demo_alice \<equiv> \<lparr>user_id = ''1700000000000'', user_name = JStr [], user_email = JStr ''a@x.com'',
                  user_passwordHash = Bcrypt 10 ''salt'' ''p'', user_watchlist = []\<rparr>"

theorem signup_email_exists_witness:
  "signup ''k'' 1700000000001 ''salt'' (Stored [demo_alice])
     (JObj [(''email'', JStr ''a@x.com''), (''password'', JStr ''other'')]) =
   (Reply 400 (err_body ''Email exists''), Stored [demo_alice])"
  using signup_email_exists [where f = "Stored [demo_alice]" and users = "[demo_alice]"
      and body = "JObj [(''email'', JStr ''a@x.com''), (''password'', JStr ''other'')]"
      and secret = "''k''" and now = 1700000000001 and salt = "''salt''"]
  by (simp add: readUsers_def email_taken_def)

theorem login_failures_indistinguishable_witness:
  "login ''k'' 1700000000001 (Stored [demo_alice]) (JObj [(''email'', JStr ''z@x.com''), (''password'', JStr ''p'')]) =
     Reply 400 (err_body ''Invalid credentials'') \<and>
   login ''k'' 1700000000001 (Stored [demo_alice]) (JObj [(''email'', JStr ''a@x.com''), (''password'', JStr ''q'')]) =
     Reply 400 (err_body ''Invalid credentials'')"
  using login_failures_indistinguishable [where f = "Stored [demo_alice]" and users = "[demo_alice]"
      and unknown_body = "JObj [(''email'', JStr ''z@x.com''), (''password'', JStr ''p'')]"
      and wrong_body = "JObj [(''email'', JStr ''a@x.com''), (''password'', JStr ''q'')]" and u = demo_alice
      and secret = "''k''" and now = 1700000000001]
  by (simp add: readUsers_def email_taken_def bcrypt_compare_def bcrypt_key_def)

theorem auth_reply_token_verify_witness:
  "authMiddleware ''k'' 1700000001000 (Some (''Bearer '' @ jwt_sign ''k'' ''1700000000000'' (JStr ''a@x.com'') 1700000000000)) =
     Inr \<lparr>claim_id = ''1700000000000'', claim_email = json_print (JStr ''a@x.com''),
          claim_iat = 1700000000, claim_exp = 1700000000 + token_ttl\<rparr> \<and>
   authMiddleware ''k'' 1700604800000 (Some (''Bearer '' @ jwt_sign ''k'' ''1700000000000'' (JStr ''a@x.com'') 1700000000000)) =
     Inl (Reply 401 (err_body ''Invalid token''))"
  using auth_reply_token_verify [where secret = "''k''" and t_issue = 1700000000000 and u = demo_alice
      and tok = "jwt_sign ''k'' ''1700000000000'' (JStr ''a@x.com'') 1700000000000"
      and uj = "public_user demo_alice"]
  by (simp add: auth_reply_def token_ttl_def)

theorem signup_then_login_witness:
  "login ''k'' 1700000005000
     (snd (signup ''k'' 1700000000000 ''salt'' (Stored [])
        (JObj [(''email'', JStr ''a@x.com''), (''password'', JStr (replicate 72 (CHR ''a'') @ ''x''))])))
     (JObj [(''email'', JStr ''a@x.com''), (''password'', JStr (replicate 72 (CHR ''a'') @ ''y''))]) =
   auth_reply ''k'' 1700000005000
     \<lparr>user_id = dec_str 1700000000000, user_name = JStr [], user_email = JStr ''a@x.com'',
      user_passwordHash = Bcrypt bcrypt_rounds ''salt'' (replicate 72 (CHR ''a'')), user_watchlist = []\<rparr>"
  using signup_then_login [where body = "JObj [(''email'', JStr ''a@x.com''), (''password'', JStr (replicate 72 (CHR ''a'') @ ''x''))]"
      and b = "JObj [(''email'', JStr ''a@x.com''), (''password'', JStr (replicate 72 (CHR ''a'') @ ''y''))]"
      and p = "replicate 72 (CHR ''a'') @ ''x''" and p' = "replicate 72 (CHR ''a'') @ ''y''"
      and f = "Stored []" and users = "[]" and t_signup = 1700000000000 and t_login = 1700000005000
      and salt = "''salt''" and secret = "''k''"]
  by (simp add: readUsers_def email_taken_def bcrypt_key_def js_or_def)

theorem signup_then_me_witness:
  "\<exists>tok c. fst (signup ''k'' 1700000000000 ''salt'' (Stored [])
        (JObj [(''email'', JStr ''a@x.com''), (''password'', JStr ''p'')])) =
      Reply 200 (JObj [(''token'', JStr tok), (''user'', JObj [(''id'', JStr (dec_str 1700000000000)),
                        (''name'', JStr []), (''email'', JStr ''a@x.com'')])]) \<and>
    authMiddleware ''k'' 1700000060000 (Some (''Bearer '' @ tok)) = Inr c \<and>
    me (snd (signup ''k'' 1700000000000 ''salt'' (Stored [])
        (JObj [(''email'', JStr ''a@x.com''), (''password'', JStr ''p'')]))) c =
      Reply 200 (JObj [(''id'', JStr (dec_str 1700000000000)), (''name'', JStr []),
                       (''email'', JStr ''a@x.com''), (''watchlist'', JArr [])])"
  using signup_then_me [where body = "JObj [(''email'', JStr ''a@x.com''), (''password'', JStr ''p'')]"
      and p = "''p''" and f = "Stored []" and users = "[]" and t_signup = 1700000000000
      and t_check = 1700000060000 and salt = "''salt''" and secret = "''k''"]
  by (simp add: readUsers_def email_taken_def find_user_def js_or_def public_user_def token_ttl_def)

theorem login_no_password_witness:
  "login ''k'' 1700000000001 (Stored [demo_alice]) (JObj [(''email'', JStr ''a@x.com'')]) = No_Reply"
  using login_no_password [where f = "Stored [demo_alice]" and users = "[demo_alice]"
      and body = "JObj [(''email'', JStr ''a@x.com'')]" and u = demo_alice
      and secret = "''k''" and now = 1700000000001]
  by (simp add: readUsers_def)

end
