(* ===== verification/Watchlist.thy ===== *)
theory Watchlist
  imports Auth
begin

text \<open>
  The watchlist endpoints of \<open>src/server/index.js\<close>: \<open>GET /api/watchlist\<close>
  (lines 141--146) and the toggle \<open>POST /api/watchlist\<close> (lines 148--162), both
  behind \<open>authMiddleware\<close>, which hands them the verified claims.

  \<open>toggle\<close> is the body of the toggle (lines 155--159): an item whose \<open>id\<close> is
  \<open>===\<close> the movie's is looked up with \<open>find\<close>; if one is found (and is
  truthy) every such item is filtered out, otherwise the movie is pushed.
  \<open>post_watchlist\<close> is the whole handler: read the store, locate the user with
  \<open>findIndex\<close> (404 when absent), validate \<open>movie\<close> and \<open>movie.id\<close> (400), toggle,
  write the whole array back and reply with the new watchlist.

  The abstract view: the \<open>===\<close>-comparable ids of a watchlist form a set of
  keys (\<open>wl_keys\<close>), and the toggle implements symmetric difference with the
  movie's key (\<open>key_toggle\<close>). An id that is an object or an array has no key:
  \<open>===\<close> never matches it, so such a movie is appended on every toggle.
\<close>

definition same_id :: "json \<Rightarrow> json \<Rightarrow> bool" where
  "same_id movie m = strict_eq (item_id m) (item_id movie)" \<comment> \<open>\<open>m.id === movie.id\<close>\<close>

definition wl_exists :: "json list \<Rightarrow> json \<Rightarrow> bool" where
  "wl_exists wl movie =
     (case List.find (same_id movie) wl of None \<Rightarrow> False | Some m \<Rightarrow> truthy (Some m))"

definition toggle :: "json list \<Rightarrow> json \<Rightarrow> json list" where
  "toggle wl movie =
     (if wl_exists wl movie then filter (\<lambda>m. \<not> same_id movie m) wl else wl @ [movie])"

definition get_watchlist :: "users_file \<Rightarrow> claims \<Rightarrow> response" where
  "get_watchlist f c =
     (case readUsers f of
        None \<Rightarrow> Server_Error
      | Some users \<Rightarrow>
          (case find_user users (claim_id c) of
             None \<Rightarrow> Reply 404 (err_body ''User not found'')
           | Some u \<Rightarrow> Reply 200 (JObj [(''watchlist'', JArr (user_watchlist u))])))"

definition movie_valid :: "json option \<Rightarrow> bool" where
  "movie_valid movie \<longleftrightarrow> truthy movie \<and> truthy (get_opt movie ''id'')"

definition post_watchlist :: "users_file \<Rightarrow> claims \<Rightarrow> json \<Rightarrow> response \<times> users_file" where
  "post_watchlist f c body =
     (case readUsers f of
        None \<Rightarrow> (Server_Error, f)
      | Some users \<Rightarrow>
          (let i = find_index (\<lambda>x. user_id x = claim_id c) users in
           if i = -1 then (Reply 404 (err_body ''User not found''), f)
           else
             (let movie = get_prop body ''movie'' in
              if \<not> movie_valid movie then (Reply 400 (err_body ''Missing movie''), f)
              else
                (let u = users ! nat i;
                     wl = toggle (user_watchlist u) (the movie);
                     users' = users[nat i := u\<lparr>user_watchlist := wl\<rparr>]
                 in (Reply 200 (JObj [(''watchlist'', JArr wl)]), writeUsers users')))))"

section \<open>Abstract view\<close>

datatype key = KStr string | KNum int | KBool bool | KNull

fun id_key :: "json option \<Rightarrow> key option" where
  "id_key (Some (JStr s)) = Some (KStr s)"
| "id_key (Some (JNum n)) = Some (KNum n)"
| "id_key (Some (JBool b)) = Some (KBool b)"
| "id_key (Some JNull) = Some KNull"
| "id_key _ = None"

definition wl_keys :: "json list \<Rightarrow> key set" where
  "wl_keys wl = set (List.map_filter (\<lambda>m. id_key (item_id m)) wl)"

definition key_toggle :: "key set \<Rightarrow> key \<Rightarrow> key set" where
  "key_toggle K k = (if k \<in> K then K - {k} else insert k K)"

section \<open>Toggle lemmas\<close>

lemma wl_exists_iff:
  "list_all wf_item wl \<Longrightarrow> wl_exists wl movie \<longleftrightarrow> (\<exists>m\<in>set wl. same_id movie m)"
  by (auto simp: wl_exists_def wf_item_def list_all_iff truthy_obj find_None_iff
           dest: find_SomeD split: option.splits)

lemma toggle_present:
  "list_all wf_item wl \<Longrightarrow> \<exists>m\<in>set wl. same_id movie m \<Longrightarrow>
   toggle wl movie = filter (\<lambda>m. \<not> same_id movie m) wl"
  by (simp add: toggle_def wl_exists_iff)

lemma toggle_absent:
  "list_all wf_item wl \<Longrightarrow> \<forall>m\<in>set wl. \<not> same_id movie m \<Longrightarrow> toggle wl movie = wl @ [movie]"
  by (simp add: toggle_def wl_exists_iff)

lemma toggle_wf:
  assumes wl: "wf_watchlist wl" and mv: "wf_item movie"
  shows "wf_watchlist (toggle wl movie)"
proof (cases "\<exists>m\<in>set wl. same_id movie m")
  case True
  with wl show ?thesis
    by (auto simp: toggle_present wf_watchlist_def pairwise_distinct_by_def
          list_all_iff sorted_wrt_filter)
next
  case False
  with wl mv show ?thesis
    by (auto simp: toggle_absent wf_watchlist_def pairwise_distinct_by_def sorted_wrt_append
          same_id_def strict_eq_sym)
qed

lemma strict_eq_key:
  "strict_eq x y \<longleftrightarrow> (x = None \<and> y = None) \<or> (id_key x \<noteq> None \<and> id_key x = id_key y)"
  by (cases "(x, y)" rule: strict_eq.cases; cases x; cases y) (auto elim: id_key.elims)

lemma wl_keys_iff: "k \<in> wl_keys wl \<longleftrightarrow> (\<exists>m\<in>set wl. id_key (item_id m) = Some k)"
  by (induction wl) (auto simp: wl_keys_def split: option.splits)

lemma same_id_key:
  "item_id movie \<noteq> None \<Longrightarrow> id_key (item_id movie) = Some k \<Longrightarrow>
   same_id movie m \<longleftrightarrow> id_key (item_id m) = Some k"
  by (auto simp: same_id_def strict_eq_key)

text \<open>C2: the toggle implements its abstract specification: on a well-formed watchlist and a movie whose id has a key, the set of ids after the toggle is the symmetric difference of the set before with the movie's id.\<close>

theorem toggle_keys:
  assumes wl: "wf_watchlist wl" and mv: "wf_item movie" and k: "id_key (item_id movie) = Some k"
  shows "wl_keys (toggle wl movie) = key_toggle (wl_keys wl) k"
proof -
  from mv have nn: "item_id movie \<noteq> None" by (auto simp: wf_item_def dest: truthy_not_None)
  note sk = same_id_key [OF nn k]
  from wl have items: "list_all wf_item wl" by (simp add: wf_watchlist_def)
  show ?thesis
  proof (cases "\<exists>m\<in>set wl. same_id movie m")
    case True
    then have "k \<in> wl_keys wl" by (auto simp: wl_keys_iff sk)
    have "x \<in> wl_keys (filter (\<lambda>m. \<not> same_id movie m) wl) \<longleftrightarrow> x \<in> wl_keys wl - {k}" for x
    proof
      assume "x \<in> wl_keys (filter (\<lambda>m. \<not> same_id movie m) wl)"
      then obtain m where "m \<in> set wl" "\<not> same_id movie m" "id_key (item_id m) = Some x"
        by (auto simp: wl_keys_iff)
      then show "x \<in> wl_keys wl - {k}" by (auto simp: wl_keys_iff sk)
    next
      assume "x \<in> wl_keys wl - {k}"
      then obtain m where "m \<in> set wl" "id_key (item_id m) = Some x" "x \<noteq> k"
        by (auto simp: wl_keys_iff)
      then show "x \<in> wl_keys (filter (\<lambda>m. \<not> same_id movie m) wl)"
        by (auto simp: wl_keys_iff sk)
    qed
    with True items \<open>k \<in> wl_keys wl\<close> show ?thesis
      by (auto simp: toggle_present key_toggle_def)
  next
    case False
    then have "k \<notin> wl_keys wl" by (auto simp: wl_keys_iff sk)
    with False items k show ?thesis
      by (auto simp: toggle_absent key_toggle_def wl_keys_iff)
  qed
qed

lemma toggle_compound_id:
  assumes items: "list_all wf_item wl" and c: "is_compound (the (item_id movie))"
    and mv: "wf_item movie"
  shows "toggle wl movie = wl @ [movie]"
proof -
  from mv have "item_id movie \<noteq> None" by (auto simp: wf_item_def dest: truthy_not_None)
  then obtain v where v: "item_id movie = Some v" by blast
  have "\<not> same_id movie m" for m
    using v c by (cases "item_id m"; cases v) (auto simp: same_id_def)
  with items show ?thesis by (simp add: toggle_absent)
qed

lemma toggle_toggle:
  assumes items: "list_all wf_item wl" and mv: "wf_item movie"
    and prim: "\<not> is_compound (the (item_id movie))"
    and absent: "\<forall>m\<in>set wl. \<not> same_id movie m"
  shows "toggle (toggle wl movie) movie = wl"
proof -
  have self: "same_id movie movie"
    using mv prim by (cases "item_id movie") (auto simp: same_id_def wf_item_def strict_eq_refl_iff)
  have "list_all wf_item (wl @ [movie])" using items mv by simp
  then have "toggle (wl @ [movie]) movie = filter (\<lambda>m. \<not> same_id movie m) (wl @ [movie])"
    using self by (intro toggle_present) auto
  also have "\<dots> = wl" using absent self by (simp add: filter_id_conv)
  finally show ?thesis using toggle_absent [OF items absent] by simp
qed

section \<open>Handler lemmas\<close>

lemma movie_valid_wf_item: "movie_valid (Some m) \<Longrightarrow> wf_item m"
  by (cases m) (auto simp: movie_valid_def get_opt_def wf_item_def item_id_def)

lemma post_watchlist_ok:
  assumes "readUsers f = Some users" and "find_index (\<lambda>x. user_id x = claim_id c) users = i"
    and "i \<noteq> -1" and "get_prop body ''movie'' = Some m" and "movie_valid (Some m)"
  shows "post_watchlist f c body =
     (Reply 200 (JObj [(''watchlist'', JArr (toggle (user_watchlist (users ! nat i)) m))]),
      Stored (users[nat i := (users ! nat i)\<lparr>user_watchlist := toggle (user_watchlist (users ! nat i)) m\<rparr>]))"
  using assms by (simp add: post_watchlist_def writeUsers_def Let_def)

text \<open>C4: a toggle request for an existing user whose \<open>movie\<close> or \<open>movie.id\<close> is missing or falsy is answered 400 \<open>Missing movie\<close> and does not write the store.\<close>

theorem post_watchlist_missing_movie:
  assumes "readUsers f = Some users" and "find_user users (claim_id c) \<noteq> None"
    and "\<not> truthy (get_prop body ''movie'') \<or> \<not> truthy (get_opt (get_prop body ''movie'') ''id'')"
  shows "post_watchlist f c body = (Reply 400 (err_body ''Missing movie''), f)"
  using assms by (auto simp: post_watchlist_def find_user_None_index Let_def movie_valid_def)

lemma post_watchlist_wf: "wf_store f \<Longrightarrow> wf_store (snd (post_watchlist f c body))"
proof (cases "readUsers f")
  case (Some users)
  assume wf: "wf_store f"
  from wf Some have wu: "wf_users users" by (rule readUsers_wf)
  define i where "i = find_index (\<lambda>x. user_id x = claim_id c) users"
  show ?thesis
  proof (cases "i = -1 \<or> \<not> movie_valid (get_prop body ''movie'')")
    case True
    with wf Some show ?thesis by (auto simp: post_watchlist_def i_def Let_def)
  next
    case False
    then obtain m where m: "get_prop body ''movie'' = Some m" and mv: "movie_valid (Some m)"
      by (cases "get_prop body ''movie''") (auto simp: movie_valid_def)
    from False have i: "0 \<le> i \<and> nat i < length users"
      using find_index_found [of _ users] by (simp add: i_def)
    have "wf_watchlist (user_watchlist (users ! nat i))"
      using wu i by (auto simp: wf_users_def wf_user_def list_all_iff)
    then have "wf_watchlist (toggle (user_watchlist (users ! nat i)) m)"
      using movie_valid_wf_item [OF mv] by (rule toggle_wf)
    with wu i show ?thesis
      using post_watchlist_ok [OF Some i_def [symmetric] _ m mv] False
      by (simp add: wf_store_def wf_users_update_watchlist)
  qed
qed (simp add: post_watchlist_def)

text \<open>C1: toggling the same movie twice through \<open>POST /api/watchlist\<close>, for a user whose watchlist does not hold the movie's (primitive) id, first replies with the watchlist extended by the movie and then replies with the original watchlist, and leaves the users file exactly as it was.\<close>

theorem post_watchlist_twice:
  assumes rd: "readUsers f = Some users" and fu: "find_user users (claim_id c) = Some u"
    and m: "get_prop body ''movie'' = Some m" and mv: "movie_valid (Some m)"
    and prim: "\<not> is_compound (the (item_id m))"
    and items: "list_all wf_item (user_watchlist u)"
    and absent: "\<forall>x\<in>set (user_watchlist u). \<not> same_id m x"
  shows "fst (post_watchlist f c body) = Reply 200 (JObj [(''watchlist'', JArr (user_watchlist u @ [m]))]) \<and>
         post_watchlist (snd (post_watchlist f c body)) c body =
           (Reply 200 (JObj [(''watchlist'', JArr (user_watchlist u))]), f)"
proof -
  define P where "P = (\<lambda>x::user. user_id x = claim_id c)"
  define i where "i = find_index P users"
  from find_user_index [OF fu] have i: "i \<noteq> -1" "users ! nat i = u" by (simp_all add: i_def P_def)
  from i(1) have len: "nat i < length users" using find_index_found [of P users] by (simp add: i_def)
  then have "users \<noteq> []" by auto
  with rd have f: "f = Stored users" by (rule readUsers_Some_file)
  have t1: "toggle (user_watchlist u) m = user_watchlist u @ [m]" using items absent by (rule toggle_absent)
  define users1 where "users1 = users[nat i := u\<lparr>user_watchlist := user_watchlist u @ [m]\<rparr>]"
  have r1: "post_watchlist f c body =
      (Reply 200 (JObj [(''watchlist'', JArr (user_watchlist u @ [m]))]), Stored users1)"
    using post_watchlist_ok [OF rd _ i(1) m mv] i t1 by (simp add: i_def P_def users1_def)
  have rd1: "readUsers (Stored users1) = Some users1" by (simp add: readUsers_def)
  have i1: "find_index P users1 = i"
    using len i by (simp add: users1_def i_def P_def find_index_update)
  have u1: "users1 ! nat i = u\<lparr>user_watchlist := user_watchlist u @ [m]\<rparr>"
    using len by (simp add: users1_def)
  have t2: "toggle (user_watchlist u @ [m]) m = user_watchlist u"
    using toggle_toggle [OF items movie_valid_wf_item [OF mv] prim absent] t1 by simp
  have restored: "users1[nat i := (users1 ! nat i)\<lparr>user_watchlist := user_watchlist u\<rparr>] = users"
    using len i(2) u1 by (simp add: users1_def) (metis list_update_id)
  have r2: "post_watchlist (Stored users1) c body =
      (Reply 200 (JObj [(''watchlist'', JArr (user_watchlist u))]), Stored users)"
    using post_watchlist_ok [OF rd1 _ i(1) m mv] i1 u1 t2 restored by (simp add: P_def)
  show ?thesis using r1 r2 f by simp
qed

section \<open>Bounds\<close>

lemma same_id_at_most_one:
  "pairwise_distinct_by item_id wl \<Longrightarrow> length (filter (same_id movie) wl) \<le> 1"
proof (induction wl)
  case (Cons x xs)
  then have d: "\<forall>y\<in>set xs. \<not> strict_eq (item_id x) (item_id y)" and ih: "length (filter (same_id movie) xs) \<le> 1"
    by (simp_all add: pairwise_distinct_by_def)
  show ?case
  proof (cases "same_id movie x")
    case True
    have "filter (same_id movie) xs = []"
    proof (rule filter_False, rule ballI)
      fix y assume "y \<in> set xs"
      with d have "\<not> strict_eq (item_id x) (item_id y)" by blast
      with True show "\<not> same_id movie y"
        using strict_eq_trans strict_eq_sym unfolding same_id_def by metis
    qed
    with True show ?thesis by simp
  next
    case False
    with ih show ?thesis by simp
  qed
qed simp

text \<open>C20: on a well-formed watchlist a toggle changes the length by exactly one: it removes the one item with the movie's id when there is one (ids are pairwise non-\<open>===\<close>, so there is at most one), and appends the movie otherwise.\<close>

theorem toggle_length:
  assumes "wf_watchlist wl"
  shows "length (toggle wl movie) =
           (if \<exists>m\<in>set wl. same_id movie m then length wl - 1 else Suc (length wl))"
proof (cases "\<exists>m\<in>set wl. same_id movie m")
  case True
  have "length (filter (same_id movie) wl) \<le> 1"
    using assms same_id_at_most_one [of wl movie] by (simp add: wf_watchlist_def)
  moreover have "filter (same_id movie) wl \<noteq> []" using True by (simp add: filter_empty_conv)
  ultimately have "length (filter (same_id movie) wl) = 1"
    by (cases "filter (same_id movie) wl") auto
  moreover have "length (filter (same_id movie) wl) + length (filter (\<lambda>m. \<not> same_id movie m) wl) = length wl"
    by (rule sum_length_filter_compl)
  ultimately show ?thesis using True assms
    by (simp add: toggle_present wf_watchlist_def)
next
  case False
  with assms show ?thesis by (simp add: toggle_absent wf_watchlist_def)
qed

section \<open>Witnesses\<close>

text \<open>A user signed up at a fixed instant, with an empty watchlist, and the movie of the spec's example.\<close>

abbreviation demo_user :: user where
  "demo_user \<equiv> \<lparr>user_id = ''1700000000000'', user_name = JStr [], user_email = JStr ''a@x.com'',
                 user_passwordHash = Bcrypt 10 ''salt'' ''p'', user_watchlist = []\<rparr>"

abbreviation demo_claims :: claims where
  "demo_claims \<equiv> \<lparr>claim_id = ''1700000000000'', claim_email = ''\"a@x.com\"'',
                   claim_iat = 1700000000, claim_exp = 1700604800\<rparr>"

abbreviation demo_movie :: json where
  "demo_movie \<equiv> JObj [(''id'', JNum 42), (''title'', JStr ''T'')]"

theorem post_watchlist_twice_witness:
  "fst (post_watchlist (Stored [demo_user]) demo_claims (JObj [(''movie'', demo_movie)])) =
     Reply 200 (JObj [(''watchlist'', JArr [demo_movie])]) \<and>
   post_watchlist (snd (post_watchlist (Stored [demo_user]) demo_claims (JObj [(''movie'', demo_movie)])))
     demo_claims (JObj [(''movie'', demo_movie)]) =
     (Reply 200 (JObj [(''watchlist'', JArr [])]), Stored [demo_user])"
  using post_watchlist_twice [of "Stored [demo_user]" "[demo_user]" demo_claims demo_user
      "JObj [(''movie'', demo_movie)]" demo_movie]
  by (simp add: readUsers_def find_user_def movie_valid_def get_opt_def item_id_def)

theorem toggle_keys_witness:
  "wl_keys (toggle [JObj [(''id'', JNum 7)]] demo_movie) = {KNum 7, KNum 42}"
  using toggle_keys [of "[JObj [(''id'', JNum 7)]]" demo_movie "KNum 42"]
  by (simp add: wf_watchlist_def wf_item_def item_id_def pairwise_distinct_by_def
      wl_keys_def key_toggle_def insert_commute)

theorem post_watchlist_missing_movie_witness:
  "post_watchlist (Stored [demo_user]) demo_claims (JObj [(''movie'', JObj [(''title'', JStr ''T'')])]) =
     (Reply 400 (err_body ''Missing movie''), Stored [demo_user])"
  using post_watchlist_missing_movie [of "Stored [demo_user]" "[demo_user]" demo_claims
      "JObj [(''movie'', JObj [(''title'', JStr ''T'')])]"]
  by (simp add: readUsers_def find_user_def get_opt_def)

theorem toggle_length_witness:
  "length (toggle [JObj [(''id'', JNum 7)], JObj [(''id'', JNum 42)]] demo_movie) = 1"
  using toggle_length [of "[JObj [(''id'', JNum 7)], JObj [(''id'', JNum 42)]]" demo_movie]
  by (simp add: wf_watchlist_def wf_item_def item_id_def pairwise_distinct_by_def same_id_def)

end
