(* ===== verification/Proxy.thy ===== *)
theory Proxy
  imports Auth
begin

text \<open>
  The metadata proxy of \<open>src/server/index.js\<close> (lines 60--103): four
  handlers that forward a GET to TMDb with the server's API key and answer with
  the upstream JSON, or with 500 \<open>{error: 'TMDb error', details}\<close> when
  \<open>axios\<close> throws (network failure or a non-2xx status).

  The upstream is a parameter \<open>upstream_req \<Rightarrow> string + json\<close>: the URL and the
  query parameters \<open>axios\<close> sends, answered by an error message (\<open>Inl\<close>) or the
  response body (\<open>Inr\<close>). The parameters are an association list in insertion
  order, so that the object spread \<open>{ api_key: TMDB_API_KEY, ...req.query }\<close> of
  the search handler (line 86) is \<^const>\<open>obj_spread\<close>: a query parameter named
  \<open>api_key\<close> replaces the server's key.
\<close>

record upstream_req =
  up_url :: string
  up_params :: "(string \<times> json) list"

type_synonym upstream = "upstream_req \<Rightarrow> string + json"

definition tmdb_base :: string where
  "tmdb_base = ''https://api.themoviedb.org/3''"

definition proxy_reply :: "string + json \<Rightarrow> response" where
  "proxy_reply r =
     (case r of
        Inl msg \<Rightarrow> Reply 500 (JObj [(''error'', JStr ''TMDb error''), (''details'', JStr msg)])
      | Inr data \<Rightarrow> Reply 200 data)"

definition trending_req :: "string \<Rightarrow> string \<Rightarrow> string \<Rightarrow> upstream_req" where
  "trending_req key mediaType timeWindow =
     \<lparr>up_url = tmdb_base @ ''/trending/'' @ mediaType @ ''/'' @ timeWindow,
      up_params = [(''api_key'', JStr key)]\<rparr>"

definition trending :: "string \<Rightarrow> upstream \<Rightarrow> string \<Rightarrow> string \<Rightarrow> response" where
  "trending key up mediaType timeWindow = proxy_reply (up (trending_req key mediaType timeWindow))"

definition movie_req :: "string \<Rightarrow> string \<Rightarrow> upstream_req" where
  "movie_req key mid =
     \<lparr>up_url = tmdb_base @ ''/movie/'' @ mid,
      up_params = [(''api_key'', JStr key), (''append_to_response'', JStr ''videos,credits'')]\<rparr>"

definition movie_details :: "string \<Rightarrow> upstream \<Rightarrow> string \<Rightarrow> response" where
  "movie_details key up mid = proxy_reply (up (movie_req key mid))"

definition search_req :: "string \<Rightarrow> (string \<times> json) list \<Rightarrow> upstream_req" where
  "search_req key query =
     \<lparr>up_url = tmdb_base @ ''/search/movie'',
      up_params = obj_spread [(''api_key'', JStr key)] query\<rparr>"

definition search_movie :: "string \<Rightarrow> upstream \<Rightarrow> (string \<times> json) list \<Rightarrow> response" where
  "search_movie key up query = proxy_reply (up (search_req key query))"

definition configuration_req :: "string \<Rightarrow> upstream_req" where
  "configuration_req key =
     \<lparr>up_url = tmdb_base @ ''/configuration'', up_params = [(''api_key'', JStr key)]\<rparr>"

definition configuration :: "string \<Rightarrow> upstream \<Rightarrow> response" where
  "configuration key up = proxy_reply (up (configuration_req key))"

section \<open>Properties\<close>

text \<open>C12: the search proxy forwards every query parameter of the request unmodified (the last one of a repeated name) and adds the server's \<open>api_key\<close> only when the request has none: a caller-supplied \<open>api_key\<close> replaces the server's credential.\<close>

theorem search_forwards_query:
  "map_of (up_params (search_req key query)) k =
     (case map_of (rev query) k of
        Some v \<Rightarrow> Some v
      | None \<Rightarrow> if k = ''api_key'' then Some (JStr key) else None)"
  by (simp add: search_req_def map_of_obj_spread split: option.splits)

section \<open>Witnesses\<close>

theorem search_forwards_query_witness:
  "map_of (up_params (search_req ''SERVER'' [(''query'', JStr ''alien''), (''api_key'', JStr ''MINE'')])) ''api_key'' = Some (JStr ''MINE'')"
  using search_forwards_query [of "''SERVER''" "[(''query'', JStr ''alien''), (''api_key'', JStr ''MINE'')]" "''api_key''"]
  by simp

end
