(* ===== verification/JsonText.thy ===== *)
theory JsonText
  imports Json
begin

text \<open>
  JSON as text: \<open>JSON.parse\<close>, which \<open>readUsers\<close> (line 39) and
  \<open>express.json()\<close> (line 30) apply to the users file and to request bodies,
  and \<open>JSON.stringify\<close> with the indentation \<open>writeUsers\<close> uses (line 42);
  the compact \<open>JSON.stringify\<close> is \<^const>\<open>json_print\<close> of \<^theory_text>\<open>Json\<close>.

  Strings are byte strings (UTF-8): a \<open>\u\<close> escape is parsed to the UTF-8
  bytes of its code point, and an escaped surrogate (\<open>\uD800\<close>..\<open>\uDFFF\<close>)
  is outside the model, as is a number with a fraction or an exponent (the
  model's numbers are integers): the parser answers \<^const>\<open>None\<close> for them.

  The parser is a recursive descent over the text in the style of parser
  combinators: each function takes the text and returns the value read and the
  rest. Nesting is bounded by a fuel argument, and \<open>json_parse\<close> gives one
  more unit of fuel than the text has characters, which is enough: every
  nested value starts one character further into the text.
\<close>

section \<open>Lexical level\<close>

definition json_ws :: "char \<Rightarrow> bool" where
  "json_ws c \<longleftrightarrow> c \<in> {CHR '' '', CHR 0x09, CHR 0x0A, CHR 0x0D}"

definition skip_ws :: "string \<Rightarrow> string" where
  "skip_ws s = dropWhile json_ws s"

definition is_digit :: "char \<Rightarrow> bool" where
  "is_digit c \<longleftrightarrow> digit_val c \<noteq> None"

definition json_hex :: "char \<Rightarrow> nat option" where
  "json_hex c =
     (let n = (of_char c :: nat) in
      if 48 \<le> n \<and> n < 58 then Some (n - 48)
      else if 97 \<le> n \<and> n < 103 then Some (n - 87)
      else if 65 \<le> n \<and> n < 71 then Some (n - 55) else None)"

definition hex4 :: "char \<Rightarrow> char \<Rightarrow> char \<Rightarrow> char \<Rightarrow> nat option" where
  "hex4 a b c d =
     (case (json_hex a, json_hex b, json_hex c, json_hex d) of
        (Some w, Some x, Some y, Some z) \<Rightarrow> Some (((w * 16 + x) * 16 + y) * 16 + z)
      | _ \<Rightarrow> None)"

definition utf8_enc :: "nat \<Rightarrow> string option" where
  \<comment> \<open>the UTF-8 bytes of a code point below \<open>0x10000\<close>; None for a surrogate\<close>
  "utf8_enc cp =
     (if cp < 128 then Some [char_of cp]
      else if cp < 2048 then Some [char_of (192 + cp div 64), char_of (128 + cp mod 64)]
      else if 55296 \<le> cp \<and> cp < 57344 then None
      else Some [char_of (224 + cp div 4096), char_of (128 + (cp div 64) mod 64), char_of (128 + cp mod 64)])"

definition simple_escape :: "char \<Rightarrow> char option" where
  "simple_escape e =
     (if e = CHR 0x22 then Some (CHR 0x22) else if e = CHR 0x5C then Some (CHR 0x5C)
      else if e = CHR ''/'' then Some (CHR ''/'') else if e = CHR ''b'' then Some (CHR 0x08)
      else if e = CHR ''f'' then Some (CHR 0x0C) else if e = CHR ''n'' then Some (CHR 0x0A)
      else if e = CHR ''r'' then Some (CHR 0x0D) else if e = CHR ''t'' then Some (CHR 0x09)
      else None)"

fun parse_str :: "string \<Rightarrow> (string \<times> string) option" where
  \<comment> \<open>the rest of a string literal after its opening quote\<close>
  "parse_str [] = None"
| "parse_str (c # cs) =
     (if c = CHR 0x22 then Some ([], cs)
      else if c = CHR 0x5C then
        (case cs of
           [] \<Rightarrow> None
         | e # es \<Rightarrow>
             if e = CHR ''u'' then
               (case es of
                  a # b # c' # d # rest \<Rightarrow>
                    (case hex4 a b c' d of
                       None \<Rightarrow> None
                     | Some cp \<Rightarrow>
                         (case utf8_enc cp of
                            None \<Rightarrow> None
                          | Some bs \<Rightarrow> map_option (\<lambda>(s, r). (bs @ s, r)) (parse_str rest)))
                | _ \<Rightarrow> None)
             else
               (case simple_escape e of
                  None \<Rightarrow> None
                | Some ch \<Rightarrow> map_option (\<lambda>(s, r). (ch # s, r)) (parse_str es)))
      else if (of_char c :: nat) < 32 then None
      else map_option (\<lambda>(s, r). (c # s, r)) (parse_str cs))"

definition parse_number :: "string \<Rightarrow> (json \<times> string) option" where
  "parse_number s =
     (let (neg, s1) = (case s of c # t \<Rightarrow> if c = CHR ''-'' then (True, t) else (False, s) | [] \<Rightarrow> (False, s));
          ds = takeWhile is_digit s1; rest = dropWhile is_digit s1
      in if ds = [] \<or> (hd ds = CHR ''0'' \<and> tl ds \<noteq> []) then None
         else if rest \<noteq> [] \<and> hd rest \<in> {CHR ''.'', CHR ''e'', CHR ''E''} then None
         else (case parse_dec ds of
                 None \<Rightarrow> None
               | Some n \<Rightarrow> Some (JNum (if neg then - int n else int n), rest)))"

definition parse_literal :: "string \<Rightarrow> (json \<times> string) option" where
  "parse_literal s =
     (if take 4 s = ''null'' then Some (JNull, drop 4 s)
      else if take 4 s = ''true'' then Some (JBool True, drop 4 s)
      else if take 5 s = ''false'' then Some (JBool False, drop 5 s)
      else None)"

section \<open>Values\<close>

fun parse_value :: "nat \<Rightarrow> string \<Rightarrow> (json \<times> string) option"
and parse_elems :: "nat \<Rightarrow> string \<Rightarrow> (json list \<times> string) option"
and parse_member :: "nat \<Rightarrow> string \<Rightarrow> ((string \<times> json) \<times> string) option"
and parse_members :: "nat \<Rightarrow> string \<Rightarrow> ((string \<times> json) list \<times> string) option" where
  "parse_value 0 s = None"
| "parse_value (Suc n) s =
     (case skip_ws s of
        [] \<Rightarrow> None
      | c # cs \<Rightarrow>
          if c = CHR ''['' then
            (case skip_ws cs of
               d # ds \<Rightarrow>
                 if d = CHR '']'' then Some (JArr [], ds)
                 else (case parse_value n cs of
                         None \<Rightarrow> None
                       | Some (v, r) \<Rightarrow> map_option (\<lambda>(vs, r'). (JArr (v # vs), r')) (parse_elems n r))
             | [] \<Rightarrow> None)
          else if c = CHR ''{'' then
            (case skip_ws cs of
               d # ds \<Rightarrow>
                 if d = CHR ''}'' then Some (JObj [], ds)
                 else (case parse_member n cs of
                         None \<Rightarrow> None
                       | Some (kv, r) \<Rightarrow> map_option (\<lambda>(kvs, r'). (JObj (kv # kvs), r')) (parse_members n r))
             | [] \<Rightarrow> None)
          else if c = CHR 0x22 then map_option (\<lambda>(str, r). (JStr str, r)) (parse_str cs)
          else if c = CHR ''-'' \<or> is_digit c then parse_number (c # cs)
          else parse_literal (c # cs))"
| "parse_elems 0 s = None"
| "parse_elems (Suc n) s =
     (case skip_ws s of
        [] \<Rightarrow> None
      | c # cs \<Rightarrow>
          if c = CHR '']'' then Some ([], cs)
          else if c = CHR '','' then
            (case parse_value n cs of
               None \<Rightarrow> None
             | Some (v, r) \<Rightarrow> map_option (\<lambda>(vs, r'). (v # vs, r')) (parse_elems n r))
          else None)"
| "parse_member 0 s = None"
| "parse_member (Suc n) s =
     (case skip_ws s of
        [] \<Rightarrow> None
      | c # cs \<Rightarrow>
          if c = CHR 0x22 then
            (case parse_str cs of
               None \<Rightarrow> None
             | Some (k, r) \<Rightarrow>
                 (case skip_ws r of
                    d # ds \<Rightarrow> if d = CHR '':'' then map_option (\<lambda>(v, r'). ((k, v), r')) (parse_value n ds) else None
                  | [] \<Rightarrow> None))
          else None)"
| "parse_members 0 s = None"
| "parse_members (Suc n) s =
     (case skip_ws s of
        [] \<Rightarrow> None
      | c # cs \<Rightarrow>
          if c = CHR ''}'' then Some ([], cs)
          else if c = CHR '','' then
            (case parse_member n cs of
               None \<Rightarrow> None
             | Some (kv, r) \<Rightarrow> map_option (\<lambda>(kvs, r'). (kv # kvs, r')) (parse_members n r))
          else None)"

definition json_parse :: "string \<Rightarrow> json option" where \<comment> \<open>\<open>JSON.parse\<close>; None: it throws\<close>
  "json_parse s =
     (case parse_value (Suc (length s)) s of
        Some (v, r) \<Rightarrow> if skip_ws r = [] then Some v else None
      | None \<Rightarrow> None)"

section \<open>Indented printing\<close>

definition indent :: "nat \<Rightarrow> string" where
  "indent d = replicate (2 * d) (CHR '' '')"

fun json_pretty :: "nat \<Rightarrow> json \<Rightarrow> string" where \<comment> \<open>\<open>JSON.stringify(v, null, 2)\<close> at depth \<open>d\<close>\<close>
  "json_pretty d (JArr vs) =
     (if vs = [] then ''[]''
      else CHR ''['' # join_on CHR '','' (map (\<lambda>v. CHR 0x0A # indent (Suc d) @ json_pretty (Suc d) v) vs)
           @ CHR 0x0A # indent d @ '']'')"
| "json_pretty d (JObj kvs) =
     (if kvs = [] then ''{}''
      else CHR ''{'' # join_on CHR '',''
             (map (\<lambda>(k, v). CHR 0x0A # indent (Suc d) @ quote_str k @ CHR '':'' # CHR '' '' # json_pretty (Suc d) v) kvs)
           @ CHR 0x0A # indent d @ ''}'')"
| "json_pretty d v = json_print v"

fun jsize :: "json \<Rightarrow> nat" where \<comment> \<open>the nesting the parser consumes fuel for\<close>
  "jsize (JArr vs) = Suc (sum_list (map (\<lambda>v. Suc (jsize v)) vs))"
| "jsize (JObj kvs) = Suc (sum_list (map (\<lambda>(k, v). Suc (Suc (jsize v))) kvs))"
| "jsize v = 0"

text \<open>Where a printed value may end inside a text the parser reads: at the end, before a
  separator, or before white space.\<close>

definition value_end :: "string \<Rightarrow> bool" where
  "value_end r \<longleftrightarrow> (case r of [] \<Rightarrow> True | c # _ \<Rightarrow> c \<in> {CHR '','', CHR '']'', CHR ''}''} \<or> json_ws c)"

definition member_print :: "string \<times> json \<Rightarrow> string" where
  "member_print kv = (case kv of (k, v) \<Rightarrow> quote_str k @ CHR '':'' # json_print v)"

definition member_pretty :: "nat \<Rightarrow> string \<times> json \<Rightarrow> string" where
  "member_pretty d kv = (case kv of (k, v) \<Rightarrow> quote_str k @ CHR '':'' # CHR '' '' # json_pretty (Suc d) v)"

section \<open>Round trips\<close>

subsection \<open>String literals\<close>

lemma chr_quote_lit: "chr_quote = CHR 0x22"
  unfolding chr_quote_def by code_simp

lemma chr_backslash_lit: "chr_backslash = CHR 0x5C"
  unfolding chr_backslash_def by code_simp

lemma char_of_of_char_eq: "(of_char c :: nat) = n \<Longrightarrow> c = char_of n"
  by (metis char_of_char)

lemma char_of_controls:
  "char_of (8::nat) = CHR 0x08" "char_of (9::nat) = CHR 0x09" "char_of (10::nat) = CHR 0x0A"
  "char_of (12::nat) = CHR 0x0C" "char_of (13::nat) = CHR 0x0D"
  by code_simp+

lemma simple_escape_short:
  assumes a: "short_escape (of_char c) = Some e"
  shows "simple_escape e = Some c"
proof -
  have "(of_char c :: nat) \<in> {8, 9, 10, 12, 13}" using a by (auto simp: short_escape_def split: if_splits)
  then consider "(of_char c :: nat) = 8" | "(of_char c :: nat) = 9" | "(of_char c :: nat) = 10"
    | "(of_char c :: nat) = 12" | "(of_char c :: nat) = 13" by blast
  then show ?thesis
  proof cases
    case 1 with a show ?thesis using char_of_of_char_eq [OF 1] by (auto simp: short_escape_def simple_escape_def char_of_controls)
  next
    case 2 with a show ?thesis using char_of_of_char_eq [OF 2] by (auto simp: short_escape_def simple_escape_def char_of_controls)
  next
    case 3 with a show ?thesis using char_of_of_char_eq [OF 3] by (auto simp: short_escape_def simple_escape_def char_of_controls)
  next
    case 4 with a show ?thesis using char_of_of_char_eq [OF 4] by (auto simp: short_escape_def simple_escape_def char_of_controls)
  next
    case 5 with a show ?thesis using char_of_of_char_eq [OF 5] by (auto simp: short_escape_def simple_escape_def char_of_controls)
  qed
qed

lemma json_hex_hex_digit: "d < 16 \<Longrightarrow> json_hex (hex_digit d) = Some d"
  by (auto simp: json_hex_def hex_digit_def)

lemma hex4_escape: "n < 256 \<Longrightarrow> hex4 (CHR ''0'') (CHR ''0'') (hex_digit (n div 16)) (hex_digit (n mod 16)) = Some n"
  by (simp add: hex4_def json_hex_def hex_digit_def less_mult_imp_div_less)

lemma parse_str_escape_char:
  "parse_str (escape_char c @ rest) = map_option (\<lambda>(s, r). (c # s, r)) (parse_str rest)"
proof -
  define n where "n = (of_char c :: nat)"
  have n256: "n < 256" by (simp add: n_def)
  show ?thesis
  proof (cases "c = chr_quote \<or> c = chr_backslash")
    case True
    then show ?thesis
      by (auto simp: escape_char_def chr_quote_lit chr_backslash_lit simple_escape_def)
  next
    case nq: False
    show ?thesis
    proof (cases "n < 32")
      case True
      show ?thesis
      proof (cases "short_escape n")
        case (Some e)
        have ne: "e \<noteq> CHR ''u''" using Some by (auto simp: short_escape_def split: if_splits)
        have se: "simple_escape e = Some c" using Some simple_escape_short [of c e] by (simp add: n_def)
        have "escape_char c = [CHR 0x5C, e]"
          using nq True Some by (simp add: escape_char_def n_def [symmetric] Let_def chr_backslash_lit)
        then show ?thesis using ne se by simp
      next
        case None
        have "utf8_enc n = Some [c]" using True by (simp add: utf8_enc_def n_def)
        then show ?thesis using nq True None hex4_escape [OF n256]
          by (simp add: escape_char_def n_def Let_def chr_backslash_lit)
      qed
    next
      case False
      then show ?thesis using nq
        by (simp add: escape_char_def n_def Let_def chr_quote_lit chr_backslash_lit)
    qed
  qed
qed

lemma parse_str_quote_str: "parse_str (concat (map escape_char s) @ chr_quote # r) = Some (s, r)"
  by (induction s) (simp_all add: parse_str_escape_char chr_quote_lit)

subsection \<open>Integers\<close>

lemma is_digit_digit_chr: "d < 10 \<Longrightarrow> is_digit (digit_chr d)"
  by (simp add: is_digit_def)

lemma dec_str_digits: "\<forall>c\<in>set (dec_str n). is_digit c"
  using set_dec_str_digits [of n] is_digit_digit_chr by auto

lemma value_end_not_digit: "value_end r \<Longrightarrow> r \<noteq> [] \<Longrightarrow> \<not> is_digit (hd r)"
  by (auto simp: value_end_def is_digit_def digit_val_def json_ws_def split: list.splits)

lemma value_end_no_frac: "value_end r \<Longrightarrow> \<not> (r \<noteq> [] \<and> hd r \<in> {CHR ''.'', CHR ''e'', CHR ''E''})"
  by (auto simp: value_end_def json_ws_def split: list.splits)

lemma take_dec_str: "value_end r \<Longrightarrow> takeWhile is_digit (dec_str n @ r) = dec_str n"
  using dec_str_digits [of n] value_end_not_digit [of r]
  by (cases r) (simp_all add: takeWhile_append2)

lemma drop_dec_str: "value_end r \<Longrightarrow> dropWhile is_digit (dec_str n @ r) = r"
  using dec_str_digits [of n] value_end_not_digit [of r]
  by (cases r) (simp_all add: dropWhile_append2)

lemma dec_str_zero: "dec_str 0 = [CHR ''0'']"
  by (simp add: dec_str.simps [of 0] digit_chr_def) code_simp

lemma dec_str_hd_zero: "hd (dec_str n) = CHR ''0'' \<Longrightarrow> tl (dec_str n) = []"
proof (induction n rule: dec_str.induct)
  case (1 n)
  show ?case
  proof (cases "n < 10")
    case True
    then show ?thesis by (simp add: dec_str.simps [of n])
  next
    case False
    then have "hd (dec_str (n div 10)) = CHR ''0''" using "1.prems" by (simp add: dec_str.simps [of n])
    with "1.IH" False have "tl (dec_str (n div 10)) = []" by simp
    then have "dec_str (n div 10) = [CHR ''0'']"
      using \<open>hd (dec_str (n div 10)) = CHR ''0''\<close> by (cases "dec_str (n div 10)") auto
    then have "n div 10 = 0" using dec_str_inj [of "n div 10" 0] by (simp add: dec_str_zero)
    with False show ?thesis by simp
  qed
qed

lemma parse_number_dec: "value_end r \<Longrightarrow> parse_number (dec_str n @ r) = Some (JNum (int n), r)"
proof -
  assume ve: "value_end r"
  have hd_ne: "hd (dec_str n @ r) \<noteq> CHR ''-''"
    using dec_str_digits [of n] by (cases "dec_str n") (auto simp: is_digit_def digit_val_def)
  then have "(case dec_str n @ r of c # t \<Rightarrow> if c = CHR ''-'' then (True, t) else (False, dec_str n @ r)
               | [] \<Rightarrow> (False, dec_str n @ r)) = (False, dec_str n @ r)"
    by (cases "dec_str n @ r") auto
  then show ?thesis using ve dec_str_hd_zero [of n] value_end_no_frac [of r]
    by (simp add: parse_number_def take_dec_str drop_dec_str Let_def)
qed

lemma parse_number_neg: "value_end r \<Longrightarrow> parse_number (CHR ''-'' # dec_str n @ r) = Some (JNum (- int n), r)"
  using dec_str_hd_zero [of n] value_end_no_frac [of r]
  by (simp add: parse_number_def take_dec_str drop_dec_str Let_def)

lemma parse_number_int_str: "value_end r \<Longrightarrow> parse_number (int_str i @ r) = Some (JNum i, r)"
  by (auto simp: int_str_def parse_number_dec parse_number_neg)

subsection \<open>Compact printing\<close>

lemma skip_ws_Cons: "skip_ws (c # s) = (if json_ws c then skip_ws s else c # s)"
  by (simp add: skip_ws_def)

lemma json_ws_simps [simp]:
  "\<not> json_ws CHR ''[''" "\<not> json_ws CHR '']''" "\<not> json_ws CHR ''{''" "\<not> json_ws CHR ''}''"
  "\<not> json_ws CHR '',''" "\<not> json_ws CHR '':''" "\<not> json_ws CHR 0x22" "json_ws CHR 0x0A" "json_ws CHR '' ''"
  by (simp_all add: json_ws_def)

lemma join_on_Cons_concat: "join_on c (w # ws) = w @ concat (map (\<lambda>x. c # x) ws)"
  by (induction ws arbitrary: w) (simp_all add: join_on.simps)

lemma print_start:
  "\<exists>c cs. json_print v = c # cs \<and> \<not> json_ws c \<and> c \<noteq> CHR '']'' \<and> c \<noteq> CHR ''}''"
proof (cases v)
  case (JNum i)
  show ?thesis
  proof (cases "i < 0")
    case True then show ?thesis using JNum by (simp add: int_str_def json_ws_def)
  next
    case False
    obtain d ds where "dec_str (nat i) = d # ds" using dec_str_ne by (cases "dec_str (nat i)") auto
    moreover have "is_digit d" using dec_str_digits [of "nat i"] calculation by simp
    ultimately show ?thesis using JNum False
      by (auto simp: int_str_def json_ws_def is_digit_def digit_val_def)
  qed
qed (auto simp: quote_str_def chr_quote_lit json_ws_def)

lemma print_compound_start:
  "json_print v \<noteq> [] \<and> (hd (json_print v) \<in> {CHR ''{'', CHR ''[''} \<longleftrightarrow> is_compound v)"
proof (cases v)
  case (JNum i)
  show ?thesis
  proof (cases "i < 0")
    case True then show ?thesis using JNum by (simp add: int_str_def)
  next
    case False
    obtain d ds where "dec_str (nat i) = d # ds" using dec_str_ne by (cases "dec_str (nat i)") auto
    moreover have "is_digit d" using dec_str_digits [of "nat i"] calculation by simp
    ultimately show ?thesis using JNum False
      by (auto simp: int_str_def is_digit_def digit_val_def)
  qed
qed (auto simp: quote_str_def chr_quote_lit)

lemma skip_ws_print: "skip_ws (json_print v @ r) = json_print v @ r"
  using print_start [of v] by (auto simp: skip_ws_Cons)

lemma value_end_elems: "value_end (concat (map (\<lambda>v. CHR '','' # f v) vs) @ CHR '']'' # r)"
  by (cases vs) (simp_all add: value_end_def)

lemma parse_literal_simps:
  "parse_literal (''null'' @ r) = Some (JNull, r)"
  "parse_literal (''true'' @ r) = Some (JBool True, r)"
  "parse_literal (''false'' @ r) = Some (JBool False, r)"
  by (simp_all add: parse_literal_def)

lemma parse_elems_print:
  assumes ih: "\<And>v n r. v \<in> set vs \<Longrightarrow> jsize v < n \<Longrightarrow> value_end r \<Longrightarrow> parse_value n (json_print v @ r) = Some (v, r)"
    and fuel: "sum_list (map (\<lambda>v. Suc (jsize v)) vs) < n"
  shows "parse_elems n (concat (map (\<lambda>v. CHR '','' # json_print v) vs) @ CHR '']'' # r) = Some (vs, r)"
  using assms
proof (induction vs arbitrary: n)
  case Nil
  then obtain k where "n = Suc k" by (cases n) auto
  then show ?case by (simp add: skip_ws_Cons)
next
  case (Cons v vs)
  then obtain k where k: "n = Suc k" by (cases n) auto
  have pv: "parse_value k (json_print v @ concat (map (\<lambda>v. CHR '','' # json_print v) vs) @ CHR '']'' # r) =
            Some (v, concat (map (\<lambda>v. CHR '','' # json_print v) vs) @ CHR '']'' # r)"
    using Cons.prems k by (intro Cons.prems(1)) (simp_all add: value_end_elems)
  have "parse_elems k (concat (map (\<lambda>v. CHR '','' # json_print v) vs) @ CHR '']'' # r) = Some (vs, r)"
    using Cons.prems k by (intro Cons.IH) simp_all
  with pv k show ?case by (simp add: skip_ws_Cons)
qed

lemma value_end_members: "value_end (concat (map (\<lambda>kv. CHR '','' # f kv) kvs) @ CHR ''}'' # r)"
  by (cases kvs) (simp_all add: value_end_def)

lemma parse_member_print:
  assumes ih: "\<And>n r. jsize v < n \<Longrightarrow> value_end r \<Longrightarrow> parse_value n (json_print v @ r) = Some (v, r)"
    and fuel: "Suc (jsize v) < n" and ve: "value_end r"
  shows "parse_member n (member_print (k, v) @ r) = Some ((k, v), r)"
proof -
  obtain m where m: "n = Suc m" using fuel by (cases n) auto
  have "parse_str (concat (map escape_char k) @ chr_quote # CHR '':'' # json_print v @ r) =
        Some (k, CHR '':'' # json_print v @ r)"
    by (rule parse_str_quote_str)
  moreover have "parse_value m (json_print v @ r) = Some (v, r)" using fuel m ve by (intro ih) simp_all
  ultimately show ?thesis using m
    by (simp add: member_print_def quote_str_def chr_quote_lit skip_ws_Cons skip_ws_print)
qed

lemma parse_members_print:
  assumes ih: "\<And>k v n r. (k, v) \<in> set kvs \<Longrightarrow> jsize v < n \<Longrightarrow> value_end r \<Longrightarrow> parse_value n (json_print v @ r) = Some (v, r)"
    and fuel: "sum_list (map (\<lambda>(k, v). Suc (Suc (jsize v))) kvs) < n"
  shows "parse_members n (concat (map (\<lambda>kv. CHR '','' # member_print kv) kvs) @ CHR ''}'' # r) = Some (kvs, r)"
  using assms
proof (induction kvs arbitrary: n)
  case Nil
  then obtain k where "n = Suc k" by (cases n) auto
  then show ?case by (simp add: skip_ws_Cons)
next
  case (Cons kv kvs)
  obtain key v where kv: "kv = (key, v)" by fastforce
  from Cons.prems obtain k where k: "n = Suc k" by (cases n) auto
  have pm: "parse_member k (member_print (key, v) @ concat (map (\<lambda>kv. CHR '','' # member_print kv) kvs) @ CHR ''}'' # r) =
            Some ((key, v), concat (map (\<lambda>kv. CHR '','' # member_print kv) kvs) @ CHR ''}'' # r)"
  proof (rule parse_member_print)
    show "\<And>n r. jsize v < n \<Longrightarrow> value_end r \<Longrightarrow> parse_value n (json_print v @ r) = Some (v, r)"
      using Cons.prems(1) [of key v] kv by simp
  qed (use Cons.prems k kv in \<open>simp_all add: value_end_members\<close>)
  have "parse_members k (concat (map (\<lambda>kv. CHR '','' # member_print kv) kvs) @ CHR ''}'' # r) = Some (kvs, r)"
    using Cons.prems k kv by (intro Cons.IH) (auto)
  with pm k kv show ?case by (simp add: skip_ws_Cons)
qed

lemma parse_value_print:
  "jsize v < n \<Longrightarrow> value_end r \<Longrightarrow> parse_value n (json_print v @ r) = Some (v, r)"
proof (induction v arbitrary: n r)
  case JNull
  then obtain m where "n = Suc m" by (cases n) auto
  then show ?case using parse_literal_simps(1) [of r] by (simp add: skip_ws_Cons is_digit_def digit_val_def json_ws_def)
next
  case (JBool b)
  then obtain m where "n = Suc m" by (cases n) auto
  then show ?case using parse_literal_simps(2,3) [of r]
    by (cases b) (simp_all add: skip_ws_Cons is_digit_def digit_val_def json_ws_def)
next
  case (JNum i)
  then obtain m where m: "n = Suc m" by (cases n) auto
  show ?case
  proof (cases "i < 0")
    case True
    then show ?thesis using m parse_number_int_str [OF JNum.prems(2), of i]
      by (simp add: int_str_def skip_ws_Cons json_ws_def)
  next
    case False
    obtain d ds where dd: "dec_str (nat i) = d # ds" using dec_str_ne by (cases "dec_str (nat i)") auto
    have "is_digit d" using dec_str_digits [of "nat i"] dd by simp
    moreover have "\<not> json_ws d" "d \<noteq> CHR ''[''" "d \<noteq> CHR ''{''" "d \<noteq> CHR 0x22"
      using calculation by (auto simp: is_digit_def digit_val_def json_ws_def)
    ultimately show ?thesis using m False parse_number_int_str [OF JNum.prems(2), of i] dd
      by (simp add: int_str_def skip_ws_Cons)
  qed
next
  case (JStr s)
  then obtain m where "n = Suc m" by (cases n) auto
  then show ?case using parse_str_quote_str [of s r]
    by (simp add: quote_str_def chr_quote_lit skip_ws_Cons)
next
  case (JArr vs)
  then obtain m where m: "n = Suc m" by (cases n) auto
  show ?case
  proof (cases vs)
    case Nil
    then show ?thesis using m by (simp add: skip_ws_Cons)
  next
    case (Cons v rest)
    let ?tail = "concat (map (\<lambda>v. CHR '','' # json_print v) rest) @ CHR '']'' # r"
    have fuel: "Suc (jsize v) + sum_list (map (\<lambda>v. Suc (jsize v)) rest) < m"
      using JArr.prems(1) m Cons by simp
    have pv: "parse_value m (json_print v @ ?tail) = Some (v, ?tail)"
      using fuel Cons by (intro JArr.IH) (simp_all add: value_end_elems)
    have pe: "parse_elems m ?tail = Some (rest, r)"
      using fuel Cons by (intro parse_elems_print JArr.IH) simp_all
    have "json_print (JArr vs) @ r = CHR ''['' # json_print v @ ?tail"
      using Cons by (simp add: join_on_Cons_concat comp_def)
    moreover obtain c cs where "json_print v = c # cs" "\<not> json_ws c" "c \<noteq> CHR '']''"
      using print_start [of v] by blast
    ultimately show ?thesis using m pv pe Cons by (simp add: skip_ws_Cons)
  qed
next
  case (JObj kvs)
  then obtain m where m: "n = Suc m" by (cases n) auto
  show ?case
  proof (cases kvs)
    case Nil
    then show ?thesis using m by (simp add: skip_ws_Cons)
  next
    case (Cons kv rest)
    obtain key v where kv: "kv = (key, v)" by fastforce
    let ?tail = "concat (map (\<lambda>kv. CHR '','' # member_print kv) rest) @ CHR ''}'' # r"
    have fuel: "Suc (Suc (jsize v)) + sum_list (map (\<lambda>(k, v). Suc (Suc (jsize v))) rest) < m"
      using JObj.prems(1) m Cons kv by simp
    have ihv: "\<And>n r. jsize v < n \<Longrightarrow> value_end r \<Longrightarrow> parse_value n (json_print v @ r) = Some (v, r)"
      using JObj.IH [of kv v] Cons kv by simp
    have pm: "parse_member m (member_print (key, v) @ ?tail) = Some ((key, v), ?tail)"
      using fuel by (intro parse_member_print [OF ihv]) (simp_all add: value_end_members)
    have pms: "parse_members m ?tail = Some (rest, r)"
    proof (rule parse_members_print)
      show "\<And>k v' n r. (k, v') \<in> set rest \<Longrightarrow> jsize v' < n \<Longrightarrow> value_end r \<Longrightarrow>
              parse_value n (json_print v' @ r) = Some (v', r)"
      proof -
        fix k v' n r assume "(k, v') \<in> set rest" "jsize v' < n" "value_end r"
        then show "parse_value n (json_print v' @ r) = Some (v', r)"
          using JObj.IH [of "(k, v')" v'] Cons by simp
      qed
    qed (use fuel in simp)
    have "json_print (JObj kvs) @ r = CHR ''{'' # member_print (key, v) @ ?tail"
      using Cons kv by (simp add: join_on_Cons_concat member_print_def comp_def)
    moreover obtain mt where mt: "member_print (key, v) = CHR 0x22 # mt"
      by (simp add: member_print_def quote_str_def chr_quote_lit)
    ultimately have "json_print (JObj kvs) @ r = CHR ''{'' # CHR 0x22 # mt @ ?tail" by simp
    moreover have "parse_member m (CHR 0x22 # mt @ ?tail) = Some ((key, v), ?tail)"
      using pm mt by simp
    ultimately show ?thesis using m pms Cons kv by (simp add: skip_ws_Cons)
  qed
qed

lemma length_join_on: "ws \<noteq> [] \<Longrightarrow> length (join_on c ws) = sum_list (map length ws) + (length ws - 1)"
  by (induction c ws rule: join_on.induct) auto

lemma length_quote_str: "length (quote_str s) \<ge> 2"
  by (simp add: quote_str_def)

lemma jsize_le_print: "jsize v \<le> length (json_print v)"
proof (induction v)
  case (JArr vs)
  show ?case
  proof (cases vs)
    case (Cons w ws)
    have "sum_list (map (\<lambda>v. Suc (jsize v)) vs) \<le> sum_list (map (\<lambda>v. Suc (length (json_print v))) vs)"
      using JArr.IH by (intro sum_list_mono) auto
    moreover have "sum_list (map (\<lambda>v. Suc (length (json_print v))) vs) =
                   sum_list (map length (map json_print vs)) + length vs"
      by (induction vs) auto
    ultimately show ?thesis using Cons
      by (simp add: length_join_on del: map_map)
  qed simp
next
  case (JObj kvs)
  show ?case
  proof (cases kvs)
    case (Cons w ws)
    have pr: "json_print (JObj kvs) = CHR ''{'' # join_on CHR '','' (map member_print kvs) @ ''}''"
      by (simp add: member_print_def [abs_def])
    have len: "length (json_print (JObj kvs)) = 2 + sum_list (map length (map member_print kvs)) + (length kvs - 1)"
    proof -
      have ne: "map member_print kvs \<noteq> []" using Cons by simp
      show ?thesis unfolding pr using length_join_on [OF ne, of "CHR '',''"] by simp
    qed
    have "sum_list (map (\<lambda>kv. case kv of (k, v) \<Rightarrow> Suc (Suc (jsize v))) kvs) \<le>
          sum_list (map (\<lambda>kv. length (member_print kv)) kvs)"
    proof (rule sum_list_mono)
      fix x assume x: "x \<in> set kvs"
      obtain k v where kv: "x = (k, v)" by fastforce
      have "jsize v \<le> length (json_print v)" using JObj.IH [of x v] x kv by simp
      then show "(case x of (k, v) \<Rightarrow> Suc (Suc (jsize v))) \<le> length (member_print x)"
        using length_quote_str [of k] kv by (simp add: member_print_def)
    qed
    moreover have "jsize (JObj kvs) = Suc (sum_list (map (\<lambda>kv. case kv of (k, v) \<Rightarrow> Suc (Suc (jsize v))) kvs))"
      by simp
    moreover have "sum_list (map (\<lambda>kv. length (member_print kv)) kvs) = sum_list (map length (map member_print kvs))"
      by (simp add: comp_def)
    ultimately show ?thesis using len by linarith
  qed simp
qed simp_all

lemma json_parse_print: "json_parse (json_print v) = Some v"
  using parse_value_print [of v "Suc (length (json_print v))" "[]"] jsize_le_print [of v]
  by (simp add: json_parse_def value_end_def skip_ws_def)

subsection \<open>Indented printing\<close>

lemma skip_ws_append_ws: "\<forall>c\<in>set w. json_ws c \<Longrightarrow> skip_ws (w @ s) = skip_ws s"
  by (simp add: skip_ws_def)

lemma ws_indent: "\<forall>c\<in>set (CHR 0x0A # indent d). json_ws c"
  by (simp add: indent_def)

lemma parse_ws_prefix:
  assumes "\<forall>c\<in>set w. json_ws c"
  shows "parse_value n (w @ s) = parse_value n s" and "parse_elems n (w @ s) = parse_elems n s"
    and "parse_member n (w @ s) = parse_member n s" and "parse_members n (w @ s) = parse_members n s"
  using skip_ws_append_ws [OF assms, of s] by (cases n; simp)+

lemmas parse_nl_indent = parse_ws_prefix [OF ws_indent, simplified]

lemma value_end_nl: "value_end (CHR 0x0A # s)"
  by (simp add: value_end_def)

lemma value_end_pretty_elems:
  "value_end (concat (map (\<lambda>v. CHR '','' # f v) vs) @ CHR 0x0A # s)"
  by (cases vs) (simp_all add: value_end_def)

lemma parse_elems_pretty:
  assumes ih: "\<And>v n r. v \<in> set vs \<Longrightarrow> jsize v < n \<Longrightarrow> value_end r \<Longrightarrow>
                 parse_value n (json_pretty (Suc d) v @ r) = Some (v, r)"
    and fuel: "sum_list (map (\<lambda>v. Suc (jsize v)) vs) < n"
  shows "parse_elems n (concat (map (\<lambda>v. CHR '','' # CHR 0x0A # indent (Suc d) @ json_pretty (Suc d) v) vs)
           @ CHR 0x0A # indent d @ CHR '']'' # r) = Some (vs, r)"
  using assms
proof (induction vs arbitrary: n)
  case Nil
  then obtain k where "n = Suc k" by (cases n) auto
  then show ?case using skip_ws_append_ws [OF ws_indent, of d "CHR '']'' # r"] by (simp add: skip_ws_Cons)
next
  case (Cons v vs)
  then obtain k where k: "n = Suc k" by (cases n) auto
  let ?tail = "concat (map (\<lambda>v. CHR '','' # CHR 0x0A # indent (Suc d) @ json_pretty (Suc d) v) vs)
               @ CHR 0x0A # indent d @ CHR '']'' # r"
  have pv: "parse_value k (CHR 0x0A # indent (Suc d) @ json_pretty (Suc d) v @ ?tail) = Some (v, ?tail)"
    unfolding parse_nl_indent(1) [of k "Suc d"]
    using Cons.prems k by (intro Cons.prems(1)) (simp_all add: value_end_pretty_elems)
  have "parse_elems k ?tail = Some (vs, r)"
    using Cons.prems k by (intro Cons.IH) simp_all
  with pv k show ?case by (simp add: skip_ws_Cons)
qed

lemma parse_member_pretty:
  assumes ih: "\<And>n r. jsize v < n \<Longrightarrow> value_end r \<Longrightarrow> parse_value n (json_pretty (Suc d) v @ r) = Some (v, r)"
    and fuel: "Suc (jsize v) < n" and ve: "value_end r"
  shows "parse_member n (member_pretty d (k, v) @ r) = Some ((k, v), r)"
proof -
  obtain m where m: "n = Suc m" using fuel by (cases n) auto
  have "parse_str (concat (map escape_char k) @ chr_quote # CHR '':'' # CHR '' '' # json_pretty (Suc d) v @ r) =
        Some (k, CHR '':'' # CHR '' '' # json_pretty (Suc d) v @ r)"
    by (rule parse_str_quote_str)
  moreover have "parse_value m (json_pretty (Suc d) v @ r) = Some (v, r)" using fuel m ve by (intro ih) simp_all
  moreover have "parse_value m (CHR '' '' # json_pretty (Suc d) v @ r) = parse_value m (json_pretty (Suc d) v @ r)"
    using parse_ws_prefix(1) [of "[CHR '' '']" m] by simp
  ultimately show ?thesis using m
    by (simp add: member_pretty_def quote_str_def chr_quote_lit skip_ws_Cons)
qed

lemma parse_members_pretty:
  assumes ih: "\<And>k v n r. (k, v) \<in> set kvs \<Longrightarrow> jsize v < n \<Longrightarrow> value_end r \<Longrightarrow>
                 parse_value n (json_pretty (Suc d) v @ r) = Some (v, r)"
    and fuel: "sum_list (map (\<lambda>(k, v). Suc (Suc (jsize v))) kvs) < n"
  shows "parse_members n (concat (map (\<lambda>kv. CHR '','' # CHR 0x0A # indent (Suc d) @ member_pretty d kv) kvs)
           @ CHR 0x0A # indent d @ CHR ''}'' # r) = Some (kvs, r)"
  using assms
proof (induction kvs arbitrary: n)
  case Nil
  then obtain k where "n = Suc k" by (cases n) auto
  then show ?case using skip_ws_append_ws [OF ws_indent, of d "CHR ''}'' # r"] by (simp add: skip_ws_Cons)
next
  case (Cons kv kvs)
  obtain key v where kv: "kv = (key, v)" by fastforce
  from Cons.prems obtain k where k: "n = Suc k" by (cases n) auto
  let ?tail = "concat (map (\<lambda>kv. CHR '','' # CHR 0x0A # indent (Suc d) @ member_pretty d kv) kvs)
               @ CHR 0x0A # indent d @ CHR ''}'' # r"
  have pm: "parse_member k (member_pretty d (key, v) @ ?tail) = Some ((key, v), ?tail)"
  proof (rule parse_member_pretty)
    show "\<And>n r. jsize v < n \<Longrightarrow> value_end r \<Longrightarrow> parse_value n (json_pretty (Suc d) v @ r) = Some (v, r)"
      using Cons.prems(1) [of key v] kv by simp
  qed (use Cons.prems k kv in \<open>simp_all add: value_end_pretty_elems\<close>)
  have "parse_members k ?tail = Some (kvs, r)"
    using Cons.prems k kv by (intro Cons.IH) auto
  with pm k kv show ?case
    using parse_nl_indent(3) [of k "Suc d"] by (simp add: skip_ws_Cons)
qed

lemma pretty_start:
  "\<exists>c cs. json_pretty d v = c # cs \<and> \<not> json_ws c \<and> c \<noteq> CHR '']'' \<and> c \<noteq> CHR ''}''"
  using print_start [of v] by (cases v) simp_all

lemma skip_ws_pretty: "skip_ws (json_pretty d v @ r) = json_pretty d v @ r"
  using pretty_start [of d v] by (auto simp: skip_ws_Cons)

lemma parse_value_pretty:
  "jsize v < n \<Longrightarrow> value_end r \<Longrightarrow> parse_value n (json_pretty d v @ r) = Some (v, r)"
proof (induction v arbitrary: d n r)
  case (JArr vs)
  then obtain m where m: "n = Suc m" by (cases n) auto
  show ?case
  proof (cases vs)
    case Nil
    then show ?thesis using m by (simp add: skip_ws_Cons)
  next
    case (Cons v rest)
    let ?tail = "concat (map (\<lambda>v. CHR '','' # CHR 0x0A # indent (Suc d) @ json_pretty (Suc d) v) rest)
                 @ CHR 0x0A # indent d @ CHR '']'' # r"
    have fuel: "Suc (jsize v) + sum_list (map (\<lambda>v. Suc (jsize v)) rest) < m"
      using JArr.prems(1) m Cons by simp
    have pv: "parse_value m (CHR 0x0A # indent (Suc d) @ json_pretty (Suc d) v @ ?tail) = Some (v, ?tail)"
      unfolding parse_nl_indent(1)
      using fuel Cons by (intro JArr.IH) (simp_all add: value_end_pretty_elems)
    have pe: "parse_elems m ?tail = Some (rest, r)"
      using fuel Cons by (intro parse_elems_pretty JArr.IH) simp_all
    have "json_pretty d (JArr vs) @ r = CHR ''['' # (CHR 0x0A # indent (Suc d) @ json_pretty (Suc d) v @ ?tail)"
      using Cons by (simp add: join_on_Cons_concat comp_def)
    moreover have "skip_ws (CHR 0x0A # indent (Suc d) @ json_pretty (Suc d) v @ ?tail) =
                   json_pretty (Suc d) v @ ?tail"
      using skip_ws_append_ws [OF ws_indent] skip_ws_pretty by simp
    moreover obtain c cs where "json_pretty (Suc d) v = c # cs" "c \<noteq> CHR '']''"
      using pretty_start [of "Suc d" v] by blast
    ultimately show ?thesis using m pv pe Cons by (simp add: skip_ws_Cons)
  qed
next
  case (JObj kvs)
  then obtain m where m: "n = Suc m" by (cases n) auto
  show ?case
  proof (cases kvs)
    case Nil
    then show ?thesis using m by (simp add: skip_ws_Cons)
  next
    case (Cons kv rest)
    obtain key v where kv: "kv = (key, v)" by fastforce
    let ?tail = "concat (map (\<lambda>kv. CHR '','' # CHR 0x0A # indent (Suc d) @ member_pretty d kv) rest)
                 @ CHR 0x0A # indent d @ CHR ''}'' # r"
    have fuel: "Suc (Suc (jsize v)) + sum_list (map (\<lambda>(k, v). Suc (Suc (jsize v))) rest) < m"
      using JObj.prems(1) m Cons kv by simp
    have ihv: "\<And>n r. jsize v < n \<Longrightarrow> value_end r \<Longrightarrow> parse_value n (json_pretty (Suc d) v @ r) = Some (v, r)"
      using JObj.IH [of kv v] Cons kv by simp
    have pm: "parse_member m (member_pretty d (key, v) @ ?tail) = Some ((key, v), ?tail)"
      using fuel by (intro parse_member_pretty [OF ihv]) (simp_all add: value_end_pretty_elems)
    have pms: "parse_members m ?tail = Some (rest, r)"
    proof (rule parse_members_pretty)
      show "\<And>k v' n r. (k, v') \<in> set rest \<Longrightarrow> jsize v' < n \<Longrightarrow> value_end r \<Longrightarrow>
              parse_value n (json_pretty (Suc d) v' @ r) = Some (v', r)"
      proof -
        fix k v' n r assume "(k, v') \<in> set rest" "jsize v' < n" "value_end r"
        then show "parse_value n (json_pretty (Suc d) v' @ r) = Some (v', r)"
          using JObj.IH [of "(k, v')" v'] Cons by simp
      qed
    qed (use fuel in simp)
    obtain mt where mt: "member_pretty d (key, v) = CHR 0x22 # mt"
      by (simp add: member_pretty_def quote_str_def chr_quote_lit)
    have eq: "json_pretty d (JObj kvs) @ r = CHR ''{'' # (CHR 0x0A # indent (Suc d) @ CHR 0x22 # mt @ ?tail)"
      using Cons kv mt by (simp add: join_on_Cons_concat member_pretty_def comp_def case_prod_beta)
    have sk: "skip_ws (CHR 0x0A # indent (Suc d) @ CHR 0x22 # mt @ ?tail) = CHR 0x22 # mt @ ?tail"
      using skip_ws_append_ws [OF ws_indent] by (simp add: skip_ws_Cons)
    have pm': "parse_member m (CHR 0x0A # indent (Suc d) @ CHR 0x22 # mt @ ?tail) = Some ((key, v), ?tail)"
      using pm mt parse_nl_indent(3) [of m "Suc d"] by simp
    show ?thesis unfolding eq using m pms sk pm' Cons kv by (simp add: skip_ws_Cons)
  qed
qed (simp_all only: json_pretty.simps jsize.simps parse_value_print)

lemma jsize_le_pretty: "jsize v \<le> length (json_pretty d v)"
proof (induction v arbitrary: d)
  case (JArr vs)
  show ?case
  proof (cases vs)
    case (Cons w ws)
    let ?items = "map (\<lambda>v. CHR 0x0A # indent (Suc d) @ json_pretty (Suc d) v) vs"
    have ne: "?items \<noteq> []" using Cons by simp
    have len: "length (json_pretty d (JArr vs)) = 3 + length (indent d) + sum_list (map length ?items) + (length vs - 1)"
      using Cons length_join_on [OF ne, of "CHR '',''"] by simp
    have "sum_list (map (\<lambda>v. Suc (jsize v)) vs) \<le> sum_list (map (\<lambda>v. length (CHR 0x0A # indent (Suc d) @ json_pretty (Suc d) v)) vs)"
    proof (rule sum_list_mono)
      fix x assume "x \<in> set vs"
      then show "Suc (jsize x) \<le> length (CHR 0x0A # indent (Suc d) @ json_pretty (Suc d) x)"
        using JArr.IH [of x "Suc d"] by simp
    qed
    moreover have "sum_list (map (\<lambda>v. length (CHR 0x0A # indent (Suc d) @ json_pretty (Suc d) v)) vs) =
                   sum_list (map length ?items)"
      by (simp add: comp_def)
    ultimately show ?thesis using len by simp
  qed simp
next
  case (JObj kvs)
  show ?case
  proof (cases kvs)
    case (Cons w ws)
    let ?items = "map (\<lambda>kv. CHR 0x0A # indent (Suc d) @ member_pretty d kv) kvs"
    have pr: "json_pretty d (JObj kvs) = CHR ''{'' # join_on CHR '','' ?items @ CHR 0x0A # indent d @ ''}''"
      using Cons by (simp add: member_pretty_def [abs_def] split_def)
    have ne: "?items \<noteq> []" using Cons by simp
    have len: "length (json_pretty d (JObj kvs)) = 3 + length (indent d) + sum_list (map length ?items) + (length kvs - 1)"
      unfolding pr using length_join_on [OF ne, of "CHR '',''"] by simp
    have "sum_list (map (\<lambda>kv. case kv of (k, v) \<Rightarrow> Suc (Suc (jsize v))) kvs) \<le>
          sum_list (map (\<lambda>kv. length (CHR 0x0A # indent (Suc d) @ member_pretty d kv)) kvs)"
    proof (rule sum_list_mono)
      fix x assume x: "x \<in> set kvs"
      obtain k v where kv: "x = (k, v)" by fastforce
      have "jsize v \<le> length (json_pretty (Suc d) v)" using JObj.IH [of x v "Suc d"] x kv by simp
      then show "(case x of (k, v) \<Rightarrow> Suc (Suc (jsize v))) \<le> length (CHR 0x0A # indent (Suc d) @ member_pretty d x)"
        using length_quote_str [of k] kv by (simp add: member_pretty_def)
    qed
    moreover have "jsize (JObj kvs) = Suc (sum_list (map (\<lambda>kv. case kv of (k, v) \<Rightarrow> Suc (Suc (jsize v))) kvs))"
      by simp
    moreover have "sum_list (map (\<lambda>kv. length (CHR 0x0A # indent (Suc d) @ member_pretty d kv)) kvs) =
                   sum_list (map length ?items)"
      by (simp add: comp_def)
    ultimately show ?thesis using len by linarith
  qed simp
qed (simp_all add: jsize_le_print)

lemma json_parse_pretty: "json_parse (json_pretty 0 v) = Some v"
  using parse_value_pretty [of v "Suc (length (json_pretty 0 v))" "[]" 0] jsize_le_pretty [of v 0]
  by (simp add: json_parse_def value_end_def skip_ws_def)

end
