(* ===== verification/Server.thy ===== *)
theory Server
  imports Watchlist Proxy JsonText
begin

text \<open>
  The HTTP API of \<open>src/server/index.js\<close> as one server: the start-up code
  (lines 14--28), the routing table of the Express app in registration order
  (lines 60--168), and the handlers of the other theories behind it.

  \<^bold>\<open>Routing.\<close> A route is a method and a path pattern of literal segments
  and parameters. Express matches literals case-insensitively, a parameter
  against one non-empty segment, and ignores one trailing slash; the first
  route that matches handles the request. After the API routes come
  \<open>express.static\<close> (a file of the client folder, for GET and HEAD) and the
  catch-all \<open>app.get('*')\<close>, which sends \<open>index.html\<close>; any other request gets
  Express's 404. Query strings arrive parsed (\<open>req.query\<close>); path
  segments are taken as given.

  \<^bold>\<open>Body parser.\<close> \<open>serve_http\<close> is the app on the request as it
  arrives: \<open>express.json()\<close> turns the body text into \<open>req.body\<close> (with the
  \<open>JSON.parse\<close> of theory \<open>JsonText\<close>) or answers 400 before any route
  runs, and \<open>serve\<close> handles the parsed request. \<open>reply_type\<close> is the
  shape of every answer.

  \<^bold>\<open>Sequential server.\<close> \<open>serve\<close> handles one request to completion:
  routing, \<open>authMiddleware\<close> for the protected routes, then the handler.
  \<open>serve_all\<close> handles a list of requests one after the other.

  \<^bold>\<open>Interleaving.\<close> Node runs one handler step at a time, but the signup
  handler yields at \<open>await bcrypt.hash\<close> after it has read the store and before
  it writes it back. \<open>srv_step\<close> is the server as an event machine: an
  \<open>Arrive\<close> event runs a request up to its first \<open>await\<close> (signup then waits in
  the pending list holding the array it read; every other handler completes,
  login included, since it writes nothing after its await), and \<open>Resume i\<close>
  completes the \<open>i\<close>-th pending signup. \<open>srv_reach\<close> is the set of states
  reachable from a started server under any order of events.
\<close>

datatype http_method = GET | HEAD | POST | PUT | DELETE

record request =
  req_method :: http_method
  req_path :: string
  req_auth :: "string option" \<comment> \<open>\<open>req.headers.authorization\<close>\<close>
  req_query :: "(string \<times> json) list"
  req_body :: json

record config =
  tmdb_key :: string
  jwt_secret :: string
  client_files :: "string list" \<comment> \<open>paths \<open>express.static\<close> can serve\<close>

record env =
  clock :: millis
  bcrypt_salt :: string
  tmdb :: upstream

definition start_config :: "string option \<Rightarrow> string option \<Rightarrow> string list \<Rightarrow> config option" where
  "start_config key secret files =
     (case key of
        None \<Rightarrow> None
      | Some k \<Rightarrow> if k = [] then None
                  else Some \<lparr>tmdb_key = k, jwt_secret = jwt_secret_of secret, client_files = files\<rparr>)"

section \<open>Routing\<close>

datatype route =
    R_Trending string string
  | R_Movie string
  | R_Search
  | R_Configuration
  | R_Signup
  | R_Login
  | R_Me
  | R_Watchlist_Get
  | R_Watchlist_Post
  | R_Static string
  | R_Index
  | R_Not_Found

datatype seg_pat = Lit string | Param

definition lower_char :: "char \<Rightarrow> char" where
  "lower_char c = (let n = (of_char c :: nat) in if 65 \<le> n \<and> n \<le> 90 then char_of (n + 32) else c)"

fun match_segs :: "seg_pat list \<Rightarrow> string list \<Rightarrow> string list option" where
  "match_segs [] [] = Some []"
| "match_segs (Lit l # ps) (s # ss) =
     (if map lower_char s = l then match_segs ps ss else None)"
| "match_segs (Param # ps) (s # ss) =
     (if s = [] then None else map_option (Cons s) (match_segs ps ss))"
| "match_segs _ _ = None"

definition path_segs :: "string \<Rightarrow> string list" where
  "path_segs p =
     (let ss = tl (split_on (CHR ''/'') p) in
      if ss \<noteq> [] \<and> last ss = [] \<and> length ss > 1 then butlast ss else ss)"

definition api_routes :: "(http_method \<times> seg_pat list \<times> (string list \<Rightarrow> route)) list" where
  "api_routes =
     [(GET, [Lit ''api'', Lit ''trending'', Param, Param], \<lambda>ps. R_Trending (ps ! 0) (ps ! 1)),
      (GET, [Lit ''api'', Lit ''movie'', Param], \<lambda>ps. R_Movie (ps ! 0)),
      (GET, [Lit ''api'', Lit ''search'', Lit ''movie''], \<lambda>_. R_Search),
      (GET, [Lit ''api'', Lit ''configuration''], \<lambda>_. R_Configuration),
      (POST, [Lit ''auth'', Lit ''signup''], \<lambda>_. R_Signup),
      (POST, [Lit ''auth'', Lit ''login''], \<lambda>_. R_Login),
      (GET, [Lit ''auth'', Lit ''me''], \<lambda>_. R_Me),
      (GET, [Lit ''api'', Lit ''watchlist''], \<lambda>_. R_Watchlist_Get),
      (POST, [Lit ''api'', Lit ''watchlist''], \<lambda>_. R_Watchlist_Post)]"

definition method_matches :: "http_method \<Rightarrow> http_method \<Rightarrow> bool" where
  "method_matches routed m = (m = routed \<or> (routed = GET \<and> m = HEAD))" \<comment> \<open>\<open>app.get\<close> serves HEAD\<close>

fun first_route :: "(http_method \<times> seg_pat list \<times> (string list \<Rightarrow> route)) list \<Rightarrow>
                     http_method \<Rightarrow> string list \<Rightarrow> route option" where
  "first_route [] m segs = None"
| "first_route ((rm, pat, mk) # rs) m segs =
     (case (method_matches rm m, match_segs pat segs) of
        (True, Some ps) \<Rightarrow> Some (mk ps)
      | _ \<Rightarrow> first_route rs m segs)"

definition route_of :: "config \<Rightarrow> http_method \<Rightarrow> string \<Rightarrow> route" where
  "route_of cfg m p =
     (case first_route api_routes m (path_segs p) of
        Some r \<Rightarrow> r
      | None \<Rightarrow>
          if m = GET \<or> m = HEAD then (if p \<in> set (client_files cfg) then R_Static p else R_Index)
          else R_Not_Found)"

section \<open>The sequential server\<close>

definition with_auth ::
  "config \<Rightarrow> env \<Rightarrow> request \<Rightarrow> users_file \<Rightarrow> (claims \<Rightarrow> response \<times> users_file) \<Rightarrow> response \<times> users_file" where
  "with_auth cfg e r f h =
     (case authMiddleware (jwt_secret cfg) (clock e) (req_auth r) of
        Inl resp \<Rightarrow> (resp, f)
      | Inr c \<Rightarrow> h c)"

definition serve :: "config \<Rightarrow> env \<Rightarrow> users_file \<Rightarrow> request \<Rightarrow> response \<times> users_file" where
  "serve cfg e f r =
     (case route_of cfg (req_method r) (req_path r) of
        R_Trending mt tw \<Rightarrow> (trending (tmdb_key cfg) (tmdb e) mt tw, f)
      | R_Movie mid \<Rightarrow> (movie_details (tmdb_key cfg) (tmdb e) mid, f)
      | R_Search \<Rightarrow> (search_movie (tmdb_key cfg) (tmdb e) (req_query r), f)
      | R_Configuration \<Rightarrow> (configuration (tmdb_key cfg) (tmdb e), f)
      | R_Signup \<Rightarrow> signup (jwt_secret cfg) (clock e) (bcrypt_salt e) f (req_body r)
      | R_Login \<Rightarrow> (login (jwt_secret cfg) (clock e) f (req_body r), f)
      | R_Me \<Rightarrow> with_auth cfg e r f (\<lambda>c. (me f c, f))
      | R_Watchlist_Get \<Rightarrow> with_auth cfg e r f (\<lambda>c. (get_watchlist f c, f))
      | R_Watchlist_Post \<Rightarrow> with_auth cfg e r f (\<lambda>c. post_watchlist f c (req_body r))
      | R_Static p \<Rightarrow> (Static_File p, f)
      | R_Index \<Rightarrow> (Index_Html, f)
      | R_Not_Found \<Rightarrow> (Not_Found, f))"

fun serve_all :: "config \<Rightarrow> users_file \<Rightarrow> (env \<times> request) list \<Rightarrow> response list \<times> users_file" where
  "serve_all cfg f [] = ([], f)"
| "serve_all cfg f ((e, r) # rs) =
     (let (resp, f') = serve cfg e f r; (resps, f'') = serve_all cfg f' rs in (resp # resps, f''))"

section \<open>The JSON body parser\<close>

text \<open>\<open>app.use(express.json())\<close> (line 30) runs before every route. A request
  whose body is not announced as JSON, or is empty, gets \<open>req.body = {}\<close>;
  otherwise strict mode demands that the first non-blank character be \<open>{\<close>
  or \<open>[\<close>, then \<open>JSON.parse\<close> runs; a refusal goes to Express's default error
  handler, which answers 400.\<close>

record http_request =
  hr_method :: http_method
  hr_path :: string
  hr_auth :: "string option"
  hr_query :: "(string \<times> json) list"
  hr_json :: bool \<comment> \<open>a body is sent with \<open>Content-Type: application/json\<close>\<close>
  hr_body :: string \<comment> \<open>the text of the body\<close>

definition first_char :: "string \<Rightarrow> char option" where \<comment> \<open>body-parser's \<open>firstchar\<close>\<close>
  "first_char s = (case skip_ws s of [] \<Rightarrow> None | c # _ \<Rightarrow> Some c)"

definition express_json :: "bool \<Rightarrow> string \<Rightarrow> response + json" where
  "express_json is_json txt =
     (if \<not> is_json \<or> txt = [] then Inr (JObj [])
      else if first_char txt \<notin> {Some (CHR ''{''), Some (CHR ''['')} then Inl Bad_Request
      else (case json_parse txt of None \<Rightarrow> Inl Bad_Request | Some v \<Rightarrow> Inr v))"

definition parsed_request :: "http_request \<Rightarrow> json \<Rightarrow> request" where
  "parsed_request hr body =
     \<lparr>req_method = hr_method hr, req_path = hr_path hr, req_auth = hr_auth hr,
      req_query = hr_query hr, req_body = body\<rparr>"

definition serve_http :: "config \<Rightarrow> env \<Rightarrow> users_file \<Rightarrow> http_request \<Rightarrow> response \<times> users_file" where
  "serve_http cfg e f hr =
     (case express_json (hr_json hr) (hr_body hr) of
        Inl resp \<Rightarrow> (resp, f)
      | Inr body \<Rightarrow> serve cfg e f (parsed_request hr body))"

text \<open>The shape of a reply: success, or one of the error statuses the handlers use with a body \<open>{error: msg}\<close> whose message is a non-empty string.\<close>

fun reply_type :: "response \<Rightarrow> bool" where
  "reply_type (Reply n j) \<longleftrightarrow>
     n = 200 \<or> (n \<in> {400, 401, 404, 500} \<and> (case get_prop j ''error'' of Some (JStr s) \<Rightarrow> s \<noteq> [] | _ \<Rightarrow> False))"
| "reply_type _ \<longleftrightarrow> True"

section \<open>The server with interleaved signups\<close>

record srv_state =
  st_file :: users_file
  st_pending :: "signup_pending list"

datatype srv_event = Arrive env request | Resume nat env

definition srv_start :: "users_file \<Rightarrow> srv_state" where
  "srv_start f = \<lparr>st_file = ensure_users_file f, st_pending = []\<rparr>"

definition srv_step :: "config \<Rightarrow> srv_state \<Rightarrow> srv_event \<Rightarrow> srv_state \<times> response option" where
  "srv_step cfg s ev =
     (case ev of
        Arrive e r \<Rightarrow>
          (if route_of cfg (req_method r) (req_path r) = R_Signup then
             (case signup_begin (st_file s) (req_body r) of
                Inl resp \<Rightarrow> (s, Some resp)
              | Inr p \<Rightarrow> (s\<lparr>st_pending := st_pending s @ [p]\<rparr>, None))
           else (let (resp, f') = serve cfg e (st_file s) r in (s\<lparr>st_file := f'\<rparr>, Some resp)))
      | Resume i e \<Rightarrow>
          (if i < length (st_pending s) then
             (let (resp, f') = signup_finish (jwt_secret cfg) (clock e) (bcrypt_salt e)
                                 (st_pending s ! i) (st_file s)
              in (\<lparr>st_file = f', st_pending = take i (st_pending s) @ drop (Suc i) (st_pending s)\<rparr>,
                  Some resp))
           else (s, None)))"

fun srv_run :: "config \<Rightarrow> srv_state \<Rightarrow> srv_event list \<Rightarrow> srv_state \<times> response option list" where
  "srv_run cfg s [] = (s, [])"
| "srv_run cfg s (ev # evs) =
     (let (s', out) = srv_step cfg s ev; (s'', outs) = srv_run cfg s' evs in (s'', out # outs))"

inductive srv_reach :: "config \<Rightarrow> users_file \<Rightarrow> srv_state \<Rightarrow> bool" for cfg init where
  start: "srv_reach cfg init (srv_start init)"
| step: "srv_reach cfg init s \<Longrightarrow> srv_reach cfg init (fst (srv_step cfg s ev))"

text \<open>The invariant of the interleaved server: the file is well formed and so is every waiting signup.\<close>

definition srv_ok :: "srv_state \<Rightarrow> bool" where
  "srv_ok s \<longleftrightarrow> wf_store (st_file s) \<and> list_all pending_ok (st_pending s)"

section \<open>Routing lemmas\<close>

lemma first_route_signup: "first_route api_routes POST (path_segs ''/auth/signup'') = Some R_Signup"
  by code_simp

lemma first_route_watchlist_get: "first_route api_routes GET (path_segs ''/api/watchlist'') = Some R_Watchlist_Get"
  by code_simp

lemma route_of_api: "first_route api_routes m (path_segs p) = Some r \<Longrightarrow> route_of cfg m p = r"
  by (simp add: route_of_def)

section \<open>Invariants\<close>

text \<open>The server keeps the invariant whenever the two handlers that write keep it.\<close>

lemma serve_wf_of:
  assumes "\<And>f c body. wf_store f \<Longrightarrow> wf_store (snd (post_watchlist f c body))"
    and "\<And>f secret now salt body. wf_store f \<Longrightarrow> wf_store (snd (signup secret now salt f body))"
    and "wf_store f"
  shows "wf_store (snd (serve cfg e f r))"
  using assms by (auto simp: serve_def with_auth_def split: route.splits sum.splits)

lemmas serve_wf = serve_wf_of [OF post_watchlist_wf signup_wf]

text \<open>C3: handling any sequence of requests one after the other keeps the users file well formed (truthy, pairwise non-\<open>===\<close> emails; in every watchlist, objects with truthy, pairwise non-\<open>===\<close> ids).\<close>

theorem serve_all_wf: "wf_store f \<Longrightarrow> wf_store (snd (serve_all cfg f rs))"
proof (induction rs arbitrary: f)
  case (Cons x rs)
  obtain e r where "x = (e, r)" by fastforce
  have "wf_store (snd (serve_all cfg (snd (serve cfg e f r)) rs))"
    using Cons.IH [OF serve_wf_of [OF post_watchlist_wf signup_wf Cons.prems]] .
  then show ?case by (simp add: \<open>x = (e, r)\<close> split_def Let_def)
qed simp

lemma srv_step_ok: "srv_ok s \<Longrightarrow> srv_ok (fst (srv_step cfg s ev))"
proof (cases ev)
  case (Arrive e r)
  assume ok: "srv_ok s"
  have "wf_store (snd (serve cfg e (st_file s) r))" using ok by (simp add: srv_ok_def serve_wf)
  with ok Arrive show ?thesis
    by (auto simp: srv_step_def srv_ok_def signup_begin_pending_ok Let_def
        split: sum.splits prod.splits)
next
  case (Resume i e)
  assume ok: "srv_ok s"
  show ?thesis
  proof (cases "i < length (st_pending s)")
    case True
    with ok have "pending_ok (st_pending s ! i)" by (simp add: srv_ok_def list_all_length)
    then have "wf_store (snd (signup_finish (jwt_secret cfg) (clock e) (bcrypt_salt e)
                                (st_pending s ! i) (st_file s)))"
      using ok by (simp add: srv_ok_def signup_finish_wf)
    moreover have "list_all pending_ok (take i (st_pending s) @ drop (Suc i) (st_pending s))"
      using ok by (auto simp: srv_ok_def list_all_iff dest: in_set_takeD in_set_dropD)
    ultimately show ?thesis using True Resume
      by (simp add: srv_step_def srv_ok_def Let_def split_def)
  qed (use ok Resume in \<open>simp add: srv_step_def\<close>)
qed

text \<open>C8: under every interleaving of requests with the \<open>await\<close> of pending signups, every reachable users file is well formed when the initial one is: a signup writes back the snapshot it read extended by a user whose email that snapshot does not hold.\<close>

theorem srv_reach_wf: "srv_reach cfg init s \<Longrightarrow> wf_store init \<Longrightarrow> wf_store (st_file s)"
proof -
  assume r: "srv_reach cfg init s" and wf: "wf_store init"
  from r have "srv_ok s"
  proof induction
    case start
    show ?case using wf by (simp add: srv_start_def srv_ok_def ensure_users_file_def writeUsers_def wf_store_def wf_users_def pairwise_distinct_by_def)
  next
    case (step s ev)
    show ?case by (rule srv_step_ok [OF step.IH])
  qed
  then show ?thesis by (simp add: srv_ok_def)
qed

section \<open>Signup races and authentication\<close>

text \<open>C13: two signups that both pass their checks before either resumes from \<open>await bcrypt.hash\<close> are both answered 200 with a token, but the second write replaces the first: the users file ends with the snapshot both read plus the second user only, and the first account is lost (also when both use the same email).\<close>

theorem signup_lost_update:
  fixes ea eb ec ed :: env
  assumes rd: "readUsers (st_file s) = Some users" and np: "st_pending s = []"
    and rta: "route_of cfg (req_method ra) (req_path ra) = R_Signup"
    and rtb: "route_of cfg (req_method rb) (req_path rb) = R_Signup"
    and ema: "truthy (get_prop (req_body ra) ''email'')"
    and pwa: "get_prop (req_body ra) ''password'' = Some (JStr pa)" "pa \<noteq> []"
    and nta: "\<not> email_taken users (get_prop (req_body ra) ''email'')"
    and emb: "truthy (get_prop (req_body rb) ''email'')"
    and pwb: "get_prop (req_body rb) ''password'' = Some (JStr pb)" "pb \<noteq> []"
    and ntb: "\<not> email_taken users (get_prop (req_body rb) ''email'')"
  defines "ua \<equiv> \<lparr>user_id = dec_str (clock ec), user_name = js_or (get_prop (req_body ra) ''name'') (JStr []),
                user_email = the (get_prop (req_body ra) ''email''),
                user_passwordHash = Bcrypt bcrypt_rounds (bcrypt_salt ec) (bcrypt_key pa), user_watchlist = []\<rparr>"
    and "ub \<equiv> \<lparr>user_id = dec_str (clock ed), user_name = js_or (get_prop (req_body rb) ''name'') (JStr []),
                user_email = the (get_prop (req_body rb) ''email''),
                user_passwordHash = Bcrypt bcrypt_rounds (bcrypt_salt ed) (bcrypt_key pb), user_watchlist = []\<rparr>"
  shows "srv_run cfg s [Arrive ea ra, Arrive eb rb, Resume 0 ec, Resume 0 ed] =
     (\<lparr>st_file = Stored (users @ [ub]), st_pending = []\<rparr>,
      [None, None, Some (auth_reply (jwt_secret cfg) (clock ec) ua),
       Some (auth_reply (jwt_secret cfg) (clock ed) ub)])"
proof -
  have ta: "truthy (get_prop (req_body ra) ''password'')" and tb: "truthy (get_prop (req_body rb) ''password'')"
    using pwa pwb by simp_all
  show ?thesis
    using signup_begin_ok [OF ema ta rd nta] signup_begin_ok [OF emb tb rd ntb] rta rtb np pwa pwb
    by (simp add: srv_step_def signup_finish_def bcrypt_hash_def new_user_def writeUsers_def
        ua_def ub_def Let_def)
qed

text \<open>C14: a request routed to \<open>/auth/me\<close> or \<open>/api/watchlist\<close> whose token \<open>authMiddleware\<close> refuses gets the middleware's 401 reply and leaves the users file unchanged.\<close>

theorem protected_route_unauthorized:
  assumes "route_of cfg (req_method r) (req_path r) \<in> {R_Me, R_Watchlist_Get, R_Watchlist_Post}"
    and "authMiddleware (jwt_secret cfg) (clock e) (req_auth r) = Inl resp"
  shows "serve cfg e f r = (resp, f)"
  using assms by (auto simp: serve_def with_auth_def)

section \<open>The body parser and the shape of replies\<close>

lemma first_char_print: "first_char (json_print v) = Some (hd (json_print v))"
  using skip_ws_print [of v "[]"] print_compound_start [of v]
  by (cases "json_print v") (simp_all add: first_char_def)

lemma express_json_compound:
  "is_compound v \<Longrightarrow> express_json True (json_print v) = Inr v"
  using print_compound_start [of v] skip_ws_print [of v "[]"]
  by (simp add: express_json_def first_char_print json_parse_print)

lemma express_json_Inl: "express_json b txt = Inl r \<Longrightarrow> r = Bad_Request"
  by (auto simp: express_json_def split: if_splits option.splits)

lemma serve_http_compound:
  "is_compound v \<Longrightarrow> serve_http cfg e f (hr\<lparr>hr_json := True, hr_body := json_print v\<rparr>) =
     serve cfg e f (parsed_request hr v)"
  by (simp add: serve_http_def express_json_compound parsed_request_def)

lemma serve_http_no_json:
  "\<not> hr_json hr \<Longrightarrow> serve_http cfg e f hr = serve cfg e f (parsed_request hr (JObj []))"
  by (simp add: serve_http_def express_json_def)

lemma proxy_reply_type: "reply_type (proxy_reply r)"
  by (simp add: proxy_reply_def split: sum.splits)

lemma auth_reply_type: "reply_type (auth_reply secret now u)"
  by (simp add: auth_reply_def)

lemma signup_begin_reply_type: "signup_begin f b = Inl r \<Longrightarrow> reply_type r"
  by (auto simp: signup_begin_def err_body_def Let_def split: if_splits option.splits)

lemma signup_finish_reply_type: "reply_type (fst (signup_finish secret now salt p f))"
  by (simp add: signup_finish_def auth_reply_type Let_def split: option.splits)

lemma signup_reply_type: "reply_type (fst (signup secret now salt f b))"
  by (auto simp: signup_def signup_finish_reply_type dest: signup_begin_reply_type split: sum.splits)

lemma login_reply_type: "reply_type (login secret now f b)"
  by (simp add: login_def auth_reply_type err_body_def Let_def split: option.splits)

lemma me_reply_type: "reply_type (me f c)"
  by (simp add: me_def err_body_def split: option.splits)

lemma get_watchlist_reply_type: "reply_type (get_watchlist f c)"
  by (simp add: get_watchlist_def err_body_def split: option.splits)

lemma post_watchlist_reply_type: "reply_type (fst (post_watchlist f c b))"
  by (simp add: post_watchlist_def err_body_def Let_def split: option.splits)

lemma with_auth_reply_type:
  "(\<And>c. reply_type (fst (h c))) \<Longrightarrow> reply_type (fst (with_auth cfg e r f h))"
  by (simp add: with_auth_def authMiddleware_def err_body_def split: sum.splits option.splits)

lemma serve_reply_type: "reply_type (fst (serve cfg e f r))"
  by (simp add: serve_def trending_def movie_details_def search_movie_def configuration_def
      proxy_reply_type signup_reply_type login_reply_type me_reply_type get_watchlist_reply_type
      post_watchlist_reply_type with_auth_reply_type split: route.splits)

lemma srv_step_reply_type: "case_option True reply_type (snd (srv_step cfg s ev))"
  by (auto simp: srv_step_def signup_begin_reply_type signup_finish_reply_type serve_reply_type
      split_def Let_def split: srv_event.splits sum.splits)

text \<open>C21: every answer the server gives has the reply type: status 200, or 400, 401, 404 or 500 with a body whose \<open>error\<close> is a non-empty string (Express's own 400, 404 and 500 pages apart). This holds for a request through the body parser and for every answer of the interleaved server under any order of events.\<close>

theorem replies_typed:
  "reply_type (fst (serve_http cfg e f hr)) \<and>
   list_all (case_option True reply_type) (snd (srv_run cfg s evs))"
proof
  show "reply_type (fst (serve_http cfg e f hr))"
    by (auto simp: serve_http_def serve_reply_type dest: express_json_Inl split: sum.splits)
  show "list_all (case_option True reply_type) (snd (srv_run cfg s evs))"
  proof (induction evs arbitrary: s)
    case (Cons ev evs)
    then show ?case using srv_step_reply_type [of cfg s ev] by (simp add: split_def Let_def)
  qed simp
qed

section \<open>Witnesses\<close>

abbreviation demo_cfg :: config where
  "demo_cfg \<equiv> \<lparr>tmdb_key = ''tmdb-key'', jwt_secret = ''s'', client_files = [''/app.js'']\<rparr>"

abbreviation demo_env :: "millis \<Rightarrow> env" where
  "demo_env t \<equiv> \<lparr>clock = t, bcrypt_salt = ''salt'', tmdb = (\<lambda>_. Inl ''offline'')\<rparr>"

abbreviation signup_req :: "string \<Rightarrow> request" where
  "signup_req em \<equiv> \<lparr>req_method = POST, req_path = ''/auth/signup'', req_auth = None, req_query = [],
                    req_body = JObj [(''email'', JStr em), (''password'', JStr ''pw'')]\<rparr>"

theorem signup_lost_update_witness:
  "srv_run demo_cfg (srv_start (Stored []))
     [Arrive (demo_env 1000) (signup_req ''a@x.com''), Arrive (demo_env 1001) (signup_req ''b@x.com''),
      Resume 0 (demo_env 1002), Resume 0 (demo_env 1003)] =
   (\<lparr>st_file = Stored [\<lparr>user_id = dec_str 1003, user_name = JStr [], user_email = JStr ''b@x.com'',
                       user_passwordHash = Bcrypt bcrypt_rounds ''salt'' ''pw'', user_watchlist = []\<rparr>],
     st_pending = []\<rparr>,
    [None, None,
     Some (auth_reply ''s'' 1002 \<lparr>user_id = dec_str 1002, user_name = JStr [], user_email = JStr ''a@x.com'',
                       user_passwordHash = Bcrypt bcrypt_rounds ''salt'' ''pw'', user_watchlist = []\<rparr>),
     Some (auth_reply ''s'' 1003 \<lparr>user_id = dec_str 1003, user_name = JStr [], user_email = JStr ''b@x.com'',
                       user_passwordHash = Bcrypt bcrypt_rounds ''salt'' ''pw'', user_watchlist = []\<rparr>)])"
  using signup_lost_update [where cfg = demo_cfg and s = "srv_start (Stored [])" and users = "[]"
      and ra = "signup_req ''a@x.com''" and rb = "signup_req ''b@x.com''" and pa = "''pw''" and pb = "''pw''"
      and ea = "demo_env 1000" and eb = "demo_env 1001" and ec = "demo_env 1002" and ed = "demo_env 1003"]
    route_of_api [OF first_route_signup]
  by (simp add: srv_start_def ensure_users_file_def readUsers_def email_taken_def bcrypt_key_def js_or_def)

theorem protected_route_unauthorized_witness:
  "serve demo_cfg (demo_env 1000) (Stored [])
     \<lparr>req_method = GET, req_path = ''/api/watchlist'', req_auth = None, req_query = [], req_body = JObj []\<rparr> =
   (Reply 401 (err_body ''Missing auth token''), Stored [])"
  using protected_route_unauthorized [where cfg = demo_cfg and e = "demo_env 1000" and f = "Stored []"
      and r = "\<lparr>req_method = GET, req_path = ''/api/watchlist'', req_auth = None, req_query = [], req_body = JObj []\<rparr>"]
    route_of_api [OF first_route_watchlist_get] authMiddleware_missing
  by simp

theorem srv_reach_wf_witness:
  "wf_store (st_file (fst (srv_step demo_cfg (srv_start Missing) (Arrive (demo_env 1000) (signup_req ''a@x.com'')))))"
  using srv_reach_wf [where cfg = demo_cfg and init = Missing]
    srv_reach.step [OF srv_reach.start, where cfg = demo_cfg and init = Missing]
  by (simp add: wf_store_def)

theorem serve_all_wf_witness:
  "wf_store (snd (serve_all demo_cfg (Stored []) [(demo_env 1000, signup_req ''a@x.com'')]))"
  using serve_all_wf [of "Stored []" demo_cfg "[(demo_env 1000, signup_req ''a@x.com'')]"]
  by (simp add: wf_store_def wf_users_def pairwise_distinct_by_def)

end
