(* ===== verification/Client.thy ===== *)
theory Client
  imports Server
begin

text \<open>
  The single-page client \<open>src/client/app.js\<close>, run against the server model of
  \<^theory_text>\<open>Server\<close>.

  \<^bold>\<open>State.\<close> The record \<open>client\<close> holds what the page keeps between events:
  the token in \<open>localStorage\<close>, \<open>location.hash\<close> with the \<open>hashchange\<close> events
  the browser has queued, the display of \<open>#banner\<close> and \<open>#rows\<close> and their
  contents, the contents of \<open>#route-root\<close> (\<open>view\<close>), the detail overlay,
  the \<open>alert\<close>s shown, the variable \<open>tmdbConfig\<close>, and the asynchronous
  functions suspended at an \<open>await\<close> (\<open>cl_tasks\<close>).

  \<^bold>\<open>Network.\<close> \<open>apiFetch\<close> sends a request to the server function
  \<^const>\<open>serve_http\<close> (same origin, \<open>API_BASE = ''\<close>), with the
  \<open>Authorization\<close> header when a token is stored, and removes the token on
  a 401. The GET requests carry no body; the POST requests send
  \<open>JSON.stringify\<close> of an object with \<open>Content-Type: application/json\<close>,
  which the server's body parser turns back into the same object. A request the server never answers leaves the caller suspended for
  ever; a body that is not JSON (Express's HTML error pages, \<open>index.html\<close>)
  makes \<open>res.json()\<close> reject.

  \<^bold>\<open>Strings.\<close> Strings are UTF-8 byte strings, as in theory
  \<open>JsonText\<close>; \<open>String.prototype.trim\<close> (\<open>js_trim\<close>) removes from both ends
  the encodings of the code points ECMAScript counts as WhiteSpace or
  LineTerminator.

  \<^bold>\<open>Exceptions.\<close> A rendering function that would throw a \<open>TypeError\<close>
  returns \<^const>\<open>None\<close> and changes nothing the model holds (the only
  write before a throw is \<open>renderBanner\<close>'s background image, which the
  model does not hold); the \<open>catch\<close> of its caller decides what follows. An
  exception no code catches ends the handler.

  \<^bold>\<open>Events.\<close> \<open>cl_step\<close> is one turn of the browser's event loop: a
  navigation, a queued \<open>hashchange\<close> (\<open>router\<close>), a click handler, or the
  resumption of a suspended task. \<open>fetchAndRenderHome\<close> is suspended twice
  (after \<open>fetchConfig\<close>, then after the three row requests) and
  \<open>renderAccount\<close> once; the click handlers of login, signup, search,
  the overlay and the watchlist button run to completion in one step.
\<close>

section \<open>JavaScript values on the page\<close>

definition js_ws_seqs :: "string list" where
  \<comment> \<open>the UTF-8 encodings of the code points \<open>trim\<close> removes: WhiteSpace and LineTerminator\<close>
  "js_ws_seqs =
     [[CHR 0x09], [CHR 0x0A], [CHR 0x0B], [CHR 0x0C], [CHR 0x0D], [CHR 0x20],
      [CHR 0xC2, CHR 0xA0], [CHR 0xE1, CHR 0x9A, CHR 0x80],
      [CHR 0xE2, CHR 0x80, CHR 0x80], [CHR 0xE2, CHR 0x80, CHR 0x81], [CHR 0xE2, CHR 0x80, CHR 0x82],
      [CHR 0xE2, CHR 0x80, CHR 0x83], [CHR 0xE2, CHR 0x80, CHR 0x84], [CHR 0xE2, CHR 0x80, CHR 0x85],
      [CHR 0xE2, CHR 0x80, CHR 0x86], [CHR 0xE2, CHR 0x80, CHR 0x87], [CHR 0xE2, CHR 0x80, CHR 0x88],
      [CHR 0xE2, CHR 0x80, CHR 0x89], [CHR 0xE2, CHR 0x80, CHR 0x8A],
      [CHR 0xE2, CHR 0x80, CHR 0xA8], [CHR 0xE2, CHR 0x80, CHR 0xA9], [CHR 0xE2, CHR 0x80, CHR 0xAF],
      [CHR 0xE2, CHR 0x81, CHR 0x9F], [CHR 0xE3, CHR 0x80, CHR 0x80], [CHR 0xEF, CHR 0xBB, CHR 0xBF]]"

fun drop_ws :: "string list \<Rightarrow> nat \<Rightarrow> string \<Rightarrow> string" where
  "drop_ws ws 0 s = s"
| "drop_ws ws (Suc n) s =
     (case List.find (\<lambda>w. w \<noteq> [] \<and> take (length w) s = w) ws of
        Some w \<Rightarrow> drop_ws ws n (drop (length w) s)
      | None \<Rightarrow> s)"

definition js_trim :: "string \<Rightarrow> string" where \<comment> \<open>\<open>String.prototype.trim\<close>\<close>
  "js_trim s =
     rev (drop_ws (map rev js_ws_seqs) (length s) (rev (drop_ws js_ws_seqs (length s) s)))"

fun js_str :: "json \<Rightarrow> string" where \<comment> \<open>\<open>String(v)\<close>\<close>
  "js_str JNull = ''null''"
| "js_str (JBool b) = (if b then ''true'' else ''false'')"
| "js_str (JNum n) = int_str n"
| "js_str (JStr s) = s"
| "js_str (JArr vs) = join_on CHR '','' (map (\<lambda>v. if v = JNull then [] else js_str v) vs)"
| "js_str (JObj kvs) = ''[object Object]''"

definition js_str_opt :: "json option \<Rightarrow> string" where
  "js_str_opt v = (case v of None \<Rightarrow> ''undefined'' | Some x \<Rightarrow> js_str x)"

definition js_or_opt :: "json option \<Rightarrow> json option \<Rightarrow> json option" where
  "js_or_opt a b = (if truthy a then a else b)" \<comment> \<open>\<open>a || b\<close> on possibly undefined values\<close>

definition defined_fields :: "(string \<times> json option) list \<Rightarrow> json" where
  \<comment> \<open>an object literal after \<open>JSON.stringify\<close>: undefined members are dropped\<close>
  "defined_fields kvs = JObj (map (\<lambda>(k, v). (k, the v)) (filter (\<lambda>(k, v). v \<noteq> None) kvs))"

fun index0 :: "json \<Rightarrow> json option" where \<comment> \<open>\<open>v[0]\<close>\<close>
  "index0 (JArr (x # xs)) = Some x"
| "index0 (JStr (ch # cs)) = Some (JStr [ch])"
| "index0 (JObj kvs) = get_prop (JObj kvs) ''0''"
| "index0 _ = None"

fun replace_first :: "char \<Rightarrow> string \<Rightarrow> string" where \<comment> \<open>\<open>s.replace(c, '')\<close>\<close>
  "replace_first c [] = []"
| "replace_first c (x # xs) = (if x = c then xs else x # replace_first c xs)"

section \<open>Responses as the client reads them\<close>

definition status_of :: "response \<Rightarrow> nat option" where \<comment> \<open>\<open>res.status\<close>; None: never answered\<close>
  "status_of r =
     (case r of
        Reply n j \<Rightarrow> Some n
      | Server_Error \<Rightarrow> Some 500
      | No_Reply \<Rightarrow> None
      | Index_Html \<Rightarrow> Some 200
      | Static_File p \<Rightarrow> Some 200
      | Not_Found \<Rightarrow> Some 404
      | Bad_Request \<Rightarrow> Some 400)"

definition res_ok :: "response \<Rightarrow> bool" where
  "res_ok r \<longleftrightarrow> (case status_of r of Some n \<Rightarrow> 200 \<le> n \<and> n < 300 | None \<Rightarrow> False)"

definition res_json :: "response \<Rightarrow> json option" where \<comment> \<open>\<open>await res.json()\<close>; None: rejects\<close>
  "res_json r = (case r of Reply n j \<Rightarrow> Some j | _ \<Rightarrow> None)"

section \<open>Client state\<close>

datatype view =
    V_Empty
  | V_Login string \<comment> \<open>the login form with the text of \<open>#authMsg\<close>\<close>
  | V_Signup string
  | V_Please_Login
  | V_Account json "json list" \<comment> \<open>the \<open>/auth/me\<close> data and the watchlist grid\<close>

datatype banner = B_Initial | B_Loading | B_Failed | B_Movie json

datatype row = Row string "json list" | Row_Note string

datatype modal = M_Hidden | M_Loading | M_Failed | M_Movie json

datatype task = T_Home_Config | T_Home_Rows | T_Account

record client =
  cl_token :: "string option"
  cl_hash :: string
  cl_hashchanges :: nat
  cl_banner_shown :: bool
  cl_rows_shown :: bool
  cl_banner :: banner
  cl_rows :: "row list"
  cl_view :: view
  cl_modal :: modal
  cl_alerts :: "string list"
  cl_tmdb_config :: json
  cl_tasks :: "task list"

definition initial_tmdb_config :: json where
  "initial_tmdb_config =
     JObj [(''images'', JObj [(''secure_base_url'', JStr ''https://image.tmdb.org/t/p/''),
                              (''poster_sizes'', JArr [JStr ''w342'', JStr ''w500'', JStr ''original''])])]"

section \<open>Token storage and \<open>apiFetch\<close>\<close>

definition has_token :: "client \<Rightarrow> bool" where \<comment> \<open>\<open>if (token)\<close> on \<open>getToken()\<close>\<close>
  "has_token c \<longleftrightarrow> (case cl_token c of Some t \<Rightarrow> t \<noteq> [] | None \<Rightarrow> False)"

definition auth_header :: "string option \<Rightarrow> string option" where
  "auth_header tok = (case tok of Some t \<Rightarrow> if t = [] then None else Some (''Bearer '' @ t) | None \<Rightarrow> None)"

definition fetch_request ::
  "client \<Rightarrow> http_method \<Rightarrow> string \<Rightarrow> (string \<times> json) list \<Rightarrow> json option \<Rightarrow> http_request" where
  \<comment> \<open>\<open>fetch(API_BASE + path, {...opts, headers})\<close>; \<open>body\<close>: the value given to \<open>JSON.stringify\<close>\<close>
  "fetch_request c m path q body =
     \<lparr>hr_method = m, hr_path = path, hr_auth = auth_header (cl_token c), hr_query = q,
      hr_json = (body \<noteq> None), hr_body = (case body of None \<Rightarrow> [] | Some b \<Rightarrow> json_print b)\<rparr>"

definition apiFetch ::
  "config \<Rightarrow> env \<Rightarrow> users_file \<Rightarrow> client \<Rightarrow> http_method \<Rightarrow> string \<Rightarrow> (string \<times> json) list \<Rightarrow> json option \<Rightarrow>
   response \<times> users_file \<times> client" where
  "apiFetch cfg e f c m path q body =
     (let (resp, f') = serve_http cfg e f (fetch_request c m path q body)
      in (resp, f', if status_of resp = Some 401 then c\<lparr>cl_token := None\<rparr> else c))"

definition set_hash :: "string \<Rightarrow> client \<Rightarrow> client" where \<comment> \<open>\<open>location.hash = h\<close>\<close>
  "set_hash h c =
     (if h = cl_hash c then c else c\<lparr>cl_hash := h, cl_hashchanges := Suc (cl_hashchanges c)\<rparr>)"

definition spawn :: "task \<Rightarrow> client \<Rightarrow> client" where
  "spawn t c = c\<lparr>cl_tasks := cl_tasks c @ [t]\<rparr>"

definition alert :: "string \<Rightarrow> client \<Rightarrow> client" where
  "alert msg c = c\<lparr>cl_alerts := cl_alerts c @ [msg]\<rparr>"

section \<open>Router\<close>

definition router :: "client \<Rightarrow> client" where
  "router c =
     (let h = replace_first CHR ''#'' (cl_hash c);
          main = (h = [] \<or> h = ''movies'');
          c1 = c\<lparr>cl_view := V_Empty, cl_banner_shown := main, cl_rows_shown := main\<rparr>
      in if h = ''login'' then c1\<lparr>cl_view := V_Login []\<rparr>
         else if h = ''signup'' then c1\<lparr>cl_view := V_Signup []\<rparr>
         else if h = ''account'' then spawn T_Account c1
         else spawn T_Home_Config c1)"

section \<open>Rendering the home page\<close>

definition cfg_images_ok :: "json \<Rightarrow> bool" where \<comment> \<open>\<open>tmdbConfig.images.secure_base_url\<close> does not throw\<close>
  "cfg_images_ok cfg \<longleftrightarrow> (case get_prop cfg ''images'' of Some v \<Rightarrow> v \<noteq> JNull | None \<Rightarrow> False)"

definition poster_ok :: "json \<Rightarrow> json \<Rightarrow> bool" where \<comment> \<open>one poster of \<open>renderRow\<close> renders\<close>
  "poster_ok cfg m \<longleftrightarrow>
     m \<noteq> JNull \<and>
     (if truthy (js_or_opt (get_prop m ''poster_path'') (get_prop m ''backdrop_path'')) then cfg_images_ok cfg else True)"

definition renderRow :: "string \<Rightarrow> json option \<Rightarrow> client \<Rightarrow> client option" where
  \<comment> \<open>the argument is \<open>xs.results || []\<close>, None when evaluating it threw\<close>
  "renderRow title ms c =
     (case ms of
        Some (JArr xs) \<Rightarrow>
          if list_all (poster_ok (cl_tmdb_config c)) xs then Some (c\<lparr>cl_rows := cl_rows c @ [Row title xs]\<rparr>)
          else None
      | _ \<Rightarrow> None)"

definition slice_ok :: "json option \<Rightarrow> bool" where \<comment> \<open>\<open>(v||'').slice(0,220)\<close> does not throw\<close>
  "slice_ok v \<longleftrightarrow> \<not> truthy v \<or> (case the v of JStr _ \<Rightarrow> True | JArr _ \<Rightarrow> True | _ \<Rightarrow> False)"

definition renderBanner :: "json option \<Rightarrow> client \<Rightarrow> client option" where
  "renderBanner mv c =
     (if \<not> truthy mv then Some (c\<lparr>cl_banner_shown := False\<rparr>)
      else if truthy (get_opt mv ''backdrop_path'') \<and> \<not> cfg_images_ok (cl_tmdb_config c) then None
      else if \<not> slice_ok (get_opt mv ''overview'') then None
      else Some (c\<lparr>cl_banner := B_Movie (the mv)\<rparr>))"

definition results_of :: "json \<Rightarrow> json option" where \<comment> \<open>\<open>j.results || []\<close>; None: \<open>j\<close> is null\<close>
  "results_of j = (if j = JNull then None else Some (js_or (get_prop j ''results'') (JArr [])))"

definition hero_of :: "json \<Rightarrow> json option option" where
  \<comment> \<open>\<open>trending.results && trending.results[0]\<close>; None: \<open>trending\<close> is null\<close>
  "hero_of t =
     (if t = JNull then None
      else (let rs = get_prop t ''results'' in Some (if truthy rs then index0 (the rs) else rs)))"

definition home_failed :: "client \<Rightarrow> client" where
  "home_failed c = c\<lparr>cl_banner := B_Failed\<rparr>"

definition home_render :: "json \<Rightarrow> json \<Rightarrow> json \<Rightarrow> client \<Rightarrow> client" where
  "home_render tj pj topj c =
     (case hero_of tj of
        None \<Rightarrow> home_failed c
      | Some hero \<Rightarrow>
          (case renderBanner hero c of
             None \<Rightarrow> home_failed c
           | Some c1 \<Rightarrow>
               (case renderRow ''Trending Now'' (results_of tj) c1 of
                  None \<Rightarrow> home_failed c1
                | Some c2 \<Rightarrow>
                    (case renderRow ''Popular Movies'' (results_of pj) c2 of
                       None \<Rightarrow> home_failed c2
                     | Some c3 \<Rightarrow>
                         (case renderRow ''Top TV'' (results_of topj) c3 of
                            None \<Rightarrow> home_failed c3
                          | Some c4 \<Rightarrow> c4)))))"

text \<open>What one run of \<open>home_render\<close> appends to \<open>#rows\<close>, given \<open>tmdbConfig\<close>: the rows rendered before the first one that throws.\<close>

definition row_add :: "json \<Rightarrow> string \<Rightarrow> json option \<Rightarrow> row list option" where
  "row_add cfg title ms =
     (case ms of Some (JArr xs) \<Rightarrow> if list_all (poster_ok cfg) xs then Some [Row title xs] else None
               | _ \<Rightarrow> None)"

definition banner_fails :: "json \<Rightarrow> json option \<Rightarrow> bool" where
  "banner_fails cfg mv \<longleftrightarrow>
     truthy mv \<and> ((truthy (get_opt mv ''backdrop_path'') \<and> \<not> cfg_images_ok cfg) \<or> \<not> slice_ok (get_opt mv ''overview''))"

definition home_gain :: "json \<Rightarrow> json \<Rightarrow> json \<Rightarrow> json \<Rightarrow> row list" where
  "home_gain cfg tj pj topj =
     (case hero_of tj of None \<Rightarrow> [] | Some h \<Rightarrow>
      if banner_fails cfg h then [] else
      (case row_add cfg ''Trending Now'' (results_of tj) of None \<Rightarrow> [] | Some r1 \<Rightarrow> r1 @
       (case row_add cfg ''Popular Movies'' (results_of pj) of None \<Rightarrow> [] | Some r2 \<Rightarrow> r2 @
        (case row_add cfg ''Top TV'' (results_of topj) of None \<Rightarrow> [] | Some r3 \<Rightarrow> r3))))"

definition get_api :: "config \<Rightarrow> env \<Rightarrow> users_file \<Rightarrow> client \<Rightarrow> string \<Rightarrow> response \<times> users_file \<times> client" where
  "get_api cfg e f c path = apiFetch cfg e f c GET path [] None"

text \<open>\<open>fetchConfig\<close> and \<open>fetchAndRenderHome\<close> up to its second \<open>await\<close>.\<close>

definition home_config :: "config \<Rightarrow> env \<Rightarrow> users_file \<Rightarrow> client \<Rightarrow> users_file \<times> client" where
  "home_config cfg e f c =
     (let (r, f', c1) = get_api cfg e f c ''/api/configuration''
      in if r = No_Reply then (f', c1)
         else (let c2 = (if res_ok r then (case res_json r of Some d \<Rightarrow> c1\<lparr>cl_tmdb_config := d\<rparr> | None \<Rightarrow> c1)
                         else c1)
               in (f', spawn T_Home_Rows (c2\<lparr>cl_banner := B_Loading, cl_rows := []\<rparr>))))"

definition home_rows :: "config \<Rightarrow> env \<Rightarrow> users_file \<Rightarrow> client \<Rightarrow> users_file \<times> client" where
  "home_rows cfg e f c =
     (let (r1, f1, c1) = get_api cfg e f c ''/api/trending/all/day'' in
      if r1 = No_Reply then (f1, c1) else
      (case res_json r1 of None \<Rightarrow> (f1, home_failed c1) | Some tj \<Rightarrow>
       (let (r2, f2, c2) = get_api cfg e f1 c1 ''/api/trending/movie/week'' in
        if r2 = No_Reply then (f2, c2) else
        (case res_json r2 of None \<Rightarrow> (f2, home_failed c2) | Some pj \<Rightarrow>
         (let (r3, f3, c3) = get_api cfg e f2 c2 ''/api/trending/tv/week'' in
          if r3 = No_Reply then (f3, c3) else
          (case res_json r3 of None \<Rightarrow> (f3, home_failed c3) | Some topj \<Rightarrow>
           (f3, home_render tj pj topj c3)))))))"

section \<open>Account page\<close>

definition renderAccount :: "config \<Rightarrow> env \<Rightarrow> users_file \<Rightarrow> client \<Rightarrow> users_file \<times> client" where
  "renderAccount cfg e f c =
     (let (r, f1, c1) = get_api cfg e f c ''/auth/me'' in
      if r = No_Reply then (f1, c1) else
      (case res_json r of None \<Rightarrow> (f1, c1) | Some data \<Rightarrow>
       if \<not> res_ok r then (f1, c1\<lparr>cl_view := V_Please_Login\<rparr>)
       else
         (let c2 = c1\<lparr>cl_view := V_Account data []\<rparr>;
              (w, f2, c3) = get_api cfg e f1 c2 ''/api/watchlist''
          in if w = No_Reply \<or> \<not> res_ok w then (f2, c3) else
             (case res_json w of
                Some j \<Rightarrow>
                  (case js_or (get_prop j ''watchlist'') (JArr []) of
                     JArr ms \<Rightarrow> (f2, c3\<lparr>cl_view := V_Account data (takeWhile (\<lambda>m. m \<noteq> JNull) ms)\<rparr>)
                   | _ \<Rightarrow> (f2, c3))
              | None \<Rightarrow> (f2, c3)))))"

definition run_task :: "config \<Rightarrow> env \<Rightarrow> users_file \<Rightarrow> client \<Rightarrow> task \<Rightarrow> users_file \<times> client" where
  "run_task cfg e f c t =
     (case t of
        T_Home_Config \<Rightarrow> home_config cfg e f c
      | T_Home_Rows \<Rightarrow> home_rows cfg e f c
      | T_Account \<Rightarrow> renderAccount cfg e f c)"

section \<open>Click handlers\<close>

definition set_auth_msg :: "string \<Rightarrow> client \<Rightarrow> client" where \<comment> \<open>\<open>$('#authMsg').innerText = msg\<close>\<close>
  "set_auth_msg msg c =
     (case cl_view c of
        V_Login _ \<Rightarrow> c\<lparr>cl_view := V_Login msg\<rparr>
      | V_Signup _ \<Rightarrow> c\<lparr>cl_view := V_Signup msg\<rparr>
      | _ \<Rightarrow> c)"

text \<open>The end of the login and signup handlers: an error message, or the token
  saved, the hash set to \<open>#movies\<close> and \<open>fetchAndRenderHome\<close> started.\<close>

definition auth_result :: "string \<Rightarrow> response \<Rightarrow> users_file \<Rightarrow> client \<Rightarrow> users_file \<times> client" where
  "auth_result failed r f c =
     (if r = No_Reply then (f, c) else
      (case res_json r of
         None \<Rightarrow> (f, c)
       | Some data \<Rightarrow>
           if data = JNull then (f, c) \<comment> \<open>\<open>data.error\<close> or \<open>data.token\<close> throws\<close>
           else if \<not> res_ok r then (f, set_auth_msg (js_str (js_or (get_prop data ''error'') (JStr failed))) c)
           else (f, spawn T_Home_Config (set_hash ''#movies''
                      (c\<lparr>cl_token := Some (js_str_opt (get_prop data ''token''))\<rparr>)))))"

definition submitLogin :: "config \<Rightarrow> env \<Rightarrow> users_file \<Rightarrow> client \<Rightarrow> string \<Rightarrow> string \<Rightarrow> users_file \<times> client" where
  "submitLogin cfg e f c email password =
     (let (r, f', c') = apiFetch cfg e f c POST ''/auth/login'' []
                          (Some (JObj [(''email'', JStr (js_trim email)), (''password'', JStr password)]))
      in auth_result ''Login failed'' r f' c')"

definition submitSignup ::
  "config \<Rightarrow> env \<Rightarrow> users_file \<Rightarrow> client \<Rightarrow> string \<Rightarrow> string \<Rightarrow> string \<Rightarrow> users_file \<times> client" where
  "submitSignup cfg e f c name email password =
     (let (r, f', c') = apiFetch cfg e f c POST ''/auth/signup'' []
                          (Some (JObj [(''name'', JStr (js_trim name)), (''email'', JStr (js_trim email)),
                                       (''password'', JStr password)]))
      in auth_result ''Signup failed'' r f' c')"

definition logout :: "client \<Rightarrow> client" where
  "logout c = spawn T_Home_Config (set_hash ''#movies'' (c\<lparr>cl_token := None\<rparr>))"

definition watchlist_count :: "json option \<Rightarrow> string option" where
  \<comment> \<open>\<open>String(j.watchlist.length)\<close>; None: \<open>j.watchlist\<close> is undefined or null\<close>
  "watchlist_count w =
     (case w of
        Some (JArr xs) \<Rightarrow> Some (dec_str (length xs))
      | Some (JStr cs) \<Rightarrow> Some (dec_str (length cs))
      | Some JNull \<Rightarrow> None
      | None \<Rightarrow> None
      | Some _ \<Rightarrow> Some ''undefined'')"

definition toggle_item :: "json \<Rightarrow> json" where
  "toggle_item movie =
     defined_fields [(''id'', get_prop movie ''id''),
                     (''title'', js_or_opt (get_prop movie ''title'') (get_prop movie ''name'')),
                     (''poster_path'', get_prop movie ''poster_path'')]"

definition toggle_body :: "json \<Rightarrow> json" where
  "toggle_body movie = JObj [(''movie'', toggle_item movie)]"

definition toggleWatchlist :: "config \<Rightarrow> env \<Rightarrow> users_file \<Rightarrow> client \<Rightarrow> json \<Rightarrow> users_file \<times> client" where
  "toggleWatchlist cfg e f c movie =
     (if \<not> has_token c then (f, set_hash ''#login'' (alert ''Please login to save to your watchlist'' c))
      else
        (let (r, f', c1) = apiFetch cfg e f c POST ''/api/watchlist'' [] (Some (toggle_body movie))
         in if r = No_Reply then (f', c1) else
            (case res_json r of
               None \<Rightarrow> (f', c1)
             | Some j \<Rightarrow>
                 if res_ok r then
                   (case watchlist_count (get_prop j ''watchlist'') of
                      Some n \<Rightarrow> (f', alert (''Watchlist updated ('' @ n @ '' items)'') c1)
                    | None \<Rightarrow> (f', c1))
                 else if j = JNull then (f', c1)
                 else (f', alert (''Failed: '' @ js_str (js_or (get_prop j ''error'') (JStr []))) c1))))"

definition searchMovies :: "config \<Rightarrow> env \<Rightarrow> users_file \<Rightarrow> client \<Rightarrow> string \<Rightarrow> users_file \<times> client" where
  "searchMovies cfg e f c q =
     (let c0 = c\<lparr>cl_banner_shown := False, cl_rows := [Row_Note ''Searching...'']\<rparr>;
          (r, f', c1) = apiFetch cfg e f c0 GET ''/api/search/movie'' [(''query'', JStr q)] None
      in if r = No_Reply then (f', c1) else
         (case res_json r of
            None \<Rightarrow> (f', c1\<lparr>cl_rows := [Row_Note ''Search failed.'']\<rparr>)
          | Some j \<Rightarrow>
              (let c2 = c1\<lparr>cl_rows := []\<rparr> in
               case renderRow (''Search results for '' @ chr_quote # q @ [chr_quote]) (results_of j) c2 of
                 None \<Rightarrow> (f', c2\<lparr>cl_rows := [Row_Note ''Search failed.'']\<rparr>)
               | Some c3 \<Rightarrow> (f', c3))))"

definition search_click :: "config \<Rightarrow> env \<Rightarrow> users_file \<Rightarrow> client \<Rightarrow> string \<Rightarrow> users_file \<times> client" where
  "search_click cfg e f c input =
     (let q = js_trim input in if q = [] then (f, c) else searchMovies cfg e f c q)"

definition trailer_ok :: "json \<Rightarrow> bool" where
  \<comment> \<open>\<open>m.videos && m.videos.results && m.videos.results.find(v => v.type === 'Trailer')\<close> does not throw\<close>
  "trailer_ok m =
     (let v = get_prop m ''videos'' in
      if \<not> truthy v then True
      else (let rs = get_opt v ''results'' in
            if \<not> truthy rs then True
            else (case the rs of
                    JArr vs \<Rightarrow>
                      list_all (\<lambda>x. x \<noteq> JNull)
                        (takeWhile (\<lambda>x. \<not> strict_eq (get_prop x ''type'') (Some (JStr ''Trailer''))) vs)
                  | _ \<Rightarrow> False)))"

definition modal_ok :: "json \<Rightarrow> json \<Rightarrow> bool" where \<comment> \<open>the overlay's template renders\<close>
  "modal_ok cfg m \<longleftrightarrow>
     m \<noteq> JNull \<and> (if truthy (get_prop m ''poster_path'') then cfg_images_ok cfg else True) \<and> trailer_ok m"

definition openModal :: "config \<Rightarrow> env \<Rightarrow> users_file \<Rightarrow> client \<Rightarrow> json option \<Rightarrow> users_file \<times> client" where
  "openModal cfg e f c movieId =
     (let (r, f', c1) = get_api cfg e f (c\<lparr>cl_modal := M_Loading\<rparr>) (''/api/movie/'' @ js_str_opt movieId)
      in if r = No_Reply then (f', c1)
         else if \<not> res_ok r then (f', c1\<lparr>cl_modal := M_Failed\<rparr>)
         else (case res_json r of
                 Some m \<Rightarrow> if modal_ok (cl_tmdb_config c1) m then (f', c1\<lparr>cl_modal := M_Movie m\<rparr>) else (f', c1)
               | None \<Rightarrow> (f', c1)))"

section \<open>The event loop\<close>

datatype cl_event =
    Navigate string \<comment> \<open>a link, the account button or the address bar sets \<open>location.hash\<close>\<close>
  | Hash_Change \<comment> \<open>the browser dispatches a queued \<open>hashchange\<close>\<close>
  | Resume_Task nat \<comment> \<open>the \<open>i\<close>-th suspended function continues\<close>
  | Click_Login string string
  | Click_Signup string string string
  | Click_Logout
  | Click_Toggle json \<comment> \<open>\<open>#bannerList\<close> or \<open>#modalWatchlist\<close>\<close>
  | Click_Search string
  | Click_Open json \<comment> \<open>a poster, \<open>#bannerPlay\<close>: \<open>openModal(m.id)\<close>\<close>
  | Close_Modal

definition on_screen :: "client \<Rightarrow> json \<Rightarrow> bool" where \<comment> \<open>the movie of the banner or of the overlay\<close>
  "on_screen c m \<longleftrightarrow> cl_banner c = B_Movie m \<or> cl_modal c = M_Movie m"

definition cl_step :: "config \<Rightarrow> env \<Rightarrow> users_file \<times> client \<Rightarrow> cl_event \<Rightarrow> users_file \<times> client" where
  "cl_step cfg e w ev =
     (let (f, c) = w in
      case ev of
        Navigate h \<Rightarrow> (f, set_hash h c)
      | Hash_Change \<Rightarrow>
          (if cl_hashchanges c = 0 then (f, c) else (f, router (c\<lparr>cl_hashchanges := cl_hashchanges c - 1\<rparr>)))
      | Resume_Task i \<Rightarrow>
          (if i < length (cl_tasks c)
           then run_task cfg e f (c\<lparr>cl_tasks := take i (cl_tasks c) @ drop (Suc i) (cl_tasks c)\<rparr>) (cl_tasks c ! i)
           else (f, c))
      | Click_Login em pw \<Rightarrow>
          (case cl_view c of V_Login _ \<Rightarrow> submitLogin cfg e f c em pw | _ \<Rightarrow> (f, c))
      | Click_Signup nm em pw \<Rightarrow>
          (case cl_view c of V_Signup _ \<Rightarrow> submitSignup cfg e f c nm em pw | _ \<Rightarrow> (f, c))
      | Click_Logout \<Rightarrow>
          (case cl_view c of V_Account _ _ \<Rightarrow> (f, logout c) | _ \<Rightarrow> (f, c))
      | Click_Toggle m \<Rightarrow> (if on_screen c m then toggleWatchlist cfg e f c m else (f, c))
      | Click_Search q \<Rightarrow> search_click cfg e f c q
      | Click_Open m \<Rightarrow> openModal cfg e f c (get_prop m ''id'')
      | Close_Modal \<Rightarrow> (f, c\<lparr>cl_modal := M_Hidden\<rparr>))"

definition cl_init :: "string \<Rightarrow> string option \<Rightarrow> client" where
  \<comment> \<open>the page loads with a hash and a stored token and runs \<open>init()\<close>\<close>
  "cl_init h tok =
     router (set_hash (if h = [] then ''#movies'' else h)
       \<lparr>cl_token = tok, cl_hash = h, cl_hashchanges = 0, cl_banner_shown = True, cl_rows_shown = True,
        cl_banner = B_Initial, cl_rows = [], cl_view = V_Empty, cl_modal = M_Hidden, cl_alerts = [],
        cl_tmdb_config = initial_tmdb_config, cl_tasks = []\<rparr>)"

fun cl_run :: "config \<Rightarrow> (users_file \<times> client) \<Rightarrow> (env \<times> cl_event) list \<Rightarrow> users_file \<times> client" where
  "cl_run cfg w [] = w"
| "cl_run cfg w ((e, ev) # evs) = cl_run cfg (cl_step cfg e w ev) evs"

inductive cl_reach :: "config \<Rightarrow> users_file \<times> client \<Rightarrow> users_file \<times> client \<Rightarrow> bool" for cfg w0 where
  init: "cl_reach cfg w0 w0"
| step: "cl_reach cfg w0 w \<Longrightarrow> cl_reach cfg w0 (cl_step cfg e w ev)"

section \<open>Invariants\<close>

definition signed_by :: "string \<Rightarrow> string option \<Rightarrow> bool" where
  "signed_by secret tok = (case tok of None \<Rightarrow> True | Some t \<Rightarrow> jwt_verify secret 0 (Some t) \<noteq> None)"

definition token_kept :: "client \<Rightarrow> client \<Rightarrow> bool" where
  "token_kept c c' \<longleftrightarrow> cl_token c' = cl_token c \<or> cl_token c' = None"

text \<open>A TMDb service that answers every request with one movie, and a server configuration, for the examples.\<close>

abbreviation demo_movies :: "json list" where
  "demo_movies \<equiv> [JObj [(''id'', JNum 550), (''title'', JStr ''Fight Club'')]]"

abbreviation tmdb_demo :: env where
  "tmdb_demo \<equiv> \<lparr>clock = 1700000000000, bcrypt_salt = ''salt'',
                tmdb = (\<lambda>_. Inr (JObj [(''results'', JArr demo_movies)]))\<rparr>"

abbreviation cfg_demo :: config where
  "cfg_demo \<equiv> \<lparr>tmdb_key = ''k'', jwt_secret = ''s'', client_files = []\<rparr>"

section \<open>Trimming\<close>

text \<open>Removing one whitespace sequence per unit of fuel, \<open>length s\<close> units remove all of them.\<close>

lemma drop_ws_enough:
  "length s \<le> n \<Longrightarrow> List.find (\<lambda>w. w \<noteq> [] \<and> take (length w) (drop_ws ws n s) = w) ws = None"
proof (induction n arbitrary: s)
  case 0
  then show ?case by (simp add: find_None_iff)
next
  case (Suc n)
  show ?case
  proof (cases "List.find (\<lambda>w. w \<noteq> [] \<and> take (length w) s = w) ws")
    case (Some w)
    then have "w \<noteq> []" "take (length w) s = w" by (auto simp: find_Some_iff)
    then have "length w \<le> length s" "0 < length w" by (metis length_take min.absorb_iff1 nle_le, simp)
    with Suc.prems have "length (drop (length w) s) \<le> n" unfolding length_drop by linarith
    with Suc.IH Some show ?thesis by simp
  qed simp
qed

section \<open>Routes the client requests\<close>

lemma first_route_watchlist_post: "first_route api_routes POST (path_segs ''/api/watchlist'') = Some R_Watchlist_Post"
  by code_simp

lemma jwt_sign_ne [simp]: "jwt_sign secret uid email now \<noteq> []"
  by (simp add: jwt_sign_def Let_def)

lemma proxy_status: "status_of (proxy_reply x) \<noteq> Some 401"
  by (simp add: proxy_reply_def status_of_def split: sum.splits)

text \<open>The body \<open>apiFetch\<close> sends reaches the handler as the value the client stringified.\<close>

lemma apiFetch_serve:
  "case_option True is_compound body \<Longrightarrow>
   apiFetch cfg e f c m path q body =
     (let (resp, f') = serve cfg e f \<lparr>req_method = m, req_path = path, req_auth = auth_header (cl_token c),
                                     req_query = q, req_body = case_option (JObj []) id body\<rparr>
      in (resp, f', if status_of resp = Some 401 then c\<lparr>cl_token := None\<rparr> else c))"
proof (cases body)
  case None
  then show ?thesis
    using serve_http_no_json [of "fetch_request c m path q body" cfg e f]
    by (simp add: apiFetch_def fetch_request_def parsed_request_def)
next
  case (Some v)
  assume "case_option True is_compound body"
  with Some have "is_compound v" by simp
  from serve_http_compound [OF this, of cfg e f "fetch_request c m path q None"] Some
  show ?thesis by (simp add: apiFetch_def fetch_request_def parsed_request_def)
qed

lemma get_api_trending:
  "first_route api_routes GET (path_segs p) = Some (R_Trending mt tw) \<Longrightarrow>
   get_api cfg e f c p = (trending (tmdb_key cfg) (tmdb e) mt tw, f, c)"
  using proxy_status
  by (simp add: get_api_def apiFetch_serve toggle_body_def serve_def route_of_api trending_def)

lemma get_api_configuration:
  "get_api cfg e f c ''/api/configuration'' = (configuration (tmdb_key cfg) (tmdb e), f, c)"
proof -
  have "first_route api_routes GET (path_segs ''/api/configuration'') = Some R_Configuration"
    by code_simp
  then show ?thesis using proxy_status
    by (simp add: get_api_def apiFetch_serve toggle_body_def serve_def route_of_api configuration_def)
qed

lemma first_route_trending_all_day:
  "first_route api_routes GET (path_segs ''/api/trending/all/day'') = Some (R_Trending ''all'' ''day'')"
  by code_simp

lemma first_route_trending_movie_week:
  "first_route api_routes GET (path_segs ''/api/trending/movie/week'') = Some (R_Trending ''movie'' ''week'')"
  by code_simp

lemma first_route_trending_tv_week:
  "first_route api_routes GET (path_segs ''/api/trending/tv/week'') = Some (R_Trending ''tv'' ''week'')"
  by code_simp

lemmas home_requests =
  get_api_configuration
  get_api_trending [OF first_route_trending_all_day]
  get_api_trending [OF first_route_trending_movie_week]
  get_api_trending [OF first_route_trending_tv_week]

section \<open>Router and authentication errors\<close>

text \<open>C19: for every hash other than the five the router names (empty, \<open>movies\<close>, \<open>login\<close>, \<open>signup\<close>, \<open>account\<close>), including \<open>#/\<close> that the comment of \<open>router\<close> lists as a route, the router hides the banner and the rows and still starts \<open>fetchAndRenderHome\<close>: the default state loads the home data into hidden elements.\<close>

theorem router_hides_home:
  assumes "replace_first CHR ''#'' (cl_hash c) \<notin> {[], ''movies'', ''login'', ''signup'', ''account''}"
  shows "\<not> cl_banner_shown (router c) \<and> \<not> cl_rows_shown (router c) \<and>
         cl_view (router c) = V_Empty \<and> cl_tasks (router c) = cl_tasks c @ [T_Home_Config]"
  using assms by (simp add: router_def spawn_def Let_def)

text \<open>C17: clicking the watchlist button with a stored token that is expired or signed with another secret gets the server's 401: the client removes the token and alerts \<open>Failed: Invalid token\<close>, and the users file is unchanged.\<close>

theorem expired_token_toggle:
  assumes "on_screen c m" and "cl_token c = Some (jwt_sign secret uid em t0)"
    and "jwt_secret cfg \<noteq> secret \<or> t0 div 1000 + token_ttl \<le> clock e div 1000"
  shows "cl_step cfg e (f, c) (Click_Toggle m) = (f, alert ''Failed: Invalid token'' (c\<lparr>cl_token := None\<rparr>))"
  using assms route_of_api [OF first_route_watchlist_post, of cfg]
    authMiddleware_issued [of "jwt_secret cfg" "clock e" secret uid em t0]
  by (auto simp: cl_step_def toggleWatchlist_def has_token_def apiFetch_serve toggle_body_def auth_header_def serve_def
      with_auth_def status_of_def res_json_def res_ok_def err_body_def js_or_def)

section \<open>The stored token\<close>

lemma token_kept_signed: "token_kept c c' \<Longrightarrow> signed_by s (cl_token c) \<Longrightarrow> signed_by s (cl_token c')"
  by (auto simp: token_kept_def signed_by_def)

lemma apiFetch_token: "apiFetch cfg e f c m p q b = (r, f', c') \<Longrightarrow> token_kept c c'"
  by (auto simp: apiFetch_def token_kept_def split: prod.splits if_splits)

lemma get_api_token: "get_api cfg e f c p = (r, f', c') \<Longrightarrow> token_kept c c'"
  unfolding get_api_def by (rule apiFetch_token)

lemma auth_reply_signed:
  "auth_reply secret now u = Reply n data \<Longrightarrow> signed_by secret (Some (js_str_opt (get_prop data ''token'')))"
  by (auto simp: auth_reply_def signed_by_def js_str_opt_def jwt_verify_sign token_ttl_def)

lemma login_ok_reply:
  "login secret now f body = Reply n data \<Longrightarrow> n < 300 \<Longrightarrow> \<exists>u. auth_reply secret now u = Reply n data"
  by (auto simp: login_def Let_def split: option.splits if_splits)

lemma signup_ok_reply:
  "fst (signup secret now salt f body) = Reply n data \<Longrightarrow> n < 300 \<Longrightarrow> \<exists>u. auth_reply secret now u = Reply n data"
  by (auto simp: signup_def signup_begin_def signup_finish_def Let_def split: option.splits if_splits sum.splits)

lemma serve_auth_signed:
  assumes "route_of cfg (req_method r) (req_path r) \<in> {R_Login, R_Signup}"
    and "serve cfg e f r = (Reply n data, f')" and "n < 300"
  shows "signed_by (jwt_secret cfg) (Some (js_str_opt (get_prop data ''token'')))"
  using assms login_ok_reply signup_ok_reply auth_reply_signed
proof -
  have "fst (serve cfg e f r) = Reply n data" using assms(2) by simp
  with assms(1,3) obtain now u where "auth_reply (jwt_secret cfg) now u = Reply n data"
    using login_ok_reply signup_ok_reply by (auto simp: serve_def) blast+
  then show ?thesis by (rule auth_reply_signed)
qed

lemma token_kept_refl [simp]: "token_kept c c"
  by (simp add: token_kept_def)

lemma token_kept_trans: "token_kept a b \<Longrightarrow> token_kept b c \<Longrightarrow> token_kept a c"
  by (auto simp: token_kept_def)

lemma renderRow_token: "renderRow t ms c = Some c' \<Longrightarrow> cl_token c' = cl_token c"
  by (auto simp: renderRow_def split: option.splits json.splits if_splits)

lemma renderBanner_token: "renderBanner mv c = Some c' \<Longrightarrow> cl_token c' = cl_token c"
  by (auto simp: renderBanner_def split: if_splits)

lemma home_render_token [simp]: "cl_token (home_render tj pj topj c) = cl_token c"
  by (auto simp: home_render_def home_failed_def split: option.splits
      dest!: renderBanner_token renderRow_token)

lemma home_rows_token: "token_kept c (snd (home_rows cfg e f c))"
  by (auto simp: home_rows_def home_failed_def token_kept_def Let_def split: prod.splits option.splits
      dest!: get_api_token)

lemma home_config_token: "token_kept c (snd (home_config cfg e f c))"
  by (auto simp: home_config_def spawn_def token_kept_def Let_def split: prod.splits option.splits
      dest!: get_api_token)

lemma renderAccount_token: "token_kept c (snd (renderAccount cfg e f c))"
  by (auto simp: renderAccount_def token_kept_def Let_def split: prod.splits option.splits json.splits
      dest!: get_api_token)

lemma run_task_token: "token_kept c (snd (run_task cfg e f c t))"
  by (cases t) (simp_all add: run_task_def home_config_token home_rows_token renderAccount_token)

lemma toggleWatchlist_token: "token_kept c (snd (toggleWatchlist cfg e f c m))"
  by (auto simp: toggleWatchlist_def set_hash_def alert_def token_kept_def Let_def
      split: prod.splits option.splits if_splits dest!: apiFetch_token)

lemma searchMovies_token: "token_kept c (snd (searchMovies cfg e f c q))"
  by (auto simp: searchMovies_def token_kept_def Let_def split: prod.splits option.splits
      dest!: apiFetch_token renderRow_token)

lemma openModal_token: "token_kept c (snd (openModal cfg e f c mid))"
  by (auto simp: openModal_def token_kept_def Let_def split: prod.splits option.splits if_splits
      dest!: get_api_token)

lemma router_token [simp]: "cl_token (router c) = cl_token c"
  by (simp add: router_def spawn_def Let_def)

lemma set_hash_token [simp]: "cl_token (set_hash h c) = cl_token c"
  by (simp add: set_hash_def)

lemma first_route_login: "first_route api_routes POST (path_segs ''/auth/login'') = Some R_Login"
  by code_simp

lemma auth_result_signed:
  assumes "apiFetch cfg e f c POST p [] body = (r, f', c')"
    and "route_of cfg POST p \<in> {R_Login, R_Signup}"
    and "signed_by (jwt_secret cfg) (cl_token c)"
  shows "signed_by (jwt_secret cfg) (cl_token (snd (auth_result msg r f' c')))"
proof -
  have kept: "signed_by (jwt_secret cfg) (cl_token c')"
    using token_kept_signed [OF apiFetch_token [OF assms(1)] assms(3)] .
  have sh: "serve_http cfg e f (fetch_request c POST p [] body) = (r, f')"
    using assms(1) by (auto simp: apiFetch_def split: prod.splits)
  have "r = Reply n data \<Longrightarrow> n < 300 \<Longrightarrow>
        signed_by (jwt_secret cfg) (Some (js_str_opt (get_prop data ''token'')))" for n data
  proof (cases "express_json (hr_json (fetch_request c POST p [] body)) (hr_body (fetch_request c POST p [] body))")
    case (Inl x)
    then show "r = Reply n data \<Longrightarrow> ?thesis" using sh express_json_Inl [OF Inl] by (simp add: serve_http_def)
  next
    case (Inr b)
    define rq where "rq = parsed_request (fetch_request c POST p [] body) b"
    have sv: "serve cfg e f rq = (r, f')" using sh Inr by (simp add: serve_http_def rq_def)
    have rt: "route_of cfg (req_method rq) (req_path rq) \<in> {R_Login, R_Signup}"
      using assms(2) by (simp add: rq_def parsed_request_def fetch_request_def)
    show "r = Reply n data \<Longrightarrow> n < 300 \<Longrightarrow> ?thesis"
      using serve_auth_signed [OF rt] sv by simp
  qed
  then show ?thesis using kept
    by (auto simp: auth_result_def set_auth_msg_def spawn_def res_json_def res_ok_def status_of_def
        split: response.splits option.splits view.splits)
qed

lemma submitLogin_signed:
  "signed_by (jwt_secret cfg) (cl_token c) \<Longrightarrow>
   signed_by (jwt_secret cfg) (cl_token (snd (submitLogin cfg e f c em pw)))"
  using auth_result_signed [of cfg e f c "''/auth/login''", OF _ _]
    route_of_api [OF first_route_login, of cfg]
  by (auto simp: submitLogin_def split: prod.splits)

lemma submitSignup_signed:
  "signed_by (jwt_secret cfg) (cl_token c) \<Longrightarrow>
   signed_by (jwt_secret cfg) (cl_token (snd (submitSignup cfg e f c nm em pw)))"
  using auth_result_signed [of cfg e f c "''/auth/signup''", OF _ _]
    route_of_api [OF first_route_signup, of cfg]
  by (auto simp: submitSignup_def split: prod.splits)

lemma cl_step_signed:
  assumes "signed_by (jwt_secret cfg) (cl_token c)"
  shows "signed_by (jwt_secret cfg) (cl_token (snd (cl_step cfg e (f, c) ev)))"
proof (cases ev)
  case (Resume_Task i)
  then show ?thesis
    using assms token_kept_signed [OF run_task_token]
    by (auto simp: cl_step_def)
next
  case (Click_Toggle m)
  then show ?thesis using assms token_kept_signed [OF toggleWatchlist_token] by (simp add: cl_step_def)
next
  case (Click_Search q)
  then show ?thesis using assms token_kept_signed [OF searchMovies_token]
    by (simp add: cl_step_def search_click_def Let_def)
next
  case (Click_Open m)
  then show ?thesis using assms token_kept_signed [OF openModal_token] by (simp add: cl_step_def)
next
  case (Click_Login em pw)
  then show ?thesis using assms submitLogin_signed by (simp add: cl_step_def split: view.splits)
next
  case (Click_Signup nm em pw)
  then show ?thesis using assms submitSignup_signed by (simp add: cl_step_def split: view.splits)
qed (use assms in \<open>auto simp: cl_step_def logout_def spawn_def signed_by_def split: view.splits\<close>)

text \<open>C15: in every run of the client against the server, the token the client stores is one the server signed with its secret (or none), provided the stored token at page load was: the login and signup handlers save \<open>data.token\<close> only from a 2xx reply of \<open>/auth/login\<close> or \<open>/auth/signup\<close>, and every other step keeps or removes the token.\<close>

theorem client_token_signed:
  "cl_reach cfg w0 w \<Longrightarrow> signed_by (jwt_secret cfg) (cl_token (snd w0)) \<Longrightarrow>
   signed_by (jwt_secret cfg) (cl_token (snd w))"
proof (induction rule: cl_reach.induct)
  case (step w e ev)
  then show ?case using cl_step_signed [of cfg "snd w" e "fst w" ev] by simp
qed

section \<open>Watchlist through the client\<close>

lemma toggle_item_id: "get_prop (toggle_item m) ''id'' = get_prop m ''id''"
  by (auto simp: toggle_item_def defined_fields_def)

lemma toggle_item_valid:
  assumes "truthy (get_prop m ''id'')"
  shows "movie_valid (Some (toggle_item m))"
proof -
  have "truthy (Some (toggle_item m))" by (simp add: toggle_item_def defined_fields_def)
  with assms show ?thesis by (simp add: movie_valid_def get_opt_def toggle_item_id)
qed

text \<open>C16: a client holding a valid token the server issued for a user, clicking the watchlist button of a movie with a truthy id that the user's watchlist does not hold, makes the server append \<open>{id, title, poster_path}\<close> of the movie to that user's watchlist and write the file, and alerts the new length.\<close>

theorem client_toggle_adds:
  assumes tok: "cl_token c = Some (jwt_sign (jwt_secret cfg) (user_id u) em t0)"
    and fresh: "clock e div 1000 < t0 div 1000 + token_ttl"
    and scr: "on_screen c m"
    and fu: "find_user users (user_id u) = Some u"
    and idm: "truthy (get_prop m ''id'')"
    and items: "list_all wf_item (user_watchlist u)"
    and absent: "\<forall>x\<in>set (user_watchlist u). \<not> same_id (toggle_item m) x"
  shows "cl_step cfg e (Stored users, c) (Click_Toggle m) =
     (Stored (users[nat (find_index (\<lambda>x. user_id x = user_id u) users) :=
                      u\<lparr>user_watchlist := user_watchlist u @ [toggle_item m]\<rparr>]),
      alert (''Watchlist updated ('' @ dec_str (Suc (length (user_watchlist u))) @ '' items)'') c)"
proof -
  define i where "i = find_index (\<lambda>x. user_id x = user_id u) users"
  have ix: "i \<noteq> -1" "users ! nat i = u" using find_user_index [OF fu] by (simp_all add: i_def)
  have tg: "toggle (user_watchlist u) (toggle_item m) = user_watchlist u @ [toggle_item m]"
    using items absent by (rule toggle_absent)
  have pw: "post_watchlist (Stored users)
              \<lparr>claim_id = user_id u, claim_email = json_print em,
               claim_iat = t0 div 1000, claim_exp = t0 div 1000 + token_ttl\<rparr> (toggle_body m) =
            (Reply 200 (JObj [(''watchlist'', JArr (user_watchlist u @ [toggle_item m]))]),
             Stored (users[nat i := u\<lparr>user_watchlist := user_watchlist u @ [toggle_item m]\<rparr>]))"
    using post_watchlist_ok [of "Stored users" users _ i "toggle_body m" "toggle_item m"]
      ix tg toggle_item_valid [OF idm]
    by (simp add: readUsers_def toggle_body_def i_def)
  have "serve cfg e (Stored users)
          \<lparr>req_method = POST, req_path = ''/api/watchlist'', req_auth = Some (''Bearer '' @ jwt_sign (jwt_secret cfg) (user_id u) em t0),
           req_query = [], req_body = toggle_body m\<rparr> =
        (Reply 200 (JObj [(''watchlist'', JArr (user_watchlist u @ [toggle_item m]))]),
         Stored (users[nat i := u\<lparr>user_watchlist := user_watchlist u @ [toggle_item m]\<rparr>]))"
    using pw fresh route_of_api [OF first_route_watchlist_post, of cfg]
      authMiddleware_issued [of "jwt_secret cfg" "clock e" "jwt_secret cfg" "user_id u" em t0]
    by (simp add: serve_def with_auth_def)
  then show ?thesis
    using tok scr
    by (simp add: cl_step_def toggleWatchlist_def has_token_def apiFetch_serve toggle_body_def auth_header_def status_of_def
        res_json_def res_ok_def watchlist_count_def i_def)
qed

section \<open>The first page load\<close>

lemma proxy_reply_json: "res_json (proxy_reply x) = Some (case x of Inl msg \<Rightarrow> JObj [(''error'', JStr ''TMDb error''), (''details'', JStr msg)] | Inr d \<Rightarrow> d)"
  by (simp add: proxy_reply_def res_json_def split: sum.splits)

lemma proxy_reply_answered: "proxy_reply x \<noteq> No_Reply"
  by (simp add: proxy_reply_def split: sum.splits)

lemma home_rows_render:
  "home_rows cfg e f c =
     (f, home_render (the (res_json (trending (tmdb_key cfg) (tmdb e) ''all'' ''day'')))
                     (the (res_json (trending (tmdb_key cfg) (tmdb e) ''movie'' ''week'')))
                     (the (res_json (trending (tmdb_key cfg) (tmdb e) ''tv'' ''week''))) c)"
  by (simp add: home_rows_def home_requests trending_def proxy_reply_json proxy_reply_answered)

lemma home_config_spawn:
  "home_config cfg e f c =
     (f, spawn T_Home_Rows (c\<lparr>cl_tmdb_config :=
            (if res_ok (configuration (tmdb_key cfg) (tmdb e))
             then the (res_json (configuration (tmdb_key cfg) (tmdb e))) else cl_tmdb_config c),
          cl_banner := B_Loading, cl_rows := []\<rparr>))"
  by (simp add: home_config_def home_requests configuration_def proxy_reply_json proxy_reply_answered)

lemma home_render_config: "cl_tmdb_config (home_render tj pj topj c) = cl_tmdb_config c"
  by (auto simp: home_render_def renderBanner_def renderRow_def home_failed_def
      split: option.splits json.splits if_splits)

lemma renderRow_add:
  "renderRow t ms c = map_option (\<lambda>r. c\<lparr>cl_rows := cl_rows c @ r\<rparr>) (row_add (cl_tmdb_config c) t ms)"
  by (simp add: renderRow_def row_add_def split: option.splits json.splits)

lemma renderBanner_fails:
  "renderBanner h c = None \<longleftrightarrow> banner_fails (cl_tmdb_config c) h"
  by (simp add: renderBanner_def banner_fails_def)

lemma renderBanner_keeps:
  "renderBanner h c = Some c1 \<Longrightarrow> cl_rows c1 = cl_rows c \<and> cl_tmdb_config c1 = cl_tmdb_config c"
  by (auto simp: renderBanner_def split: if_splits)

lemma home_render_gain:
  "cl_rows (home_render tj pj topj c) = cl_rows c @ home_gain (cl_tmdb_config c) tj pj topj"
proof (cases "hero_of tj")
  case (Some h)
  show ?thesis
  proof (cases "renderBanner h c")
    case None
    moreover from None have "banner_fails (cl_tmdb_config c) h" by (simp add: renderBanner_fails [symmetric])
    ultimately show ?thesis using Some by (simp add: home_render_def home_gain_def home_failed_def)
  next
    case (Some c1)
    with renderBanner_keeps [OF this] renderBanner_fails [of h c] \<open>hero_of tj = Some h\<close>
    show ?thesis
      by (auto simp: home_render_def home_gain_def renderRow_add home_failed_def split: option.splits)
  qed
qed (simp add: home_render_def home_gain_def home_failed_def)

lemma home_render_tasks: "cl_tasks (home_render tj pj topj c) = cl_tasks c"
  by (auto simp: home_render_def renderBanner_def renderRow_def home_failed_def
      split: option.splits json.splits if_splits)

text \<open>C18: loading the page without a hash runs \<open>fetchAndRenderHome\<close> twice (\<open>init\<close> sets the hash, which queues a \<open>hashchange\<close>, and calls \<open>router\<close> itself). When both runs pass \<open>fetchConfig\<close> before either renders, each clears the rows before the other appends, and for every server, upstream service and stored token the page shows exactly twice the rows of a page loaded at \<open>#movies\<close>.\<close>

theorem first_load_rows_twice:
  "cl_rows (snd (cl_run cfg (f, cl_init [] tok)
     [(e, Hash_Change), (e, Resume_Task 0), (e, Resume_Task 0), (e, Resume_Task 0), (e, Resume_Task 0)])) =
   cl_rows (snd (cl_run cfg (f, cl_init ''#movies'' tok) [(e, Resume_Task 0), (e, Resume_Task 0)])) @
   cl_rows (snd (cl_run cfg (f, cl_init ''#movies'' tok) [(e, Resume_Task 0), (e, Resume_Task 0)]))"
  by (simp add: cl_step_def run_task_def home_config_spawn home_rows_render home_render_gain
      home_render_config home_render_tasks cl_init_def router_def set_hash_def spawn_def Let_def)

lemma first_route_me: "first_route api_routes GET (path_segs ''/auth/me'') = Some R_Me"
  by code_simp

text \<open>C23: the account page's request is not tied to the route that started it: when the only suspended function is \<open>renderAccount\<close> and no token is stored, resuming it replaces whatever \<open>#route-root\<close> shows, whatever the hash is by then (for instance the login form at \<open>#login\<close> after the user left \<open>#account\<close>), with the \<open>Please login\<close> notice.\<close>

theorem account_overwrites_view:
  assumes "cl_tasks c = [T_Account]" and "cl_token c = None"
  shows "cl_step cfg e (f, c) (Resume_Task 0) = (f, c\<lparr>cl_tasks := [], cl_view := V_Please_Login\<rparr>)"
  using assms route_of_api [OF first_route_me, of cfg] authMiddleware_missing [of "jwt_secret cfg" "clock e"]
  by (simp add: cl_step_def run_task_def renderAccount_def get_api_def apiFetch_serve auth_header_def
      serve_def with_auth_def status_of_def res_json_def res_ok_def)

section \<open>Witnesses\<close>

text \<open>A registered user with a token issued at signup, and the page showing a movie in the banner.\<close>

abbreviation demo_member :: user where
  "demo_member \<equiv> \<lparr>user_id = ''1700000000000'', user_name = JStr [], user_email = JStr ''a@x.com'',
                   user_passwordHash = Bcrypt 10 ''salt'' ''pw'', user_watchlist = []\<rparr>"

abbreviation demo_token :: string where
  "demo_token \<equiv> jwt_sign ''s'' ''1700000000000'' (JStr ''a@x.com'') 1700000000000"

abbreviation fight_club :: json where
  "fight_club \<equiv> JObj [(''id'', JNum 550), (''title'', JStr ''Fight Club'')]"

abbreviation demo_page :: "string option \<Rightarrow> client" where
  "demo_page tok \<equiv> (cl_init ''#movies'' tok)\<lparr>cl_banner := B_Movie fight_club\<rparr>"

theorem client_toggle_adds_witness:
  "cl_step cfg_demo tmdb_demo (Stored [demo_member], demo_page (Some demo_token)) (Click_Toggle fight_club) =
     (Stored [demo_member\<lparr>user_watchlist := [toggle_item fight_club]\<rparr>],
      alert (''Watchlist updated ('' @ dec_str 1 @ '' items)'') (demo_page (Some demo_token)))"
  using client_toggle_adds [of "demo_page (Some demo_token)" cfg_demo demo_member "JStr ''a@x.com''" 1700000000000
      tmdb_demo fight_club "[demo_member]"]
  by (simp add: cl_init_def router_def set_hash_def spawn_def Let_def on_screen_def token_ttl_def
      find_user_def toggle_item_def defined_fields_def js_or_opt_def)

theorem expired_token_toggle_witness:
  "cl_step cfg_demo (tmdb_demo\<lparr>clock := 1700604800000\<rparr>) (Stored [demo_member], demo_page (Some demo_token))
     (Click_Toggle fight_club) =
   (Stored [demo_member], alert ''Failed: Invalid token'' ((demo_page (Some demo_token))\<lparr>cl_token := None\<rparr>))"
  using expired_token_toggle [of "demo_page (Some demo_token)" fight_club "''s''" "''1700000000000''"
      "JStr ''a@x.com''" 1700000000000 cfg_demo "tmdb_demo\<lparr>clock := 1700604800000\<rparr>" "Stored [demo_member]"]
  by (simp add: cl_init_def router_def set_hash_def spawn_def Let_def on_screen_def token_ttl_def)

theorem router_hides_home_witness:
  "\<not> cl_banner_shown (cl_init ''#/'' None) \<and> \<not> cl_rows_shown (cl_init ''#/'' None) \<and>
   cl_view (cl_init ''#/'' None) = V_Empty \<and> cl_tasks (cl_init ''#/'' None) = [T_Home_Config]"
  using router_hides_home [of "\<lparr>cl_token = None, cl_hash = ''#/'', cl_hashchanges = 0, cl_banner_shown = True,
      cl_rows_shown = True, cl_banner = B_Initial, cl_rows = [], cl_view = V_Empty, cl_modal = M_Hidden,
      cl_alerts = [], cl_tmdb_config = initial_tmdb_config, cl_tasks = []\<rparr>"]
  by (simp add: cl_init_def set_hash_def)

theorem client_token_signed_witness:
  "signed_by ''s'' (cl_token (snd (cl_step cfg_demo tmdb_demo (Stored [demo_member], cl_init ''#login'' None)
     (Click_Login ''a@x.com'' ''pw''))))"
  using client_token_signed [OF cl_reach.step [OF cl_reach.init],
      of cfg_demo "(Stored [demo_member], cl_init ''#login'' None)" tmdb_demo "Click_Login ''a@x.com'' ''pw''"]
  by (simp add: cl_init_def router_def set_hash_def Let_def signed_by_def)

theorem account_overwrites_view_witness:
  "cl_run cfg_demo (Stored [], cl_init ''#account'' None)
     [(tmdb_demo, Navigate ''#login''), (tmdb_demo, Hash_Change), (tmdb_demo, Resume_Task 0)] =
   (Stored [], (cl_init ''#account'' None)\<lparr>cl_hash := ''#login'', cl_view := V_Please_Login, cl_tasks := []\<rparr>)"
proof -
  have e1: "cl_step cfg_demo tmdb_demo (Stored [], cl_init ''#account'' None) (Navigate ''#login'') =
            (Stored [], (cl_init ''#account'' None)\<lparr>cl_hash := ''#login'', cl_hashchanges := 1\<rparr>)"
    by (simp add: cl_step_def cl_init_def set_hash_def router_def spawn_def Let_def)
  have e2: "cl_step cfg_demo tmdb_demo (Stored [], (cl_init ''#account'' None)\<lparr>cl_hash := ''#login'', cl_hashchanges := 1\<rparr>)
              Hash_Change = (Stored [], (cl_init ''#account'' None)\<lparr>cl_hash := ''#login'', cl_view := V_Login []\<rparr>)"
    by (simp add: cl_step_def cl_init_def set_hash_def router_def spawn_def Let_def)
  have e3: "cl_step cfg_demo tmdb_demo (Stored [], (cl_init ''#account'' None)\<lparr>cl_hash := ''#login'', cl_view := V_Login []\<rparr>)
              (Resume_Task 0) =
            (Stored [], (cl_init ''#account'' None)\<lparr>cl_hash := ''#login'', cl_view := V_Login [], cl_tasks := [],
                                                   cl_view := V_Please_Login\<rparr>)"
    by (rule account_overwrites_view) (simp_all add: cl_init_def set_hash_def router_def spawn_def Let_def)
  show ?thesis by (simp only: cl_run.simps e1 e2 e3) simp
qed

end
