(* ===== verification/StoreText.thy ===== *)
theory StoreText
  imports Store JsonText
begin

text \<open>
  The text of \<open>users.json\<close>. \<open>writeUsers\<close> (lines 41--43) writes
  \<open>JSON.stringify(users, null, 2)\<close>, each user the object of line 113 with its
  keys in that order; \<open>readUsers\<close> (lines 38--40) reads the file as UTF-8
  text and returns \<open>JSON.parse(text || '[]')\<close>; the start-up code (line 28)
  writes \<open>JSON.stringify([])\<close>. The stored bcrypt hash is the string
  \<open>$2b$cost$salt$key\<close> (salt and key in hexadecimal), the text form of the
  symbolic hash of theory \<open>Crypto\<close>.

  \<open>file_text\<close> maps the file model of theory \<open>Store\<close> to the text on disk
  and \<open>readUsers_text\<close> reads a text back into user records. The refinement
  lemma shows that \<open>Store\<close> may treat the file as the list it holds.
\<close>

definition hash_str :: "pwhash \<Rightarrow> string" where
  "hash_str h = (case h of Bcrypt cost salt key \<Rightarrow>
     ''$2b$'' @ dec_str cost @ CHR ''$'' # hex_enc salt @ CHR ''$'' # hex_enc key)"

definition hash_of_str :: "string \<Rightarrow> pwhash option" where
  "hash_of_str s =
     (case split_on (CHR ''$'') s of
        [pre, v, c, salt, key] \<Rightarrow>
          if pre = [] \<and> v = ''2b'' then
            (case (parse_dec c, hex_dec salt, hex_dec key) of
               (Some n, Some sa, Some k) \<Rightarrow> Some (Bcrypt n sa k)
             | _ \<Rightarrow> None)
          else None
      | _ \<Rightarrow> None)"

definition user_json :: "user \<Rightarrow> json" where \<comment> \<open>the object of line 113\<close>
  "user_json u =
     JObj [(''id'', JStr (user_id u)), (''name'', user_name u), (''email'', user_email u),
           (''passwordHash'', JStr (hash_str (user_passwordHash u))),
           (''watchlist'', JArr (user_watchlist u))]"

definition decode_user :: "json \<Rightarrow> user option" where
  "decode_user j =
     (case (get_prop j ''id'', get_prop j ''name'', get_prop j ''email'',
            get_prop j ''passwordHash'', get_prop j ''watchlist'') of
        (Some (JStr i), Some n, Some em, Some (JStr h), Some (JArr wl)) \<Rightarrow>
          map_option (\<lambda>ph. \<lparr>user_id = i, user_name = n, user_email = em,
                             user_passwordHash = ph, user_watchlist = wl\<rparr>) (hash_of_str h)
      | _ \<Rightarrow> None)"

definition writeUsers_text :: "user list \<Rightarrow> string" where
  "writeUsers_text us = json_pretty 0 (JArr (map user_json us))"

definition readUsers_text :: "string option \<Rightarrow> user list option" where
  "readUsers_text txt =
     (case txt of
        None \<Rightarrow> None
      | Some s \<Rightarrow>
          (case json_parse (if s = [] then ''[]'' else s) of
             Some (JArr vs) \<Rightarrow> those (map decode_user vs)
           | _ \<Rightarrow> None))"

definition file_text :: "users_file \<Rightarrow> string option" where
  "file_text f = (case f of Missing \<Rightarrow> None | Blank \<Rightarrow> Some [] | Stored us \<Rightarrow> Some (writeUsers_text us))"

definition ensure_users_text :: "string option \<Rightarrow> string option" where \<comment> \<open>line 28\<close>
  "ensure_users_text txt = (if txt = None then Some (json_print (JArr [])) else txt)"

section \<open>Codec lemmas\<close>

lemma hex_digit_ne_dollar: "d < 16 \<Longrightarrow> hex_digit d \<noteq> CHR ''$''"
proof
  assume d: "d < 16" and "hex_digit d = CHR ''$''"
  then have "(of_char (hex_digit d) :: nat) = 36" by simp
  with d show False by (simp add: of_char_hex_digit split: if_splits)
qed

lemma digit_chr_ne_dollar: "d < 10 \<Longrightarrow> digit_chr d \<noteq> CHR ''$''"
proof
  assume d: "d < 10" and "digit_chr d = CHR ''$''"
  then have "(of_char (digit_chr d) :: nat) = 36" by simp
  with d show False by (simp add: of_char_digit_chr)
qed

lemma dollar_not_hex: "CHR ''$'' \<notin> set (hex_enc s)"
proof
  assume "CHR ''$'' \<in> set (hex_enc s)"
  then have "CHR ''$'' \<in> hex_digit ` {..<16}" by (rule subsetD [OF hex_enc_chars])
  then obtain d where "d < 16" and "CHR ''$'' = hex_digit d" by auto
  with hex_digit_ne_dollar show False by metis
qed

lemma dollar_not_dec: "CHR ''$'' \<notin> set (dec_str n)"
proof
  assume "CHR ''$'' \<in> set (dec_str n)"
  then have "CHR ''$'' \<in> digit_chr ` {..<10}" by (rule subsetD [OF set_dec_str_digits])
  then obtain d where "d < 10" and "CHR ''$'' = digit_chr d" by auto
  with digit_chr_ne_dollar show False by metis
qed

lemma hash_of_str_hash_str: "hash_of_str (hash_str h) = Some h"
proof (cases h)
  case (Bcrypt cost salt key)
  have "hash_str h = join_on (CHR ''$'') [[], ''2b'', dec_str cost, hex_enc salt, hex_enc key]"
    by (simp add: hash_str_def Bcrypt)
  moreover have "split_on (CHR ''$'') (join_on (CHR ''$'') [[], ''2b'', dec_str cost, hex_enc salt, hex_enc key]) =
                 [[], ''2b'', dec_str cost, hex_enc salt, hex_enc key]"
    using dollar_not_hex dollar_not_dec by (intro split_on_join_on) auto
  ultimately show ?thesis by (simp add: hash_of_str_def Bcrypt)
qed

lemma decode_user_json: "decode_user (user_json u) = Some u"
  by (simp add: decode_user_def user_json_def hash_of_str_hash_str)

lemma those_decode_users: "those (map (decode_user \<circ> user_json) us) = Some us"
  by (induction us) (simp_all add: decode_user_json comp_def)

lemma writeUsers_text_ne: "writeUsers_text us \<noteq> []"
  by (simp add: writeUsers_text_def)

lemma json_parse_writeUsers_text: "json_parse (writeUsers_text us) = Some (JArr (map user_json us))"
  unfolding writeUsers_text_def by (rule json_parse_pretty)

lemma readUsers_text_write: "readUsers_text (Some (writeUsers_text us)) = Some us"
  by (simp add: readUsers_text_def writeUsers_text_ne json_parse_writeUsers_text those_decode_users)

lemma json_parse_empty_array: "json_parse ''[]'' = Some (JArr [])"
  using json_parse_print [of "JArr []"] by simp

section \<open>Refinement\<close>

text \<open>C22: the file model of \<open>Store\<close> is refined by the text on disk: reading the text of a file model gives what \<open>readUsers\<close> gives (the indented \<open>JSON.stringify\<close> of the user objects parses back to the same users, an empty file reads as \<open>[]\<close>, a missing one throws), writing produces the text of the written list, and the compact \<open>[]\<close> of the start-up code is the text of the empty store.\<close>

theorem users_file_text_refines:
  "readUsers_text (file_text f) = readUsers f \<and>
   file_text (writeUsers us) = Some (writeUsers_text us) \<and>
   file_text (ensure_users_file f) = ensure_users_text (file_text f)"
proof (intro conjI)
  show "readUsers_text (file_text f) = readUsers f"
    using json_parse_empty_array
    by (cases f) (simp_all add: file_text_def readUsers_def readUsers_text_write,
        simp_all add: readUsers_text_def)
  show "file_text (writeUsers us) = Some (writeUsers_text us)"
    by (simp add: file_text_def writeUsers_def)
  show "file_text (ensure_users_file f) = ensure_users_text (file_text f)"
    by (cases f) (simp_all add: file_text_def ensure_users_file_def ensure_users_text_def
        writeUsers_def writeUsers_text_def)
qed

end
