(* ===== verification/ApiProps.thy ===== *)
theory ApiProps
  imports Client StoreText
begin

text \<open>
  Properties of the HTTP API that span several handlers of
  \<open>src/server/index.js\<close>: what one request leaves for the next
  (\<open>POST /api/watchlist\<close> then \<open>GET /api/watchlist\<close>), and what a signup
  suspended at its \<open>await\<close> does to a watchlist written in the meantime.
\<close>

section \<open>Requests of the examples\<close>

abbreviation wl_post :: request where
  "wl_post \<equiv> \<lparr>req_method = POST, req_path = ''/api/watchlist'', req_auth = Some (''Bearer '' @ demo_token),
               req_query = [], req_body = toggle_body fight_club\<rparr>"

abbreviation wl_get :: request where
  "wl_get \<equiv> \<lparr>req_method = GET, req_path = ''/api/watchlist'', req_auth = Some (''Bearer '' @ demo_token),
              req_query = [], req_body = JObj []\<rparr>"

abbreviation demo_claims :: claims where
  "demo_claims \<equiv> \<lparr>claim_id = ''1700000000000'', claim_email = json_print (JStr ''a@x.com''),
                   claim_iat = 1700000000, claim_exp = 1700000000 + token_ttl\<rparr>"

section \<open>Read your writes\<close>

lemma post_watchlist_then_get:
  assumes post: "post_watchlist f c body = (Reply 200 j, f')"
  shows "get_watchlist f' c = Reply 200 j"
proof -
  obtain users where rd: "readUsers f = Some users"
    using post by (cases "readUsers f") (auto simp: post_watchlist_def)
  define i where "i = find_index (\<lambda>x. user_id x = claim_id c) users"
  have ne: "i \<noteq> -1" and mv: "movie_valid (get_prop body ''movie'')"
    using post rd by (auto simp: post_watchlist_def i_def Let_def split: if_splits)
  obtain m where m: "get_prop body ''movie'' = Some m"
    using mv by (cases "get_prop body ''movie''") (auto simp: movie_valid_def)
  define u where "u = (users ! nat i)\<lparr>user_watchlist := toggle (user_watchlist (users ! nat i)) m\<rparr>"
  have "post_watchlist f c body = (Reply 200 (JObj [(''watchlist'', JArr (user_watchlist u))]), Stored (users[nat i := u]))"
    using post_watchlist_ok [OF rd i_def [symmetric] ne m] mv m by (simp add: u_def)
  with post have out: "j = JObj [(''watchlist'', JArr (user_watchlist u))]" "f' = Stored (users[nat i := u])"
    by simp_all
  from find_index_found [OF ne [unfolded i_def]]
  have lt: "nat i < length users" and idi: "user_id (users ! nat i) = claim_id c"
    by (simp_all add: i_def)
  have "find_index (\<lambda>x. user_id x = claim_id c) (users[nat i := u]) = i"
    using find_index_update [OF lt, of "\<lambda>x. user_id x = claim_id c" u] idi by (simp add: u_def i_def)
  then have "find_user (users[nat i := u]) (claim_id c) = Some u"
    using ne lt find_index_eq_find [of "\<lambda>x. user_id x = claim_id c" "users[nat i := u]"]
    by (simp add: find_user_def)
  then show ?thesis by (simp add: get_watchlist_def readUsers_def out)
qed

lemma get_watchlist_claim_id:
  assumes "claim_id c' = claim_id c"
  shows "get_watchlist f c' = get_watchlist f c"
  unfolding get_watchlist_def assms ..

text \<open>C24: in the sequential server a user reads their own writes: after \<open>POST /api/watchlist\<close> is answered 200, \<open>GET /api/watchlist\<close> with any token naming the same user id answers with exactly the watchlist the POST replied with, and writes nothing.\<close>

theorem watchlist_read_your_writes:
  assumes rp: "route_of cfg (req_method rp) (req_path rp) = R_Watchlist_Post"
    and rg: "route_of cfg (req_method rg) (req_path rg) = R_Watchlist_Get"
    and ap: "authMiddleware (jwt_secret cfg) (clock e) (req_auth rp) = Inr c"
    and ag: "authMiddleware (jwt_secret cfg) (clock e') (req_auth rg) = Inr c'"
    and same: "claim_id c' = claim_id c"
    and sp: "serve cfg e f rp = (Reply 200 j, f')"
  shows "serve cfg e' f' rg = (Reply 200 j, f')"
proof -
  have "post_watchlist f c (req_body rp) = (Reply 200 j, f')"
    using sp rp ap by (simp add: serve_def with_auth_def)
  then have "get_watchlist f' c = Reply 200 j" by (rule post_watchlist_then_get)
  then show ?thesis
    using rg ag get_watchlist_claim_id [OF same, of f'] by (simp add: serve_def with_auth_def)
qed

section \<open>A signup suspended across a watchlist write\<close>

text \<open>C25: a signup suspended at \<open>await bcrypt.hash\<close> writes back the array it read before, so a watchlist toggle that another user makes in the meantime is answered 200 and then lost: the file ends with the old users plus the new one.\<close>

theorem signup_erases_watchlist_write:
  fixes ea eb ec :: env
  assumes rd: "readUsers (st_file s) = Some users" and np: "st_pending s = []"
    and rta: "route_of cfg (req_method ra) (req_path ra) = R_Signup"
    and ema: "truthy (get_prop (req_body ra) ''email'')"
    and pwa: "get_prop (req_body ra) ''password'' = Some (JStr pa)" "pa \<noteq> []"
    and nta: "\<not> email_taken users (get_prop (req_body ra) ''email'')"
    and rtb: "route_of cfg (req_method rb) (req_path rb) = R_Watchlist_Post"
    and ab: "authMiddleware (jwt_secret cfg) (clock eb) (req_auth rb) = Inr c"
    and pb: "post_watchlist (st_file s) c (req_body rb) = (Reply 200 j, f_post)"
  defines "ua \<equiv> \<lparr>user_id = dec_str (clock ec), user_name = js_or (get_prop (req_body ra) ''name'') (JStr []),
                user_email = the (get_prop (req_body ra) ''email''),
                user_passwordHash = Bcrypt bcrypt_rounds (bcrypt_salt ec) (bcrypt_key pa), user_watchlist = []\<rparr>"
  shows "srv_run cfg s [Arrive ea ra, Arrive eb rb, Resume 0 ec] =
     (\<lparr>st_file = Stored (users @ [ua]), st_pending = []\<rparr>,
      [None, Some (Reply 200 j), Some (auth_reply (jwt_secret cfg) (clock ec) ua)])"
proof -
  have ta: "truthy (get_prop (req_body ra) ''password'')" using pwa by simp
  have rtb': "route_of cfg (req_method rb) (req_path rb) \<noteq> R_Signup" using rtb by simp
  show ?thesis
    using signup_begin_ok [OF ema ta rd nta] rta rtb rtb' ab pb np pwa
    by (simp add: srv_step_def serve_def with_auth_def signup_finish_def bcrypt_hash_def new_user_def
        writeUsers_def ua_def Let_def)
qed

section \<open>Witnesses\<close>

lemma demo_token_accepted: "authMiddleware ''s'' 1700000000000 (Some (''Bearer '' @ demo_token)) = Inr demo_claims"
  using authMiddleware_issued [of "''s''" 1700000000000 "''s''" "''1700000000000''" "JStr ''a@x.com''" 1700000000000]
  by (simp add: token_ttl_def)

lemma demo_post_served:
  "serve cfg_demo tmdb_demo (Stored [demo_member]) wl_post =
     (Reply 200 (JObj [(''watchlist'', JArr [toggle_item fight_club])]),
      Stored [demo_member\<lparr>user_watchlist := [toggle_item fight_club]\<rparr>])"
  using route_of_api [OF first_route_watchlist_post, of cfg_demo] demo_token_accepted
  by (simp add: serve_def with_auth_def post_watchlist_def readUsers_def writeUsers_def toggle_def
      wl_exists_def movie_valid_def toggle_body_def toggle_item_def defined_fields_def get_opt_def
      js_or_opt_def Let_def)

theorem watchlist_read_your_writes_witness:
  "serve cfg_demo tmdb_demo (Stored [demo_member\<lparr>user_watchlist := [toggle_item fight_club]\<rparr>]) wl_get =
     (Reply 200 (JObj [(''watchlist'', JArr [toggle_item fight_club])]),
      Stored [demo_member\<lparr>user_watchlist := [toggle_item fight_club]\<rparr>])"
  using watchlist_read_your_writes [where cfg = cfg_demo and rp = wl_post and rg = wl_get and c = demo_claims
      and c' = demo_claims and e = tmdb_demo and e' = tmdb_demo and f = "Stored [demo_member]",
      OF _ _ _ _ _ demo_post_served]
    route_of_api [OF first_route_watchlist_post, of cfg_demo]
    route_of_api [OF first_route_watchlist_get, of cfg_demo] demo_token_accepted
  by simp

theorem signup_erases_watchlist_write_witness:
  "srv_run cfg_demo \<lparr>st_file = Stored [demo_member], st_pending = []\<rparr>
     [Arrive tmdb_demo (signup_req ''b@x.com''), Arrive tmdb_demo wl_post, Resume 0 tmdb_demo] =
   (\<lparr>st_file = Stored [demo_member,
       \<lparr>user_id = dec_str 1700000000000, user_name = JStr [], user_email = JStr ''b@x.com'',
        user_passwordHash = Bcrypt bcrypt_rounds ''salt'' (bcrypt_key ''pw''), user_watchlist = []\<rparr>],
     st_pending = []\<rparr>,
    [None, Some (Reply 200 (JObj [(''watchlist'', JArr [toggle_item fight_club])])),
     Some (auth_reply ''s'' 1700000000000
       \<lparr>user_id = dec_str 1700000000000, user_name = JStr [], user_email = JStr ''b@x.com'',
        user_passwordHash = Bcrypt bcrypt_rounds ''salt'' (bcrypt_key ''pw''), user_watchlist = []\<rparr>)])"
proof -
  have pw: "post_watchlist (Stored [demo_member]) demo_claims (toggle_body fight_club) =
     (Reply 200 (JObj [(''watchlist'', JArr [toggle_item fight_club])]),
      Stored [demo_member\<lparr>user_watchlist := [toggle_item fight_club]\<rparr>])"
    by (simp add: post_watchlist_def readUsers_def writeUsers_def toggle_def wl_exists_def movie_valid_def
        toggle_body_def toggle_item_def defined_fields_def get_opt_def js_or_opt_def Let_def)
  show ?thesis
    using signup_erases_watchlist_write [where s = "\<lparr>st_file = Stored [demo_member], st_pending = []\<rparr>"
        and users = "[demo_member]" and ra = "signup_req ''b@x.com''" and pa = "''pw''" and rb = wl_post
        and c = demo_claims and cfg = cfg_demo and ea = tmdb_demo and eb = tmdb_demo and ec = tmdb_demo
        and j = "JObj [(''watchlist'', JArr [toggle_item fight_club])]"
        and f_post = "Stored [demo_member\<lparr>user_watchlist := [toggle_item fight_club]\<rparr>]"] pw
      route_of_api [OF first_route_signup, of cfg_demo] route_of_api [OF first_route_watchlist_post, of cfg_demo]
      demo_token_accepted
    by (simp add: readUsers_def email_taken_def js_or_def)
qed

end
