(* ===== verification/Spec2Isabelle.thy ===== *)
theory Spec2Isabelle
  imports ApiProps
begin

text \<open>
  \<^bold>\<open>MovieHub: a verification development.\<close>

  The program is a movie browsing web app. The server \<open>src/server/index.js\<close>
  (Express 4) keeps user accounts and watchlists in one JSON file, issues and
  checks JSON web tokens, and proxies four read-only TMDb endpoints; the client
  \<open>src/client/app.js\<close> is a single page with a hash router that calls the
  server with \<open>fetch\<close> and keeps the token in \<open>localStorage\<close>. The client's
  requests go to the server model, so client and server are verified together.

  \<^bold>\<open>Theories and what they model.\<close>
  \<^item> \<open>Prelude\<close>: the JavaScript array and string primitives the code calls
    (\<open>findIndex\<close> as \<open>find_index\<close>, \<open>xs[i]\<close> as \<open>nth_opt\<close>, \<open>split(' ')\<close> as
    \<open>split_on\<close>, \<open>Date.now().toString()\<close> as \<open>dec_str\<close>) with their lemmas.
  \<^item> \<open>Json\<close>: JSON values with \<open>undefined\<close> as \<open>None\<close>; truthiness (\<open>truthy\<close>),
    \<open>===\<close> (\<open>strict_eq\<close>: reference equality on objects and arrays, which is
    never true between values parsed from different sources), property access
    (\<open>get_prop\<close>), \<open>||\<close> (\<open>js_or\<close>), object spread and \<open>JSON.stringify\<close>.
  \<^item> \<open>JsonText\<close>: JSON as text: \<open>JSON.parse\<close> (\<open>json_parse\<close>, a recursive
    descent parser over the string with fuel) and \<open>JSON.stringify(v, null, 2)\<close>
    (\<open>json_pretty\<close>), with the round trips \<open>json_parse_print\<close> and
    \<open>json_parse_pretty\<close> for every value.
  \<^item> \<open>Crypto\<close>: the contracts of \<open>bcrypt\<close> and \<open>jsonwebtoken\<close> under perfect
    cryptography (symbolic hash of the first 72 bytes; tokens
    \<open>header.payload.signature\<close> with an injective MAC and \<open>exp = iat + 7 days\<close>),
    with the codec round trips and \<open>jwt_verify_sign\<close>.
  \<^item> \<open>Store\<close>: \<open>users.json\<close> (\<open>readUsers\<close>, \<open>writeUsers\<close>, lines 20--43) as its
    contents, the user record, and the store invariant \<open>wf_store\<close>.
  \<^item> \<open>StoreText\<close>: the text of \<open>users.json\<close>: the user object of line 113
    (\<open>user_json\<close>), \<open>writeUsers_text\<close>, \<open>readUsers_text\<close> (with the
    \<open>|| '[]'\<close> fallback) and the start-up text, and the abstraction
    \<open>file_text\<close> from the file model of \<open>Store\<close> to the text.
  \<^item> \<open>Auth\<close>: the response type (reply, Express's 500 on a synchronous throw, no
    reply on an async rejection, Express's 400 page for a refused body), \<open>authMiddleware\<close> and the handlers signup (two
    steps around its \<open>await\<close>), login and \<open>/auth/me\<close> (lines 46--57, 107--138).
  \<^item> \<open>Watchlist\<close>: \<open>GET\<close>/\<open>POST /api/watchlist\<close> (lines 141--162), the toggle
    and its abstract view as a set of id keys.
  \<^item> \<open>Proxy\<close>: the four TMDb handlers (lines 60--103) with the upstream service
    as a function parameter.
  \<^item> \<open>Server\<close>: start-up (lines 14--28), the route table in registration order
    with Express's matching rules, the static files and the catch-all
    (lines 60--168); \<open>express_json\<close> is \<open>app.use(express.json())\<close>
    (line 30) in strict mode and \<open>serve_http\<close> the app on the request text;
    \<open>serve\<close> handles one parsed request, \<open>serve_all\<close> a sequence, and
    \<open>srv_step\<close>/\<open>srv_reach\<close> interleave requests with signups suspended at
    \<open>await bcrypt.hash\<close>.
  \<^item> \<open>Client\<close>: the page state (\<open>client\<close>), \<open>apiFetch\<close> sending
    \<open>JSON.stringify\<close> bodies to \<open>serve_http\<close> (\<open>fetch_request\<close>), the
    hash router, the renderers as far as they decide what is shown or throw,
    the click handlers, and the browser's event loop \<open>cl_step\<close> with the async
    functions suspended at their \<open>await\<close>s (\<open>fetchAndRenderHome\<close> twice,
    \<open>renderAccount\<close> once).
  \<^item> \<open>ApiProps\<close>: properties across handlers: what one request leaves for
    the next, and what a signup suspended at its \<open>await\<close> does to a
    watchlist written in the meantime.

  \<^bold>\<open>What the lemmas show.\<close>
  \<^item> Watchlist: toggling is the symmetric difference on id keys (C2), toggling
    twice restores the reply and the file (C1), an invalid movie is refused
    without a write (C4), a toggle changes the length by exactly one (C20).
  \<^item> Store invariant: serving any sequence of requests (C3) and any
    interleaving of requests with pending signups (C8, by rule induction on
    \<open>srv_reach\<close>) keeps the users file well formed.
  \<^item> Authentication: duplicate emails are refused (C5); both login failures get
    the same reply (C6); issued tokens pass the middleware for seven days (C7);
    signup then login compares only the first 72 bytes (C9); the signup token
    names the first user whose id is the signup millisecond, so two signups in
    one millisecond share an account (C10); a login without a string password
    is never answered (C11); protected routes answer the middleware's 401
    without a write (C14).
  \<^item> Proxy: a client-supplied \<open>api_key\<close> replaces the server's (C12).
  \<^item> Replies: every answer of the server, through the body parser and under
    any interleaving, is status 200 or an error status with a non-empty
    \<open>{error}\<close> string (C21).
  \<^item> Store text: the text of \<open>users.json\<close> refines the file model for
    \<open>readUsers\<close>, \<open>writeUsers\<close> and start-up (C22).
  \<^item> Across handlers: a watchlist toggle answered 200 is what the next
    \<open>GET /api/watchlist\<close> of that user reads (C24).
  \<^item> Races: two overlapping signups are both answered 200 but the second write
    loses the first account (C13); a signup suspended across another user's
    watchlist toggle erases that toggle after it was answered 200 (C25); the
    first page load starts \<open>fetchAndRenderHome\<close> twice and, for every server
    and upstream, shows twice the rows of a load at \<open>#movies\<close> (C18); a
    suspended \<open>renderAccount\<close> overwrites whatever page the user moved to
    (C23).
  \<^item> Client: the stored token is always one the server signed (C15, rule
    induction on \<open>cl_reach\<close> over every client step composed with the
    server); a logged-in toggle appends the movie on the server and alerts the
    new length (C16); an expired token is dropped on the 401 (C17); unknown
    hashes such as \<open>#/\<close> hide the home page while loading it (C19).

  \<^bold>\<open>Termination and bounds.\<close> Every function is total and every recursion
  is structural. Two take fuel. The JSON parser (\<open>parse_value\<close> and its
  mutual companions) takes one unit per nesting level; \<open>json_parse s\<close> gives
  it \<open>length s + 1\<close>, which is enough for every printed value because a
  value's nesting measure \<open>jsize\<close> is at most the length of its text
  (\<open>jsize_le_print\<close>, \<open>jsize_le_pretty\<close>). \<open>js_trim\<close> removes one
  whitespace code point per unit and gets the string's length, which is
  enough (\<open>drop_ws_enough\<close>). A request the server never answers is the
  value \<open>No_Reply\<close> (an unhandled rejection; the model takes Express 4 on a
  Node that leaves the request pending); the client caller then stays
  suspended for ever, which the model renders as the task being dropped with
  no further effect. Integers are unbounded: the code's numbers are JSON
  numbers and \<open>Date.now()\<close>, far from any overflow.

  \<^bold>\<open>Not modelled.\<close> The HTML text the client's templates produce (only
  what they show and whether building them throws is modelled), CSS, the
  simulated playback \<open>alert\<close> of the overlay;
  the static file server's contents, the \<open>cors\<close> middleware (it only adds
  response headers and answers preflights, and the model has no headers),
  \<open>dotenv\<close>, \<open>app.listen\<close>, the body parser's size limit and charsets.
  JSON numbers with a fraction or an exponent: the model's values are
  integers, so the parser rejects them, and a body holding one gets 400. The stored bcrypt hash text is a
  hexadecimal stand-in for bcrypt's own encoding.
  Concurrency is modelled as interleaving at \<open>await\<close> points: Node and the
  browser run one handler step at a time; the client's login, signup, search,
  overlay and watchlist handlers run to completion in one step, and
  \<open>renderAccount\<close>'s two requests are one step.
\<close>

end
